theory Spec2Isabelle
  imports Main "HOL-Library.Word"
begin

unbundle bit_operations_syntax

section \<open>Machine types\<close>

type_synonym byte = "8 word"
type_synonym uint16 = "16 word"
type_synonym uint32 = "32 word"
type_synonym uint64 = "64 word"

text \<open>\<^verbatim>\<open>binary.BigEndian.Uint16\<close> and \<^verbatim>\<open>binary.BigEndian.Uint32\<close> on the first
  two (four) bytes of a slice that holds at least that many.\<close>

definition Uint16 :: "byte \<Rightarrow> byte \<Rightarrow> uint16" where
  "Uint16 b0 b1 = (ucast b1) OR push_bit 8 (ucast b0)"

definition Uint32 :: "byte \<Rightarrow> byte \<Rightarrow> byte \<Rightarrow> byte \<Rightarrow> uint32" where
  "Uint32 b0 b1 b2 b3 =
     (ucast b3) OR push_bit 8 (ucast b2) OR push_bit 16 (ucast b1) OR push_bit 24 (ucast b0)"

section \<open>TLV codec (Lwm2mTLV)\<close>

datatype Lwm2mTLV = Lwm2mTLV
  (TypeOfID: byte)
  (ID: uint16)
  (Length: uint32)
  (Value: "byte list")
  (Contents: "Lwm2mTLV list")

text \<open>The zero value \<^verbatim>\<open>&Lwm2mTLV{}\<close>.\<close>

definition emptyTLV :: Lwm2mTLV where
  "emptyTLV = Lwm2mTLV 0 0 0 [] []"

text \<open>\<^verbatim>\<open>Marshal\<close>: the header byte is built by wrapping byte additions, the id takes
  one or two bytes, the length zero to three bytes, and \<^verbatim>\<open>Value\<close> is appended whatever
  \<^verbatim>\<open>Length\<close> says. \<^verbatim>\<open>Contents\<close> is not read.\<close>

definition marshalID :: "uint16 \<Rightarrow> byte \<times> byte list" where
  "marshalID i =
     (if i \<le> 0xFF then (0, [ucast i])
      else (push_bit 5 1, [ucast (drop_bit 8 i), ucast (i AND 0x00FF)]))"

definition marshalLength :: "uint32 \<Rightarrow> byte \<times> byte list" where
  "marshalLength l =
     (if l \<le> 0x07 then (ucast l, [])
      else if l \<le> 0xFF then (push_bit 3 1, [ucast l])
      else if l \<ge> 0xFFFF then
        (push_bit 3 2, [ucast (drop_bit 8 l), ucast (l AND 0x0000FF)])
      else
        (push_bit 3 3,
         [ucast (drop_bit 16 l), ucast (drop_bit 8 l AND 0x0000FF), ucast (l AND 0x0000FF)]))"

definition Marshal :: "Lwm2mTLV \<Rightarrow> byte list" where
  "Marshal tlv =
     (let (f1, idBytes) = marshalID (ID tlv);
          (f2, lenBytes) = marshalLength (Length tlv)
      in (push_bit 6 (TypeOfID tlv) + f1 + f2) # idBytes @ lenBytes @ Value tlv)"

text \<open>\<^verbatim>\<open>Unmarshal\<close> writes the fields of its receiver as it goes and returns the number
  of bytes read, or \<open>-1\<close>; on \<open>-1\<close> the fields written so far stay written. The
  receiver's \<^verbatim>\<open>Contents\<close> is never touched.\<close>

definition unmarshalID :: "byte list \<Rightarrow> (uint16 \<times> nat) option" where
  "unmarshalID raw =
     (if drop_bit 5 (raw ! 0) AND 0x01 = 0 then
        (if length raw < 1 + 1 then None else Some (ucast (raw ! 1), 1 + 1))
      else
        (if length raw < 1 + 2 then None else Some (Uint16 (raw ! 1) (raw ! 2), 1 + 2)))"

definition unmarshalLength :: "byte list \<Rightarrow> nat \<Rightarrow> (uint32 \<times> nat) option" where
  "unmarshalLength raw parsedIndex =
     (let lengthType = drop_bit 3 (raw ! 0) AND 0x03 in
      if lengthType = 0 then Some (ucast (raw ! 0 AND 0x07), parsedIndex)
      else if lengthType = 1 then
        (if length raw < parsedIndex + 1 then None
         else Some (ucast (raw ! parsedIndex), parsedIndex + 1))
      else if lengthType = 2 then
        (if length raw < parsedIndex + 2 then None
         else Some (ucast (Uint16 (raw ! parsedIndex) (raw ! (parsedIndex + 1))),
                    parsedIndex + 2))
      else
        (if length raw < parsedIndex + 3 then None
         else Some (Uint32 0 (raw ! parsedIndex) (raw ! (parsedIndex + 1))
                      (raw ! (parsedIndex + 2)),
                    parsedIndex + 3)))"

definition Unmarshal :: "Lwm2mTLV \<Rightarrow> byte list \<Rightarrow> Lwm2mTLV \<times> int" where
  "Unmarshal tlv raw =
     (if length raw < 0 + 1 then (tlv, -1)
      else
        let ty = drop_bit 6 (raw ! 0) AND 0x03 in
        case unmarshalID raw of
          None \<Rightarrow> (Lwm2mTLV ty (ID tlv) (Length tlv) (Value tlv) (Contents tlv), -1)
        | Some (i, parsedIndex) \<Rightarrow>
            (case unmarshalLength raw parsedIndex of
               None \<Rightarrow> (Lwm2mTLV ty i (Length tlv) (Value tlv) (Contents tlv), -1)
             | Some (l, parsedIndex) \<Rightarrow>
                 if length raw < parsedIndex + unat l then
                   (Lwm2mTLV ty i l (Value tlv) (Contents tlv), -1)
                 else
                   (Lwm2mTLV ty i l (take (unat l) (drop parsedIndex raw)) (Contents tlv),
                    int (parsedIndex + unat l))))"

definition TotalLength :: "Lwm2mTLV \<Rightarrow> int" where
  "TotalLength tlv =
     (let ret = 1;
          ret = (if ID tlv \<le> 0xFF then ret + 1 else ret + 2);
          ret = (if Length tlv \<le> 0x07 then ret
                 else if Length tlv \<le> 0xFF then ret + 1
                 else if Length tlv \<ge> 0xFFFF then ret + 2
                 else ret + 3)
      in ret + int (length (Value tlv)))"

section \<open>Run-time failures and errors\<close>

text \<open>A Go run-time panic ends the function (and, unrecovered, the process); a function
  that can panic returns \<open>panic + 'a\<close>, with \<open>Inl\<close> the panic. \<open>InvalidKeySize\<close> is the
  \<^verbatim>\<open>panic(err)\<close> on the error of \<^verbatim>\<open>aes.NewCipher\<close>, \<open>InputNotFullBlocks\<close> the panic of
  \<^verbatim>\<open>CryptBlocks\<close>; \<open>NeverReturns\<close> stands for a loop that
  does not end. A Go \<^verbatim>\<open>error\<close> value is a \<open>goerror\<close>; \<^verbatim>\<open>nil\<close> is \<open>None\<close>.\<close>

datatype panic = IndexOutOfRange | SliceBoundsOutOfRange | NilPointerDereference
  | MakeSliceLenOutOfRange | InvalidKeySize | InputNotFullBlocks | NeverReturns

datatype goerror = GoError string

section \<open>CoAP messages\<close>

type_synonym uint = uint64
type_synonym CoapCode = byte

abbreviation (input) CoapTypeConfirmable :: byte where "CoapTypeConfirmable \<equiv> 0"
abbreviation (input) CoapTypeNonConfirmable :: byte where "CoapTypeNonConfirmable \<equiv> 1"
abbreviation (input) CoapTypeAcknowledgement :: byte where "CoapTypeAcknowledgement \<equiv> 2"
abbreviation (input) CoapTypeReset :: byte where "CoapTypeReset \<equiv> 3"

abbreviation (input) CoapCodeGet :: CoapCode where "CoapCodeGet \<equiv> 1"
abbreviation (input) CoapCodePost :: CoapCode where "CoapCodePost \<equiv> 2"
abbreviation (input) CoapCodePut :: CoapCode where "CoapCodePut \<equiv> 3"
abbreviation (input) CoapCodeDelete :: CoapCode where "CoapCodeDelete \<equiv> 4"
abbreviation (input) CoapCodeContent :: CoapCode where "CoapCodeContent \<equiv> 69"
abbreviation (input) CoapCodeNotFound :: CoapCode where "CoapCodeNotFound \<equiv> 132"
abbreviation (input) CoapCodeNotAllowed :: CoapCode where "CoapCodeNotAllowed \<equiv> 133"

abbreviation (input) coapContentFormatLwm2mTLV :: uint16 where "coapContentFormatLwm2mTLV \<equiv> 11542"

abbreviation (input) coapOptionNoObserve :: uint where "coapOptionNoObserve \<equiv> 6"
abbreviation (input) coapOptionNoURIPath :: uint where "coapOptionNoURIPath \<equiv> 11"
abbreviation (input) coapOptionNoContentFormat :: uint where "coapOptionNoContentFormat \<equiv> 12"

abbreviation (input) coapObserveRegister :: byte where "coapObserveRegister \<equiv> 0"

abbreviation (input) coapOptCodeByte :: uint where "coapOptCodeByte \<equiv> 13"
abbreviation (input) coapOptCodeWord :: uint where "coapOptCodeWord \<equiv> 14"
abbreviation (input) coapOptByteBase :: uint where "coapOptByteBase \<equiv> 13"
abbreviation (input) coapOptWordBase :: uint where "coapOptWordBase \<equiv> 269"

text \<open>\<^verbatim>\<open>CoapOption\<close> (its field \<^verbatim>\<open>Value\<close> is \<open>optValue\<close> here) and \<^verbatim>\<open>CoapMessage\<close> (its
  field \<^verbatim>\<open>Type\<close> is \<open>msgType\<close>).\<close>

record CoapOption =
  No :: uint
  optValue :: "byte list"

record CoapMessage =
  Version :: byte
  msgType :: byte
  TokenLength :: byte
  Code :: CoapCode
  MessageID :: uint16
  Token :: "byte list"
  Options :: "CoapOption list"
  Payload :: "byte list"

text \<open>\<^verbatim>\<open>ParseOption\<close> reads one option from \<open>raw\<close> and returns it with the number of
  bytes it takes. The extension bytes and the value are read without a length check: an index
  or a slice bound past the end of \<open>raw\<close> panics (the slice handed down by
  \<^verbatim>\<open>ReadCoapMessage\<close> has no spare capacity). The one-byte extension is added to 13 as a
  byte, so it wraps at 256; of the two-byte extension the first byte is shifted right by 8,
  not left.\<close>

definition parseExt :: "byte list \<Rightarrow> uint \<Rightarrow> nat \<Rightarrow> panic + (uint \<times> nat)" where
  "parseExt raw nibble at =
     (if nibble = coapOptCodeByte then
        (if length raw \<le> 1 + at then Inl IndexOutOfRange
         else Inr (ucast (raw ! (1 + at) + 13), 1))
      else if nibble = coapOptCodeWord then
        (if length raw \<le> 2 + at then Inl IndexOutOfRange
         else Inr (drop_bit 8 (ucast (raw ! (1 + at))) + ucast (raw ! (2 + at)) + coapOptWordBase,
                   2))
      else Inr (nibble, 0))"

definition ParseOption :: "byte list \<Rightarrow> uint \<Rightarrow> panic + (CoapOption \<times> nat)" where
  "ParseOption raw base =
     (if length raw < 1 then Inl IndexOutOfRange
      else
        case parseExt raw (drop_bit 4 (ucast (raw ! 0))) 0 of
          Inl p \<Rightarrow> Inl p
        | Inr (delta, deltaLength) \<Rightarrow>
            (case parseExt raw (ucast (raw ! 0) AND 0x0F) deltaLength of
               Inl p \<Rightarrow> Inl p
             | Inr (len, lengthLength) \<Rightarrow>
                 if length raw < 1 + deltaLength + lengthLength + unat len
                 then Inl SliceBoundsOutOfRange
                 else Inr (\<lparr>No = base + delta,
                            optValue = take (unat len) (drop (1 + deltaLength + lengthLength) raw)\<rparr>,
                           1 + deltaLength + lengthLength + unat len)))"

lemma ParseOption_consumes:
  "ParseOption raw base = Inr (opt, n) \<Longrightarrow> 0 < n"
  by (auto simp: ParseOption_def split: if_splits sum.splits prod.splits)

text \<open>\<^verbatim>\<open>ParseOptions\<close>: options are read until the bytes end or the payload marker
  \<open>0xFF\<close> is met; the marker is counted in the length returned.\<close>

function ParseOptionsLoop ::
  "byte list \<Rightarrow> uint \<Rightarrow> CoapOption list \<Rightarrow> nat \<Rightarrow> panic + (CoapOption list \<times> nat)" where
  "ParseOptionsLoop raw base opts len =
     (if length raw > len \<and> raw ! len \<noteq> 0xFF then
        (case ParseOption (drop len raw) base of
           Inl p \<Rightarrow> Inl p
         | Inr (opt, optionLength) \<Rightarrow>
             ParseOptionsLoop raw (No opt) (opts @ [opt]) (len + optionLength))
      else Inr (opts, len))"
  by pat_completeness auto
termination
proof (relation "measure (\<lambda>(raw, base, opts, len). length raw - len)")
  show "wf (measure (\<lambda>(raw, base, opts, len). length raw - len))" by simp
next
  fix raw :: "byte list" and base :: uint and opts :: "CoapOption list" and len :: nat
    and x2 :: "CoapOption \<times> nat" and opt :: CoapOption and optionLength :: nat
  assume "length raw > len \<and> raw ! len \<noteq> 0xFF"
    and "ParseOption (drop len raw) base = Inr x2" and "(opt, optionLength) = x2"
  then have "0 < optionLength" "len < length raw"
    using ParseOption_consumes [of "drop len raw" base opt optionLength] by auto
  then show "((raw, No opt, opts @ [opt], len + optionLength), (raw, base, opts, len))
               \<in> measure (\<lambda>(raw, base, opts, len). length raw - len)"
    by simp
qed

declare ParseOptionsLoop.simps [simp del]

definition ParseOptions :: "CoapMessage \<Rightarrow> byte list \<Rightarrow> panic + (CoapMessage \<times> nat)" where
  "ParseOptions message raw =
     (case ParseOptionsLoop raw 0 (Options message) 0 of
        Inl p \<Rightarrow> Inl p
      | Inr (opts, len) \<Rightarrow>
          Inr (message\<lparr>Options := opts\<rparr>,
               if length raw > len \<and> raw ! len = 0xFF then len + 1 else len))"

text \<open>\<^verbatim>\<open>ParseMessage\<close>: \<open>Inr None\<close> is the \<^verbatim>\<open>nil\<close> it returns for a datagram shorter than
  its header and token.\<close>

definition ParseMessage :: "byte list \<Rightarrow> panic + CoapMessage option" where
  "ParseMessage raw =
     (if length raw < 4 then Inr None
      else
        let tkl = raw ! 0 AND 0x0F;
            ret = \<lparr>Version = drop_bit 6 (raw ! 0),
                   msgType = drop_bit 4 (raw ! 0) AND 0x03,
                   TokenLength = tkl,
                   Code = raw ! 1,
                   MessageID = push_bit 8 (ucast (raw ! 2)) + ucast (raw ! 3),
                   Token = [], Options = [], Payload = []\<rparr>
        in
        if length raw < 4 + unat tkl then Inr None
        else
          case ParseOptions (ret\<lparr>Token := take (unat tkl) (drop 4 raw)\<rparr>)
                 (drop (4 + unat tkl) raw) of
            Inl p \<Rightarrow> Inl p
          | Inr (ret, optionsLength) \<Rightarrow>
              Inr (Some (ret\<lparr>Payload := drop (4 + unat tkl + optionsLength) raw\<rparr>)))"

text \<open>\<^verbatim>\<open>BuildOption\<close>: \<open>delta\<close> is computed in \<^verbatim>\<open>uint\<close>, \<open>length\<close> is an \<^verbatim>\<open>int\<close>; the
  conversions to \<^verbatim>\<open>byte\<close> keep the low eight bits. The width of the length extension is
  chosen by the test \<^verbatim>\<open>delta < coapOptWordBase\<close>, as the source has it.\<close>

definition BuildOption :: "CoapOption \<Rightarrow> uint \<Rightarrow> byte list" where
  "BuildOption option base =
     (let delta = No option - base;
          len = int (length (optValue option));
          (h1, ext1) =
            (if delta < coapOptByteBase then (ucast (push_bit 4 delta) :: byte, [])
             else if delta < coapOptWordBase then
               (ucast (push_bit 4 coapOptCodeByte), [ucast (delta - coapOptByteBase)])
             else
               (ucast (push_bit 4 coapOptCodeWord),
                [ucast (drop_bit 8 (delta - coapOptWordBase)),
                 ucast ((delta - coapOptWordBase) AND 0x00FF)]));
          (h2, ext2) =
            (if len < 13 then (word_of_int len :: byte, [])
             else if delta < coapOptWordBase then
               (ucast coapOptCodeByte, [word_of_int (len - 13)])
             else
               (ucast coapOptCodeWord,
                [word_of_int ((len - 269) div 256), word_of_int ((len - 269) mod 256)]))
      in (h1 + h2) # ext1 @ ext2 @ optValue option)"

text \<open>\<^verbatim>\<open>BuildOptions\<close> sorts the options by number with \<^verbatim>\<open>sort.Slice\<close> and encodes each
  against the number of the one before. \<^verbatim>\<open>sort.Slice\<close> promises no order among equal
  numbers; the model keeps them in their given order, as an insertion sort does.\<close>

fun BuildOptionsLoop :: "CoapOption list \<Rightarrow> uint \<Rightarrow> byte list" where
  "BuildOptionsLoop [] base = []"
| "BuildOptionsLoop (option # rest) base =
     BuildOption option base @ BuildOptionsLoop rest (No option)"

definition BuildOptions :: "CoapMessage \<Rightarrow> byte list" where
  "BuildOptions message = BuildOptionsLoop (sort_key No (Options message)) 0"

definition ConvertToBytes :: "CoapMessage \<Rightarrow> byte list" where
  "ConvertToBytes message =
     (push_bit 6 (Version message) + push_bit 4 (msgType message) + TokenLength message)
     # Code message
     # ucast (drop_bit 8 (MessageID message)) # ucast (MessageID message)
     # Token message @ BuildOptions message
     @ (if length (Payload message) > 0 then 0xFF # Payload message else [])"

section \<open>Decimal strings (\<^verbatim>\<open>strconv\<close>) and library functions\<close>

text \<open>Go strings are byte strings; \<open>string\<close> is a list of 8-bit characters.\<close>

definition bytesOfString :: "string \<Rightarrow> byte list" where
  "bytesOfString str = map (\<lambda>c. of_nat (of_char c)) str"

definition stringOfBytes :: "byte list \<Rightarrow> string" where
  "stringOfBytes buf = map (\<lambda>b. char_of (unat b)) buf"

text \<open>\<^verbatim>\<open>strconv.ParseInt(s, 10, bitSize)\<close> as the library documents it: an optional sign and
  decimal digits; the value 0 with an error on bad syntax; the nearest value of the bit size
  with an error when out of range. The result is the value and whether the error is set.\<close>

definition digitVal :: "char \<Rightarrow> nat option" where
  "digitVal c =
     (if (48::nat) \<le> of_char c \<and> of_char c \<le> (57::nat) then Some (of_char c - 48) else None)"

fun parseDigits :: "string \<Rightarrow> nat \<Rightarrow> nat option" where
  "parseDigits [] acc = Some acc"
| "parseDigits (c # cs) acc =
     (case digitVal c of None \<Rightarrow> None | Some d \<Rightarrow> parseDigits cs (acc * 10 + d))"

definition ParseInt :: "string \<Rightarrow> nat \<Rightarrow> int \<times> bool" where
  "ParseInt str bitSize =
     (case str of
        [] \<Rightarrow> (0, True)
      | c # cs \<Rightarrow>
          let neg = (c = CHR ''-'');
              ds = (if c = CHR ''+'' \<or> c = CHR ''-'' then cs else str)
          in
          if ds = [] then (0, True)
          else
            (case parseDigits ds 0 of
               None \<Rightarrow> (0, True)
             | Some un \<Rightarrow>
                 let cutoff = (2::nat) ^ (bitSize - 1) in
                 if \<not> neg \<and> un \<ge> cutoff then (int cutoff - 1, True)
                 else if neg \<and> un > cutoff then (- int cutoff, True)
                 else (if neg then - int un else int un, False)))"

text \<open>\<^verbatim>\<open>strconv.Atoi\<close>: the value, or the error.\<close>

definition Atoi :: "string \<Rightarrow> goerror + int" where
  "Atoi str = (case ParseInt str 64 of
                 (n, True) \<Rightarrow> Inl (GoError ''strconv.Atoi'')
               | (n, False) \<Rightarrow> Inr n)"

text \<open>\<^verbatim>\<open>strconv.FormatInt(i, 10)\<close> and \<^verbatim>\<open>strconv.Itoa\<close>.\<close>

fun decDigits :: "nat \<Rightarrow> string" where
  "decDigits n =
     (if n < 10 then [char_of (48 + n)]
      else decDigits (n div 10) @ [char_of (48 + n mod 10)])"

declare decDigits.simps [simp del]

definition FormatInt :: "int \<Rightarrow> string" where
  "FormatInt i = (if i < 0 then CHR ''-'' # decDigits (nat (- i)) else decDigits (nat i))"

text \<open>\<^verbatim>\<open>strings.Split(str, ":")\<close>.\<close>

fun splitColon :: "string \<Rightarrow> string \<Rightarrow> string list" where
  "splitColon [] cur = [cur]"
| "splitColon (c # cs) cur =
     (if c = CHR '':'' then cur # splitColon cs [] else splitColon cs (cur @ [c]))"

text \<open>The floating-point and base64 functions of the Go library are parameters of the
  model: \<open>ParseFloat64bits\<close> is \<^verbatim>\<open>math.Float64bits\<close> of \<^verbatim>\<open>strconv.ParseFloat(str, 64)\<close>,
  \<open>FormatFloat32\<close> and \<open>FormatFloat64\<close> are \<^verbatim>\<open>strconv.FormatFloat(_, 'g', 6, _)\<close> of the
  number with the given bits, \<open>Base64Decode\<close> gives the bytes that
  \<^verbatim>\<open>base64.StdEncoding.DecodeString\<close> returns (also beside an error).\<close>

record StdLib =
  ParseFloat64bits :: "string \<Rightarrow> uint64"
  FormatFloat32 :: "uint32 \<Rightarrow> string"
  FormatFloat64 :: "uint64 \<Rightarrow> string"
  Base64Encode :: "byte list \<Rightarrow> string"
  Base64Decode :: "string \<Rightarrow> byte list"

definition Uint64 :: "byte list \<Rightarrow> uint64" where
  "Uint64 b =
     ucast (b ! 7) OR push_bit 8 (ucast (b ! 6)) OR push_bit 16 (ucast (b ! 5))
     OR push_bit 24 (ucast (b ! 4)) OR push_bit 32 (ucast (b ! 3)) OR push_bit 40 (ucast (b ! 2))
     OR push_bit 48 (ucast (b ! 1)) OR push_bit 56 (ucast (b ! 0))"

definition PutUint16 :: "uint16 \<Rightarrow> byte list" where
  "PutUint16 v = [ucast (drop_bit 8 v), ucast v]"

definition PutUint32 :: "uint32 \<Rightarrow> byte list" where
  "PutUint32 v = [ucast (drop_bit 24 v), ucast (drop_bit 16 v), ucast (drop_bit 8 v), ucast v]"

definition PutUint64 :: "uint64 \<Rightarrow> byte list" where
  "PutUint64 v =
     [ucast (drop_bit 56 v), ucast (drop_bit 48 v), ucast (drop_bit 40 v), ucast (drop_bit 32 v),
      ucast (drop_bit 24 v), ucast (drop_bit 16 v), ucast (drop_bit 8 v), ucast v]"

section \<open>Resource values on the wire\<close>

abbreviation (input) lwm2mTLVTypeResouce :: byte where "lwm2mTLVTypeResouce \<equiv> 3"

abbreviation (input) lwm2mResourceTypeString :: byte where "lwm2mResourceTypeString \<equiv> 0"
abbreviation (input) lwm2mResourceTypeInteger :: byte where "lwm2mResourceTypeInteger \<equiv> 1"
abbreviation (input) lwm2mResourceTypeFloat :: byte where "lwm2mResourceTypeFloat \<equiv> 2"
abbreviation (input) lwm2mResourceTypeBoolean :: byte where "lwm2mResourceTypeBoolean \<equiv> 3"
abbreviation (input) lwm2mResourceTypeOpaque :: byte where "lwm2mResourceTypeOpaque \<equiv> 4"
abbreviation (input) lwm2mResourceTypeTime :: byte where "lwm2mResourceTypeTime \<equiv> 5"
abbreviation (input) lwm2mResourceTypeObjlnk :: byte where "lwm2mResourceTypeObjlnk \<equiv> 6"
abbreviation (input) lwm2mResourceTypeNone :: byte where "lwm2mResourceTypeNone \<equiv> 7"

text \<open>\<^verbatim>\<open>convertTLVValueToString\<close>. The buffer is a slice without spare capacity (the
  \<^verbatim>\<open>Value\<close> that \<^verbatim>\<open>Unmarshal\<close> makes), so a slice bound past its length panics. A one-byte
  integer is converted with \<^verbatim>\<open>(int)(buf[0])\<close>, from the unsigned byte; the wider ones go
  through \<^verbatim>\<open>int16\<close>, \<^verbatim>\<open>int32\<close> and \<^verbatim>\<open>int64\<close>.\<close>

definition convertTLVValueToString :: "StdLib \<Rightarrow> byte list \<Rightarrow> byte \<Rightarrow> panic + string" where
  "convertTLVValueToString L buf resourceType =
     (if resourceType = lwm2mResourceTypeInteger \<or> resourceType = lwm2mResourceTypeTime then
        (if length buf = 1 then Inr (FormatInt (uint (buf ! 0)))
         else if length buf = 2 then Inr (FormatInt (sint (Uint16 (buf ! 0) (buf ! 1))))
         else if length buf = 4 then
           Inr (FormatInt (sint (Uint32 (buf ! 0) (buf ! 1) (buf ! 2) (buf ! 3))))
         else if length buf = 8 then Inr (FormatInt (sint (Uint64 buf)))
         else Inr [])
      else if resourceType = lwm2mResourceTypeFloat then
        (if length buf = 4 then
           Inr (FormatFloat32 L (Uint32 (buf ! 0) (buf ! 1) (buf ! 2) (buf ! 3)))
         else if length buf = 8 then Inr (FormatFloat64 L (Uint64 buf))
         else Inr [])
      else if resourceType = lwm2mResourceTypeBoolean then
        (if length buf < 1 then Inl IndexOutOfRange
         else if buf ! 0 = 1 then Inr ''true'' else Inr ''false'')
      else if resourceType = lwm2mResourceTypeOpaque then Inr (Base64Encode L buf)
      else if resourceType = lwm2mResourceTypeObjlnk then
        (if length buf < 4 then Inl SliceBoundsOutOfRange
         else Inr (FormatInt (sint (Uint16 (buf ! 0) (buf ! 1))) @ '':''
                   @ FormatInt (sint (Uint16 (buf ! 2) (buf ! 3)))))
      else Inr (stringOfBytes buf))"

text \<open>\<^verbatim>\<open>convertStringToTLVValue\<close>. The error of \<^verbatim>\<open>ParseInt\<close> is dropped, the value kept.\<close>

definition convertStringToTLVValue :: "StdLib \<Rightarrow> string \<Rightarrow> byte \<Rightarrow> panic + byte list" where
  "convertStringToTLVValue L str resourceType =
     (if resourceType = lwm2mResourceTypeInteger \<or> resourceType = lwm2mResourceTypeTime then
        (let num = fst (ParseInt str 64) in
         if num < 2 ^ 7 \<and> num \<ge> - (2 ^ 7) then Inr [word_of_int num]
         else if num < 2 ^ 15 \<and> num \<ge> - (2 ^ 15) then Inr (PutUint16 (word_of_int num))
         else if num < 2 ^ 31 \<and> num \<ge> - (2 ^ 31) then Inr (PutUint32 (word_of_int num))
         else Inr (PutUint64 (word_of_int num)))
      else if resourceType = lwm2mResourceTypeFloat then
        Inr (PutUint64 (ParseFloat64bits L str))
      else if resourceType = lwm2mResourceTypeBoolean then
        (if str = ''true'' then Inr [1] else Inr [0])
      else if resourceType = lwm2mResourceTypeOpaque then Inr (Base64Decode L str)
      else if resourceType = lwm2mResourceTypeObjlnk then
        (let links = splitColon str [] in
         if length links < 2 then Inl IndexOutOfRange
         else Inr (PutUint16 (word_of_int (fst (ParseInt (links ! 0) 16)))
                   @ PutUint16 (word_of_int (fst (ParseInt (links ! 1) 16)))))
      else Inr (bytesOfString str))"

section \<open>The LwM2M agent: data\<close>

text \<open>The structs of the agent. A field name that two structs share carries a prefix here
  (\<^verbatim>\<open>Lwm2mResourceDefinition.ID\<close> is \<open>rdID\<close>, \<^verbatim>\<open>Lwm2mResource.ID\<close> is \<open>resID\<close>, and so
  on); a pointer field is an \<open>option\<close>, \<^verbatim>\<open>nil\<close> being \<open>None\<close>. The catalogue of
  definitions holds no \<^verbatim>\<open>nil\<close> entry.\<close>

record Lwm2mResourceDefinition =
  rdID :: uint16
  rdName :: string
  rdMulti :: bool
  rdMandatory :: bool
  Readable :: bool
  Writable :: bool
  Excutable :: bool
  rdType :: byte

record Lwm2mObjectDefinition =
  odID :: uint16
  odName :: string
  odMulti :: bool
  odMandatory :: bool
  Resources :: "Lwm2mResourceDefinition list"

record Lwm2mObject =
  objID :: uint16
  objDefinition :: "Lwm2mObjectDefinition option"

record Lwm2mInstance =
  instID :: uint16
  instObjectID :: uint16

record Lwm2mResource =
  resID :: uint16
  resObjectID :: uint16
  resInstanceID :: uint16
  resDefinition :: "Lwm2mResourceDefinition option"

record Lwm2mObservedResource =
  token :: "byte list"
  messageID :: uint16
  observeCount :: uint32
  resource :: "Lwm2mResource option"
  lastValue :: string

record Lwm2mObservedInstance =
  oiToken :: "byte list"
  oiMessageID :: uint16
  oiObserveCount :: uint32
  oiInstance :: "Lwm2mInstance option"
  oiResources :: "Lwm2mObservedResource list"

text \<open>The \<^verbatim>\<open>Lwm2mHandler\<close> interface, as far as reading goes: each method is a function of
  its arguments for the time of one operation of the agent. A change of the stored values
  between two operations is a change of the handler.\<close>

record Lwm2mHandler =
  ListObjectIDs :: "uint16 list \<times> CoapCode"
  ListInstanceIDs :: "Lwm2mObject \<Rightarrow> uint16 list \<times> CoapCode"
  ListResourceIDs :: "Lwm2mInstance \<Rightarrow> uint16 list \<times> CoapCode"
  ReadResource :: "Lwm2mResource \<Rightarrow> string \<times> CoapCode"

text \<open>The \<^verbatim>\<open>Coap\<close> connection: the next message id and the messages written to the
  connection so far, oldest first (each goes out as its \<^verbatim>\<open>ConvertToBytes\<close>).\<close>

record Coap =
  NextMessageID :: uint16
  sent :: "CoapMessage list"

record Lwm2m =
  endpointClientName :: string
  dmSecurityInstanceID :: uint16
  dmServerInstanceID :: uint16
  handler :: Lwm2mHandler
  Connection :: "Coap option"
  Location :: string
  definitions :: "Lwm2mObjectDefinition list"
  observedInstance :: "Lwm2mObservedInstance list"
  observedResource :: "Lwm2mObservedResource list"
  lifetime :: int
  registered :: bool

section \<open>The LwM2M agent: operations\<close>

definition findObjectDefinitionByID ::
  "Lwm2mObjectDefinition list \<Rightarrow> uint16 \<Rightarrow> Lwm2mObjectDefinition option" where
  "findObjectDefinitionByID defs objectID = find (\<lambda>object. odID object = objectID) defs"

definition findResourceByID ::
  "Lwm2mObjectDefinition \<Rightarrow> uint16 \<Rightarrow> Lwm2mResourceDefinition option" where
  "findResourceByID def resourceID = find (\<lambda>r. rdID r = resourceID) (Resources def)"

definition findResourceDefinitionByIDs ::
  "Lwm2mObjectDefinition list \<Rightarrow> uint16 \<Rightarrow> uint16 \<Rightarrow> Lwm2mResourceDefinition option" where
  "findResourceDefinitionByIDs defs objectID resourceID =
     (case findObjectDefinitionByID defs objectID of
        None \<Rightarrow> None
      | Some objectDefinition \<Rightarrow> findResourceByID objectDefinition resourceID)"

definition findInstance :: "Lwm2m \<Rightarrow> uint16 \<Rightarrow> uint16 \<Rightarrow> Lwm2mInstance option" where
  "findInstance lwm2m objectID instanceID =
     (case ListObjectIDs (handler lwm2m) of (objectIDs, code) \<Rightarrow>
      if code \<noteq> CoapCodeContent then None
      else if objectID \<notin> set objectIDs then None
      else
        case ListInstanceIDs (handler lwm2m)
               \<lparr>objID = objectID,
                objDefinition = findObjectDefinitionByID (definitions lwm2m) objectID\<rparr> of
          (instanceIDs, code) \<Rightarrow>
            if code \<noteq> CoapCodeContent then None
            else if instanceID \<notin> set instanceIDs then None
            else Some \<lparr>instID = instanceID, instObjectID = objectID\<rparr>)"

definition findResource :: "Lwm2m \<Rightarrow> uint16 \<Rightarrow> uint16 \<Rightarrow> uint16 \<Rightarrow> Lwm2mResource option" where
  "findResource lwm2m objectID instanceID resourceID =
     (case ListObjectIDs (handler lwm2m) of (objectIDs, code) \<Rightarrow>
      if code \<noteq> CoapCodeContent then None
      else if objectID \<notin> set objectIDs then None
      else
        case ListInstanceIDs (handler lwm2m)
               \<lparr>objID = objectID,
                objDefinition = findObjectDefinitionByID (definitions lwm2m) objectID\<rparr> of
          (instanceIDs, code) \<Rightarrow>
            if code \<noteq> CoapCodeContent then None
            else if instanceID \<notin> set instanceIDs then None
            else
              case ListResourceIDs (handler lwm2m)
                     \<lparr>instID = instanceID, instObjectID = objectID\<rparr> of
                (resourceIDs, code) \<Rightarrow>
                  if code \<noteq> CoapCodeContent then None
                  else if resourceID \<notin> set resourceIDs then None
                  else
                    Some \<lparr>resID = resourceID, resObjectID = objectID,
                          resInstanceID = instanceID,
                          resDefinition =
                            findResourceDefinitionByIDs (definitions lwm2m) objectID resourceID\<rparr>)"

definition IsObserve :: "CoapMessage \<Rightarrow> bool" where
  "IsObserve message = list_ex (\<lambda>option. No option = coapOptionNoObserve) (Options message)"

text \<open>\<^verbatim>\<open>extractResourceID\<close>: the count of ids and the three ids, or the error.\<close>

fun extractLoop ::
  "CoapOption list \<Rightarrow> nat \<Rightarrow> uint16 list \<Rightarrow> goerror + (nat \<times> uint16 list)" where
  "extractLoop [] idCount idList = Inr (idCount, idList)"
| "extractLoop (option # rest) idCount idList =
     (if No option = coapOptionNoURIPath then
        (if idCount > 2 then Inl (GoError ''too many IDs'')
         else
           case Atoi (stringOfBytes (optValue option)) of
             Inl err \<Rightarrow> Inl err
           | Inr i \<Rightarrow> extractLoop rest (idCount + 1) (idList[idCount := word_of_int i]))
      else extractLoop rest idCount idList)"

definition extractResourceID ::
  "CoapMessage \<Rightarrow> goerror + (nat \<times> uint16 \<times> uint16 \<times> uint16)" where
  "extractResourceID message =
     (case extractLoop (Options message) 0 [0, 0, 0] of
        Inl err \<Rightarrow> Inl err
      | Inr (idCount, idList) \<Rightarrow> Inr (idCount, idList ! 0, idList ! 1, idList ! 2))"

text \<open>\<^verbatim>\<open>SendResponse\<close> and \<^verbatim>\<open>SendRelatedMessage\<close>, called through \<^verbatim>\<open>lwm2m.Connection\<close>: a
  \<^verbatim>\<open>nil\<close> connection panics.\<close>

definition SendResponse ::
  "Lwm2m \<Rightarrow> CoapMessage \<Rightarrow> CoapCode \<Rightarrow> CoapOption list \<Rightarrow> byte list \<Rightarrow> panic + Lwm2m" where
  "SendResponse lwm2m request code options payload =
     (case Connection lwm2m of
        None \<Rightarrow> Inl NilPointerDereference
      | Some coap \<Rightarrow>
          Inr (lwm2m\<lparr>Connection := Some (coap\<lparr>sent := sent coap @
                 [\<lparr>Version = 1, msgType = CoapTypeAcknowledgement,
                   TokenLength = TokenLength request, Code = code,
                   MessageID = MessageID request, Token = Token request,
                   Options = options, Payload = payload\<rparr>]\<rparr>)\<rparr>))"

definition SendRelatedMessage ::
  "Lwm2m \<Rightarrow> CoapCode \<Rightarrow> byte list \<Rightarrow> CoapOption list \<Rightarrow> byte list \<Rightarrow> panic + (Lwm2m \<times> uint16)"
  where
  "SendRelatedMessage lwm2m code tok options payload =
     (case Connection lwm2m of
        None \<Rightarrow> Inl NilPointerDereference
      | Some coap \<Rightarrow>
          Inr (lwm2m\<lparr>Connection := Some (coap\<lparr>
                 NextMessageID := (NextMessageID coap + 1) AND 0xFFFF,
                 sent := sent coap @
                 [\<lparr>Version = 1, msgType = CoapTypeNonConfirmable,
                   TokenLength = of_nat (length tok), Code = code,
                   MessageID = NextMessageID coap, Token = tok,
                   Options = options, Payload = payload\<rparr>]\<rparr>)\<rparr>,
               NextMessageID coap))"

text \<open>The content-format option value and the Observe option value of a notification: the
  counter in the fewest of one to four bytes.\<close>

definition contentFormatTLV :: "byte list" where
  "contentFormatTLV = PutUint16 coapContentFormatLwm2mTLV"

definition observeCountBuf :: "uint32 \<Rightarrow> byte list" where
  "observeCountBuf c =
     (if c \<le> 0xff then drop 3 (PutUint32 c)
      else if c \<le> 0xffff then drop 2 (PutUint32 c)
      else if c \<le> 0xffffff then drop 1 (PutUint32 c)
      else PutUint32 c)"

definition resourceTLV :: "uint16 \<Rightarrow> byte list \<Rightarrow> Lwm2mTLV" where
  "resourceTLV resourceID resourceTLVValue =
     Lwm2mTLV lwm2mTLVTypeResouce resourceID (of_nat (length resourceTLVValue))
       resourceTLVValue []"

text \<open>\<^verbatim>\<open>NotifyResource\<close> returns the agent and the observation record, both as it leaves
  them.\<close>

definition NotifyResource ::
  "StdLib \<Rightarrow> Lwm2m \<Rightarrow> Lwm2mObservedResource \<Rightarrow> panic + (Lwm2m \<times> Lwm2mObservedResource)" where
  "NotifyResource L lwm2m observe =
     (case resource observe of
        None \<Rightarrow> Inl NilPointerDereference
      | Some res \<Rightarrow>
          (case resDefinition res of
             None \<Rightarrow> Inl NilPointerDereference
           | Some def \<Rightarrow>
               if \<not> Readable def then Inr (lwm2m, observe)
               else
                 (case ReadResource (handler lwm2m) res of (val, code) \<Rightarrow>
                  if code \<noteq> CoapCodeContent then Inr (lwm2m, observe)
                  else if val = lastValue observe then Inr (lwm2m, observe)
                  else
                    (case convertStringToTLVValue L val (rdType def) of
                       Inl p \<Rightarrow> Inl p
                     | Inr resourceTLVValue \<Rightarrow>
                         (case SendRelatedMessage lwm2m CoapCodeContent (token observe)
                                 [\<lparr>No = coapOptionNoContentFormat,
                                   optValue = contentFormatTLV\<rparr>,
                                  \<lparr>No = coapOptionNoObserve,
                                   optValue = observeCountBuf (observeCount observe)\<rparr>]
                                 (Marshal (resourceTLV (resID res) resourceTLVValue)) of
                            Inl p \<Rightarrow> Inl p
                          | Inr (lwm2m', mid) \<Rightarrow>
                              Inr (lwm2m',
                                   observe\<lparr>lastValue := val,
                                     observeCount := observeCount observe + 1,
                                     messageID := mid\<rparr>))))))"

text \<open>\<^verbatim>\<open>NotifyInstance\<close>: the loop over the resources of the observed instance gives the
  resources as it leaves them and the payload.\<close>

fun notifyInstanceLoop ::
  "StdLib \<Rightarrow> Lwm2m \<Rightarrow> Lwm2mObservedResource list \<Rightarrow> byte list
     \<Rightarrow> panic + (Lwm2mObservedResource list \<times> byte list)" where
  "notifyInstanceLoop L lwm2m [] payload = Inr ([], payload)"
| "notifyInstanceLoop L lwm2m (resourceObserve # rest) payload =
     (case resource resourceObserve of
        None \<Rightarrow> Inl NilPointerDereference
      | Some res \<Rightarrow>
          (case resDefinition res of
             None \<Rightarrow> Inl NilPointerDereference
           | Some def \<Rightarrow>
               (case
                  (if \<not> Readable def then Inr (resourceObserve, payload)
                   else
                     (case ReadResource (handler lwm2m) res of (val, code) \<Rightarrow>
                      if code \<noteq> CoapCodeContent then Inr (resourceObserve, payload)
                      else if val = lastValue resourceObserve then Inr (resourceObserve, payload)
                      else
                        (case convertStringToTLVValue L val (rdType def) of
                           Inl p \<Rightarrow> Inl p
                         | Inr resourceTLVValue \<Rightarrow>
                             Inr (resourceObserve\<lparr>lastValue := val\<rparr>,
                                  payload @ Marshal (resourceTLV (resID res) resourceTLVValue)))))
                of
                  Inl p \<Rightarrow> Inl p
                | Inr (resourceObserve', payload') \<Rightarrow>
                    (case notifyInstanceLoop L lwm2m rest payload' of
                       Inl p \<Rightarrow> Inl p
                     | Inr (rest', payload'') \<Rightarrow>
                         Inr (resourceObserve' # rest', payload'')))))"

definition NotifyInstance ::
  "StdLib \<Rightarrow> Lwm2m \<Rightarrow> Lwm2mObservedInstance \<Rightarrow> panic + (Lwm2m \<times> Lwm2mObservedInstance)" where
  "NotifyInstance L lwm2m observe =
     (case notifyInstanceLoop L lwm2m (oiResources observe) [] of
        Inl p \<Rightarrow> Inl p
      | Inr (resources', payload) \<Rightarrow>
          if length payload = 0 then Inr (lwm2m, observe\<lparr>oiResources := resources'\<rparr>)
          else
            (case oiInstance observe of
               None \<Rightarrow> Inl NilPointerDereference
             | Some inst \<Rightarrow>
                 (case SendRelatedMessage lwm2m CoapCodeContent (oiToken observe)
                         [\<lparr>No = coapOptionNoContentFormat, optValue = contentFormatTLV\<rparr>,
                          \<lparr>No = coapOptionNoObserve,
                           optValue = observeCountBuf (oiObserveCount observe)\<rparr>]
                         payload of
                    Inl p \<Rightarrow> Inl p
                  | Inr (lwm2m', mid) \<Rightarrow>
                      Inr (lwm2m',
                           observe\<lparr>oiResources := resources',
                             oiObserveCount := oiObserveCount observe + 1,
                             oiMessageID := mid\<rparr>))))"

text \<open>\<^verbatim>\<open>Observe\<close>, one tick: nothing without a connection or before the registration is
  done; else every observed instance, then every observed resource.\<close>

fun observeInstances ::
  "StdLib \<Rightarrow> Lwm2m \<Rightarrow> Lwm2mObservedInstance list \<Rightarrow> panic + (Lwm2m \<times> Lwm2mObservedInstance list)"
  where
  "observeInstances L lwm2m [] = Inr (lwm2m, [])"
| "observeInstances L lwm2m (observe # rest) =
     (case NotifyInstance L lwm2m observe of
        Inl p \<Rightarrow> Inl p
      | Inr (lwm2m', observe') \<Rightarrow>
          (case observeInstances L lwm2m' rest of
             Inl p \<Rightarrow> Inl p
           | Inr (lwm2m'', rest') \<Rightarrow> Inr (lwm2m'', observe' # rest')))"

fun observeResources ::
  "StdLib \<Rightarrow> Lwm2m \<Rightarrow> Lwm2mObservedResource list \<Rightarrow> panic + (Lwm2m \<times> Lwm2mObservedResource list)"
  where
  "observeResources L lwm2m [] = Inr (lwm2m, [])"
| "observeResources L lwm2m (observe # rest) =
     (case NotifyResource L lwm2m observe of
        Inl p \<Rightarrow> Inl p
      | Inr (lwm2m', observe') \<Rightarrow>
          (case observeResources L lwm2m' rest of
             Inl p \<Rightarrow> Inl p
           | Inr (lwm2m'', rest') \<Rightarrow> Inr (lwm2m'', observe' # rest')))"

definition Observe :: "StdLib \<Rightarrow> Lwm2m \<Rightarrow> panic + Lwm2m" where
  "Observe L lwm2m =
     (if Connection lwm2m = None \<or> \<not> registered lwm2m then Inr lwm2m
      else
        case observeInstances L lwm2m (observedInstance lwm2m) of
          Inl p \<Rightarrow> Inl p
        | Inr (lwm2m1, instances') \<Rightarrow>
            (case observeResources L lwm2m1 (observedResource lwm2m) of
               Inl p \<Rightarrow> Inl p
             | Inr (lwm2m2, resources') \<Rightarrow>
                 Inr (lwm2m2\<lparr>observedInstance := instances',
                        observedResource := resources'\<rparr>)))"

text \<open>\<^verbatim>\<open>ObserveDeregister\<close>: the loop keeps the index of the last entry whose message id
  is that of the message; the entry at that index is cut out.\<close>

fun foundIndexLoop :: "('a \<Rightarrow> bool) \<Rightarrow> 'a list \<Rightarrow> nat \<Rightarrow> int \<Rightarrow> int" where
  "foundIndexLoop matches [] i foundIndex = foundIndex"
| "foundIndexLoop matches (observe # rest) i foundIndex =
     foundIndexLoop matches rest (i + 1) (if matches observe then int i else foundIndex)"

definition deleteAt :: "nat \<Rightarrow> 'a list \<Rightarrow> 'a list" where
  "deleteAt foundIndex xs = take foundIndex xs @ drop (foundIndex + 1) xs"

definition ObserveDeregister :: "Lwm2m \<Rightarrow> CoapMessage \<Rightarrow> Lwm2m" where
  "ObserveDeregister lwm2m message =
     (let foundIndex =
            foundIndexLoop (\<lambda>observe. oiMessageID observe = MessageID message)
              (observedInstance lwm2m) 0 (- 1)
      in
      if foundIndex \<ge> 0 then
        lwm2m\<lparr>observedInstance := deleteAt (nat foundIndex) (observedInstance lwm2m)\<rparr>
      else
        let foundIndex =
              foundIndexLoop (\<lambda>observe. messageID observe = MessageID message)
                (observedResource lwm2m) 0 foundIndex
        in
        if foundIndex \<ge> 0 then
          lwm2m\<lparr>observedResource := deleteAt (nat foundIndex) (observedResource lwm2m)\<rparr>
        else lwm2m)"

text \<open>\<^verbatim>\<open>processReadResource\<close> and \<^verbatim>\<open>processReadInstance\<close> return the agent as they leave
  it and the \<^verbatim>\<open>error\<close> they return.\<close>

definition processReadResource ::
  "StdLib \<Rightarrow> Lwm2m \<Rightarrow> uint16 \<Rightarrow> uint16 \<Rightarrow> uint16 \<Rightarrow> CoapMessage
     \<Rightarrow> panic + (Lwm2m \<times> goerror option)" where
  "processReadResource L lwm2m objectID instanceID resourceID message =
     (case findResource lwm2m objectID instanceID resourceID of
        None \<Rightarrow>
          (case SendResponse lwm2m message CoapCodeNotFound [] [] of
             Inl p \<Rightarrow> Inl p | Inr lwm2m' \<Rightarrow> Inr (lwm2m', None))
      | Some res \<Rightarrow>
          (case resDefinition res of
             None \<Rightarrow> Inl NilPointerDereference
           | Some def \<Rightarrow>
               if \<not> Readable def then
                 (case SendResponse lwm2m message CoapCodeNotAllowed [] [] of
                    Inl p \<Rightarrow> Inl p | Inr lwm2m' \<Rightarrow> Inr (lwm2m', None))
               else
                 (case ReadResource (handler lwm2m) res of (resourceValue, code) \<Rightarrow>
                  if code \<noteq> CoapCodeContent then
                    (case SendResponse lwm2m message CoapCodeNotAllowed [] [] of
                       Inl p \<Rightarrow> Inl p
                     | Inr lwm2m' \<Rightarrow> Inr (lwm2m', Some (GoError ''read failed'')))
                  else
                    (case convertStringToTLVValue L resourceValue (rdType def) of
                       Inl p \<Rightarrow> Inl p
                     | Inr resourceTLVValue \<Rightarrow>
                       let payload = Marshal (resourceTLV resourceID resourceTLVValue) in
                       if IsObserve message then
                         (case SendResponse
                                 (lwm2m\<lparr>observedResource := observedResource lwm2m @
                                    [\<lparr>token = Token message, messageID = 0, observeCount = 0,
                                      resource = Some res, lastValue = resourceValue\<rparr>]\<rparr>)
                                 message CoapCodeContent
                                 [\<lparr>No = coapOptionNoContentFormat, optValue = contentFormatTLV\<rparr>,
                                  \<lparr>No = coapOptionNoObserve, optValue = [coapObserveRegister]\<rparr>]
                                 payload of
                            Inl p \<Rightarrow> Inl p | Inr lwm2m' \<Rightarrow> Inr (lwm2m', None))
                       else
                         (case SendResponse lwm2m message CoapCodeContent
                                 [\<lparr>No = coapOptionNoContentFormat, optValue = contentFormatTLV\<rparr>]
                                 payload of
                            Inl p \<Rightarrow> Inl p | Inr lwm2m' \<Rightarrow> Inr (lwm2m', None))))))"

fun readInstanceLoop ::
  "StdLib \<Rightarrow> Lwm2m \<Rightarrow> uint16 \<Rightarrow> uint16 \<Rightarrow> bool \<Rightarrow> uint16 list \<Rightarrow> byte list
     \<Rightarrow> Lwm2mObservedResource list \<Rightarrow> panic + (byte list \<times> Lwm2mObservedResource list)" where
  "readInstanceLoop L lwm2m objectID instanceID isObserve [] payload observed =
     Inr (payload, observed)"
| "readInstanceLoop L lwm2m objectID instanceID isObserve (resourceID # rest) payload observed =
     (case findResource lwm2m objectID instanceID resourceID of
        None \<Rightarrow> Inl NilPointerDereference
      | Some res \<Rightarrow>
          (case resDefinition res of
             None \<Rightarrow> Inl NilPointerDereference
           | Some def \<Rightarrow>
               if Readable def then
                 (case ReadResource (handler lwm2m) res of (resourceValue, code) \<Rightarrow>
                  if code \<noteq> CoapCodeContent then
                    readInstanceLoop L lwm2m objectID instanceID isObserve rest payload observed
                  else
                    (case convertStringToTLVValue L resourceValue (rdType def) of
                       Inl p \<Rightarrow> Inl p
                     | Inr resourceTLVValue \<Rightarrow>
                         readInstanceLoop L lwm2m objectID instanceID isObserve rest
                           (payload @ Marshal (resourceTLV resourceID resourceTLVValue))
                           (if isObserve then
                              observed @
                              [\<lparr>token = [], messageID = 0, observeCount = 0,
                                resource = Some res, lastValue = resourceValue\<rparr>]
                            else observed)))
               else
                 readInstanceLoop L lwm2m objectID instanceID isObserve rest payload observed))"

definition processReadInstance ::
  "StdLib \<Rightarrow> Lwm2m \<Rightarrow> uint16 \<Rightarrow> uint16 \<Rightarrow> CoapMessage \<Rightarrow> panic + (Lwm2m \<times> goerror option)"
  where
  "processReadInstance L lwm2m objectID instanceID message =
     (case findInstance lwm2m objectID instanceID of
        None \<Rightarrow>
          (case SendResponse lwm2m message CoapCodeNotFound [] [] of
             Inl p \<Rightarrow> Inl p | Inr lwm2m' \<Rightarrow> Inr (lwm2m', None))
      | Some inst \<Rightarrow>
          (case ListResourceIDs (handler lwm2m) inst of (resourceIDs, code) \<Rightarrow>
           if code \<noteq> CoapCodeContent then
             (case SendResponse lwm2m message CoapCodeNotAllowed [] [] of
                Inl p \<Rightarrow> Inl p
              | Inr lwm2m' \<Rightarrow> Inr (lwm2m', Some (GoError ''no resources'')))
           else
             (case readInstanceLoop L lwm2m objectID instanceID (IsObserve message)
                     resourceIDs [] [] of
                Inl p \<Rightarrow> Inl p
              | Inr (payload, observed) \<Rightarrow>
                 if IsObserve message then
                   (case SendResponse
                           (lwm2m\<lparr>observedInstance := observedInstance lwm2m @
                              [\<lparr>oiToken = Token message, oiMessageID = 0, oiObserveCount = 0,
                                oiInstance = Some inst, oiResources = observed\<rparr>]\<rparr>)
                           message CoapCodeContent
                           [\<lparr>No = coapOptionNoContentFormat, optValue = contentFormatTLV\<rparr>,
                            \<lparr>No = coapOptionNoObserve, optValue = [coapObserveRegister]\<rparr>]
                           payload of
                      Inl p \<Rightarrow> Inl p | Inr lwm2m' \<Rightarrow> Inr (lwm2m', None))
                 else
                   (case SendResponse lwm2m message CoapCodeContent
                           [\<lparr>No = coapOptionNoContentFormat, optValue = contentFormatTLV\<rparr>]
                           payload of
                      Inl p \<Rightarrow> Inl p | Inr lwm2m' \<Rightarrow> Inr (lwm2m', None)))))"

text \<open>\<^verbatim>\<open>ReadRequest\<close>, the handler of an incoming GET: a path of two ids reads an instance,
  a path of three a resource, any other path is left without a reply.\<close>

definition ReadRequest ::
  "StdLib \<Rightarrow> Lwm2m \<Rightarrow> CoapMessage \<Rightarrow> panic + (Lwm2m \<times> goerror option)" where
  "ReadRequest L lwm2m message =
     (case extractResourceID message of
        Inl err \<Rightarrow> Inr (lwm2m, Some err)
      | Inr (idCount, objectID, instanceID, resourceID) \<Rightarrow>
          if idCount = 2 then processReadInstance L lwm2m objectID instanceID message
          else if idCount = 3 then
            processReadResource L lwm2m objectID instanceID resourceID message
          else Inr (lwm2m, None))"

section \<open>A concrete agent\<close>

text \<open>A device with one object, \<open>/3\<close>, one instance, \<open>/3/0\<close>, and two resources: \<open>/3/0/4\<close>,
  which can only be executed, and \<open>/3/0/9\<close>, a readable integer whose stored value is
  \<open>v\<close>. The library functions of \<open>nullLib\<close> are constant; the resources above use none of
  them.\<close>

definition nullLib :: StdLib where
  "nullLib = \<lparr>ParseFloat64bits = (\<lambda>str. 0), FormatFloat32 = (\<lambda>bits. []),
              FormatFloat64 = (\<lambda>bits. []), Base64Encode = (\<lambda>buf. []),
              Base64Decode = (\<lambda>str. [])\<rparr>"

definition deviceDefinitions :: "Lwm2mObjectDefinition list" where
  "deviceDefinitions =
     [\<lparr>odID = 3, odName = ''Device'', odMulti = False, odMandatory = True,
       Resources =
         [\<lparr>rdID = 4, rdName = ''Reboot'', rdMulti = False, rdMandatory = True,
           Readable = False, Writable = False, Excutable = True,
           rdType = lwm2mResourceTypeNone\<rparr>,
          \<lparr>rdID = 9, rdName = ''Battery Level'', rdMulti = False, rdMandatory = False,
           Readable = True, Writable = False, Excutable = False,
           rdType = lwm2mResourceTypeInteger\<rparr>]\<rparr>]"

definition deviceHandler :: "string \<Rightarrow> Lwm2mHandler" where
  "deviceHandler v =
     \<lparr>ListObjectIDs = ([3], CoapCodeContent),
      ListInstanceIDs =
        (\<lambda>object. if objID object = 3 then ([0], CoapCodeContent) else ([], CoapCodeNotFound)),
      ListResourceIDs =
        (\<lambda>inst. if instObjectID inst = 3 \<and> instID inst = 0 then ([4, 9], CoapCodeContent)
                else ([], CoapCodeNotFound)),
      ReadResource =
        (\<lambda>res. if resObjectID res = 3 \<and> resInstanceID res = 0 \<and> resID res = 9
               then (v, CoapCodeContent) else ([], CoapCodeNotFound))\<rparr>"

definition deviceAgent :: "string \<Rightarrow> Lwm2m" where
  "deviceAgent v =
     \<lparr>endpointClientName = ''device'', dmSecurityInstanceID = 0, dmServerInstanceID = 0,
      handler = deviceHandler v,
      Connection = Some \<lparr>NextMessageID = 0x1234, sent = []\<rparr>,
      Location = ''xyz-42'', definitions = deviceDefinitions,
      observedInstance = [], observedResource = [], lifetime = 60, registered = True\<rparr>"

text \<open>A confirmable GET on the path of the given segments, with an Observe option of value 0
  (register) when \<open>observe\<close> is set, and the Reset message of a message id.\<close>

definition getMessage :: "uint16 \<Rightarrow> byte list \<Rightarrow> string list \<Rightarrow> bool \<Rightarrow> CoapMessage" where
  "getMessage mid tok path observe =
     \<lparr>Version = 1, msgType = CoapTypeConfirmable, TokenLength = of_nat (length tok),
      Code = CoapCodeGet, MessageID = mid, Token = tok,
      Options = (if observe then [\<lparr>No = coapOptionNoObserve, optValue = [0]\<rparr>] else [])
                @ map (\<lambda>seg. \<lparr>No = coapOptionNoURIPath, optValue = bytesOfString seg\<rparr>) path,
      Payload = []\<rparr>"

definition resetMessage :: "uint16 \<Rightarrow> CoapMessage" where
  "resetMessage mid =
     \<lparr>Version = 1, msgType = CoapTypeReset, TokenLength = 0, Code = 0, MessageID = mid,
      Token = [], Options = [], Payload = []\<rparr>"

text \<open>The acknowledgement that \<^verbatim>\<open>SendResponse\<close> writes for a request.\<close>

definition ackMessage ::
  "CoapMessage \<Rightarrow> CoapCode \<Rightarrow> CoapOption list \<Rightarrow> byte list \<Rightarrow> CoapMessage" where
  "ackMessage request code options payload =
     \<lparr>Version = 1, msgType = CoapTypeAcknowledgement, TokenLength = TokenLength request,
      Code = code, MessageID = MessageID request, Token = Token request,
      Options = options, Payload = payload\<rparr>"

text \<open>The request of the observation scenario, \<open>GET /3/0/9\<close> with the Observe option under
  an eight-byte token; the resource it addresses; the connection of \<open>deviceAgent\<close>.\<close>

definition observeRequest :: CoapMessage where
  "observeRequest =
     getMessage 0x0001 [0xAA, 0xBB, 0xCC, 0xDD, 0xEE, 0xFF, 0x00, 0x11] [''3'', ''0'', ''9''] True"

definition batteryLevel :: Lwm2mResource where
  "batteryLevel =
     \<lparr>resID = 9, resObjectID = 3, resInstanceID = 0,
      resDefinition =
        Some \<lparr>rdID = 9, rdName = ''Battery Level'', rdMulti = False, rdMandatory = False,
              Readable = True, Writable = False, Excutable = False,
              rdType = lwm2mResourceTypeInteger\<rparr>\<rparr>"


text \<open>An agent that observes three instances, the first and the last under
  message id 7, and two resources, under the ids 7 and 9.\<close>

definition observingAgent :: Lwm2m where
  "observingAgent =
     (deviceAgent ''45'')\<lparr>
       observedInstance :=
         [\<lparr>oiToken = [1], oiMessageID = 7, oiObserveCount = 0, oiInstance = None, oiResources = []\<rparr>,
          \<lparr>oiToken = [2], oiMessageID = 8, oiObserveCount = 0, oiInstance = None, oiResources = []\<rparr>,
          \<lparr>oiToken = [3], oiMessageID = 7, oiObserveCount = 0, oiInstance = None, oiResources = []\<rparr>],
       observedResource :=
         [\<lparr>token = [4], messageID = 7, observeCount = 0, resource = None, lastValue = []\<rparr>,
          \<lparr>token = [5], messageID = 9, observeCount = 0, resource = None, lastValue = []\<rparr>]\<rparr>"

text \<open>The agent after a message has been written to its connection, and the messages an agent
  has written.\<close>

definition withSent :: "Lwm2m \<Rightarrow> Coap \<Rightarrow> CoapMessage \<Rightarrow> Lwm2m" where
  "withSent lwm2m coap m = lwm2m\<lparr>Connection := Some (coap\<lparr>sent := sent coap @ [m]\<rparr>)\<rparr>"

definition sentMessages :: "Lwm2m \<Rightarrow> CoapMessage list" where
  "sentMessages lwm2m = (case Connection lwm2m of None \<Rightarrow> [] | Some coap \<Rightarrow> sent coap)"

text \<open>The scenario of an observation: the agent handles the request \<open>message\<close>, the values
  behind the handler change (the handler becomes \<open>handler'\<close>), and one \<^verbatim>\<open>Observe\<close> tick
  runs. The result is the list of the messages that the tick writes.\<close>

definition observeScenario ::
  "StdLib \<Rightarrow> Lwm2m \<Rightarrow> CoapMessage \<Rightarrow> Lwm2mHandler \<Rightarrow> panic + CoapMessage list" where
  "observeScenario L lwm2m message handler' =
     (case ReadRequest L lwm2m message of
        Inl p \<Rightarrow> Inl p
      | Inr (lwm2m1, err) \<Rightarrow>
          (case Observe L (lwm2m1\<lparr>handler := handler'\<rparr>) of
             Inl p \<Rightarrow> Inl p
           | Inr lwm2m2 \<Rightarrow>
               Inr (drop (length (sentMessages lwm2m1)) (sentMessages lwm2m2))))"

section \<open>DTLS: slices, cryptographic primitives, data\<close>

text \<open>The receive path of DTLS keeps slices of its 1024-byte read buffer and slices them
  again, which Go allows up to the capacity, past the length. A \<open>slice\<close> is the bytes of the
  slice and the bytes behind them up to the capacity.\<close>

type_synonym slice = "byte list \<times> byte list"

definition reslice :: "slice \<Rightarrow> nat \<Rightarrow> nat \<Rightarrow> panic + slice" where
  "reslice s lo hi =
     (if lo \<le> hi \<and> hi \<le> length (fst s) + length (snd s) then
        Inr (take (hi - lo) (drop lo (fst s @ snd s)), drop hi (fst s @ snd s))
      else Inl SliceBoundsOutOfRange)"

text \<open>\<^verbatim>\<open>copy(dst, src)\<close>: the destination afterwards.\<close>

definition copyInto :: "byte list \<Rightarrow> byte list \<Rightarrow> byte list" where
  "copyInto dst src = take (length dst) src @ drop (length src) dst"

text \<open>What \<^verbatim>\<open>Connection.Read\<close> leaves of a datagram in a fresh buffer of
  \<^verbatim>\<open>dtlsPacketSize\<close> bytes: the slice \<^verbatim>\<open>buf[:readLen]\<close>.\<close>

abbreviation (input) dtlsPacketSize :: nat where "dtlsPacketSize \<equiv> 1024"

definition readBuffer :: "byte list \<Rightarrow> slice" where
  "readBuffer datagram =
     (take dtlsPacketSize datagram,
      replicate (dtlsPacketSize - length (take dtlsPacketSize datagram)) 0)"

text \<open>The primitives of the Go library that the DTLS code calls are parameters of the model:
  \<open>sha256\<close> is \<^verbatim>\<open>sha256.Sum256\<close>, \<open>hmacSha256 key msg\<close> is the sum of
  \<^verbatim>\<open>hmac.New(sha256.New, key)\<close> after writing \<open>msg\<close>, \<open>aesCTR key iv src\<close> is the key stream of
  \<^verbatim>\<open>cipher.NewCTR\<close> over AES applied to \<open>src\<close>, and \<open>aesCBC key iv src\<close> is
  \<^verbatim>\<open>CryptBlocks\<close> of \<^verbatim>\<open>cipher.NewCBCEncrypter\<close>. \<^verbatim>\<open>aes.NewCipher\<close> accepts keys of 16, 24 and
  32 bytes.\<close>

record Crypto =
  sha256 :: "byte list \<Rightarrow> byte list"
  hmacSha256 :: "byte list \<Rightarrow> byte list \<Rightarrow> byte list"
  aesCTR :: "byte list \<Rightarrow> byte list \<Rightarrow> byte list \<Rightarrow> byte list"
  aesCBC :: "byte list \<Rightarrow> byte list \<Rightarrow> byte list \<Rightarrow> byte list"

definition validKey :: "byte list \<Rightarrow> bool" where
  "validKey key = (length key = 16 \<or> length key = 24 \<or> length key = 32)"

abbreviation (input) dtlsVersion :: uint16 where "dtlsVersion \<equiv> 0xfefd"
abbreviation (input) dtlsCipherSuite :: uint16 where "dtlsCipherSuite \<equiv> 0xc0a8"
abbreviation (input) dtlsCompress :: byte where "dtlsCompress \<equiv> 0x00"

abbreviation (input) dtlsContentTypeChangeCipherSpec :: byte where
  "dtlsContentTypeChangeCipherSpec \<equiv> 20"
abbreviation (input) dtlsContentTypeHandshake :: byte where "dtlsContentTypeHandshake \<equiv> 22"
abbreviation (input) dtlsContentTypeApplicationData :: byte where
  "dtlsContentTypeApplicationData \<equiv> 23"

abbreviation (input) dtlsHandshakeTypeClientHello :: byte where
  "dtlsHandshakeTypeClientHello \<equiv> 1"
abbreviation (input) dtlsHandshakeTypeServerHello :: byte where
  "dtlsHandshakeTypeServerHello \<equiv> 2"
abbreviation (input) dtlsHandshakeTypeHelloVerifyRequest :: byte where
  "dtlsHandshakeTypeHelloVerifyRequest \<equiv> 3"
abbreviation (input) dtlsHandshakeTypeServerHelloDone :: byte where
  "dtlsHandshakeTypeServerHelloDone \<equiv> 14"
abbreviation (input) dtlsHandshakeTypeClientKeyExchange :: byte where
  "dtlsHandshakeTypeClientKeyExchange \<equiv> 16"
abbreviation (input) dtlsHandshakeTypeFinished :: byte where "dtlsHandshakeTypeFinished \<equiv> 20"

abbreviation (input) dtlsChangeCipherSpecMessage :: byte where
  "dtlsChangeCipherSpecMessage \<equiv> 1"
abbreviation (input) dtlsAesCcmMACLength :: nat where "dtlsAesCcmMACLength \<equiv> 8"

text \<open>\<^verbatim>\<open>DtlsHandshakeParams\<close> (its sequence counters are \<open>hsServerSequence\<close> and
  \<open>hsClientSequence\<close> here). \<^verbatim>\<open>ServerRandom\<close> is kept with its capacity, because
  \<^verbatim>\<open>GenerateSecurityParams\<close> appends to it.\<close>

record DtlsHandshakeParams =
  hsServerSequence :: uint16
  hsClientSequence :: uint16
  Identity :: "byte list"
  Cookie :: "byte list"
  Session :: "byte list"
  ClientRandom :: "byte list"
  ServerRandom :: slice
  PreMasterSecret :: "byte list"
  MasterSecret :: "byte list"
  Messages :: "byte list"
  Verified :: bool

text \<open>\<^verbatim>\<open>Dtls\<close>: the connection state. \<open>written\<close> holds the datagrams written to the UDP
  connection, oldest first. The handshake parameters are never \<^verbatim>\<open>nil\<close>: \<^verbatim>\<open>DtlsDial\<close> sets
  them before anything else runs.\<close>

record Dtls =
  ServerEpoch :: uint16
  ClientEpoch :: uint16
  ServerSequence :: uint64
  ClientSequence :: uint64
  ServerWriteKey :: "byte list"
  ClientWriteKey :: "byte list"
  ServerIV :: "byte list"
  ClientIV :: "byte list"
  ClientEncrypt :: bool
  ServerEncrypt :: bool
  Handshake :: DtlsHandshakeParams
  written :: "byte list list"

text \<open>\<^verbatim>\<open>DtlsPacket\<close> (its field \<^verbatim>\<open>Type\<close> is \<open>pktType\<close>, \<^verbatim>\<open>Epoch\<close> and \<^verbatim>\<open>Sequence\<close> are
  \<open>pktEpoch\<close> and \<open>pktSequence\<close>).\<close>

record DtlsPacket =
  pktType :: byte
  pktEpoch :: uint16
  pktSequence :: uint64
  ContentLength :: uint16
  Content :: slice

section \<open>DTLS: key derivation\<close>

text \<open>\<^verbatim>\<open>dtlsPrf\<close>: the loop runs while the output is shorter than \<open>length\<close>; with a
  \<open>hmacSha256\<close> that returns nothing it would not end, which is the value \<open>None\<close> of the
  loop and the panic \<open>NeverReturns\<close> of \<open>dtlsPrf\<close>.\<close>

partial_function (option) prfLoop ::
  "Crypto \<Rightarrow> byte list \<Rightarrow> byte list \<Rightarrow> byte list \<Rightarrow> byte list \<Rightarrow> nat \<Rightarrow> byte list option"
  where
  "prfLoop C secret a0 ai ret len =
     (if length ret < len then
        prfLoop C secret a0 (hmacSha256 C secret ai)
          (ret @ hmacSha256 C secret (hmacSha256 C secret ai @ a0)) len
      else Some (take len ret))"

declare prfLoop.simps [code]

definition dtlsPrf ::
  "Crypto \<Rightarrow> byte list \<Rightarrow> string \<Rightarrow> byte list \<Rightarrow> nat \<Rightarrow> panic + byte list" where
  "dtlsPrf C secret label seed len =
     (case prfLoop C secret (bytesOfString label @ seed) (bytesOfString label @ seed) [] len of
        None \<Rightarrow> Inl NeverReturns
      | Some ret \<Rightarrow> Inr ret)"

definition DtlsPreMasterSecretFromPSK :: "byte list \<Rightarrow> byte list" where
  "DtlsPreMasterSecretFromPSK psk =
     (let len = (of_nat (length psk) :: uint16) in
      PutUint16 len @ replicate (unat len) 0 @ PutUint16 len @ psk)"

definition GenerateClientVerifyData :: "Crypto \<Rightarrow> DtlsHandshakeParams \<Rightarrow> panic + byte list" where
  "GenerateClientVerifyData C handshake =
     dtlsPrf C (MasterSecret handshake) ''client finished'' (sha256 C (Messages handshake)) 12"

definition GenerateServerVerifyData :: "Crypto \<Rightarrow> DtlsHandshakeParams \<Rightarrow> panic + byte list" where
  "GenerateServerVerifyData C handshake =
     dtlsPrf C (MasterSecret handshake) ''server finished'' (sha256 C (Messages handshake)) 12"

text \<open>\<^verbatim>\<open>GenerateSecurityParams\<close>. The seed of the key block is
  \<^verbatim>\<open>append(ServerRandom, ClientRandom...)\<close>: when the capacity behind \<^verbatim>\<open>ServerRandom\<close> holds
  the client random, the append writes it there, into the read buffer of the ServerHello.
  \<^verbatim>\<open>Session\<close> is the slice \<^verbatim>\<open>raw[47:79]\<close> of that buffer, which begins one byte behind
  \<^verbatim>\<open>ServerRandom\<close> (\<^verbatim>\<open>raw[14:46]\<close>), so its bytes change with it.\<close>

definition GenerateSecurityParams :: "Crypto \<Rightarrow> Dtls \<Rightarrow> panic + Dtls" where
  "GenerateSecurityParams C dtls =
     (let h = Handshake dtls in
      case dtlsPrf C (PreMasterSecret h) ''master secret''
             (ClientRandom h @ fst (ServerRandom h)) 48 of
        Inl p \<Rightarrow> Inl p
      | Inr master \<Rightarrow>
          (case dtlsPrf C master ''key expansion''
                  (fst (ServerRandom h) @ ClientRandom h) 40 of
             Inl p \<Rightarrow> Inl p
           | Inr keyBlock \<Rightarrow>
               let inPlace = (length (ClientRandom h) \<le> length (snd (ServerRandom h)));
                   behind = (if inPlace then copyInto (snd (ServerRandom h)) (ClientRandom h)
                             else snd (ServerRandom h))
               in
               Inr (dtls\<lparr>
                      Handshake := h\<lparr>MasterSecret := master,
                        ServerRandom := (fst (ServerRandom h), behind),
                        Session :=
                          (if inPlace
                           then copyInto (Session h) (take (length (Session h)) (drop 1 behind))
                           else Session h)\<rparr>,
                      ClientWriteKey := take 16 keyBlock,
                      ServerWriteKey := take 16 (drop 16 keyBlock),
                      ClientIV := take 4 (drop 32 keyBlock),
                      ServerIV := take 4 (drop 36 keyBlock)\<rparr>)))"

section \<open>DTLS: record protection\<close>

definition dtlsGenerateAAD :: "byte list \<Rightarrow> byte \<Rightarrow> uint16 \<Rightarrow> byte list" where
  "dtlsGenerateAAD epochSequence contentType len =
     copyInto (replicate 8 0) epochSequence @ [contentType] @ PutUint16 dtlsVersion
     @ PutUint16 len"

definition dtlsGenerateNonce :: "byte list \<Rightarrow> byte list \<Rightarrow> byte list" where
  "dtlsGenerateNonce iv epochSequence =
     copyInto (replicate 4 0) iv @ copyInto (replicate 12 0) epochSequence"

text \<open>\<^verbatim>\<open>dtlsGenerateMAC\<close> returns \<^verbatim>\<open>nil\<close> (here the empty list) for a key that
  \<^verbatim>\<open>aes.NewCipher\<close> refuses. The flag byte is \<open>(1 << 6) + ((8 - 2) / 2) << 3 + (3 - 1)\<close>.
  The destination of \<^verbatim>\<open>CryptBlocks\<close> and of \<^verbatim>\<open>XORKeyStream\<close> has the length of the
  source.\<close>

definition dtlsGenerateMAC ::
  "Crypto \<Rightarrow> byte list \<Rightarrow> byte list \<Rightarrow> uint16 \<Rightarrow> byte list \<Rightarrow> byte list \<Rightarrow> panic + byte list"
  where
  "dtlsGenerateMAC C aad nonce len paddedData key =
     (if 18 + length aad > 32 then Inl SliceBoundsOutOfRange
      else
        let blocksForMAC =
              [0x5A] @ copyInto (replicate 12 0) nonce @ [0] @ PutUint16 len
              @ PutUint16 (of_nat (length aad)) @ aad @ replicate (14 - length aad) 0
              @ paddedData
        in
        if \<not> validKey key then Inr []
        else if length blocksForMAC mod 16 \<noteq> 0 then Inl InputNotFullBlocks
        else
          let cipherText =
                copyInto (replicate (length blocksForMAC) 0)
                  (aesCBC C key (replicate 16 0) blocksForMAC)
          in Inr (drop (length cipherText - 16) cipherText))"

definition paddingLength :: "nat \<Rightarrow> nat" where
  "paddingLength n = (16 - n mod 16) mod 16"

definition counterIV :: "byte list \<Rightarrow> byte list" where
  "counterIV nonce = [2] @ copyInto (replicate 12 0) nonce @ [0, 0, 0]"

text \<open>\<^verbatim>\<open>encrypt\<close>, with the client's key, IV, epoch and sequence number.\<close>

definition encrypt :: "Crypto \<Rightarrow> Dtls \<Rightarrow> byte list \<Rightarrow> byte \<Rightarrow> panic + byte list" where
  "encrypt C dtls data contentType =
     (let epochSequence = PutUint16 (ClientEpoch dtls) @ drop 2 (PutUint64 (ClientSequence dtls));
          aad = dtlsGenerateAAD epochSequence contentType (of_nat (length data));
          nonce = dtlsGenerateNonce (ClientIV dtls) epochSequence;
          paddedData = data @ replicate (paddingLength (length data)) 0
      in
      case dtlsGenerateMAC C aad nonce (of_nat (length data)) paddedData (ClientWriteKey dtls) of
        Inl p \<Rightarrow> Inl p
      | Inr mac \<Rightarrow>
          if \<not> validKey (ClientWriteKey dtls) then Inl InvalidKeySize
          else
            let plainText = mac @ paddedData;
                cipherText =
                  copyInto (replicate (length plainText) 0)
                    (aesCTR C (ClientWriteKey dtls) (counterIV nonce) plainText)
            in
            Inr (epochSequence @ take (length data) (drop 16 cipherText)
                 @ take dtlsAesCcmMACLength cipherText))"

text \<open>\<^verbatim>\<open>decrypt\<close>, with the server's key and IV: the plaintext as a slice (behind it the
  padding, zeroed by the append that pads it for the MAC), or \<open>None\<close> when the MAC does not
  match. The record is sliced and measured before any check of its length.\<close>

definition decrypt :: "Crypto \<Rightarrow> Dtls \<Rightarrow> slice \<Rightarrow> byte \<Rightarrow> panic + slice option" where
  "decrypt C dtls data contentType =
     (case reslice data 0 8 of
        Inl p \<Rightarrow> Inl p
      | Inr es \<Rightarrow>
          if length (fst data) < dtlsAesCcmMACLength + 8 then Inl MakeSliceLenOutOfRange
          else
            let epochSequence = fst es;
                n = length (fst data) - dtlsAesCcmMACLength - 8;
                encryptedData = take n (drop 8 (fst data));
                encryptedMAC = drop (length (fst data) - dtlsAesCcmMACLength) (fst data);
                paddedData = encryptedData @ replicate (paddingLength n) 0;
                nonce = dtlsGenerateNonce (ServerIV dtls) epochSequence;
                cipherText = encryptedMAC @ replicate (16 - dtlsAesCcmMACLength) 0 @ paddedData
            in
            if \<not> validKey (ServerWriteKey dtls) then Inl InvalidKeySize
            else
              let plainText =
                    copyInto (replicate (length cipherText) 0)
                      (aesCTR C (ServerWriteKey dtls) (counterIV nonce) cipherText);
                  decryptedMac = take dtlsAesCcmMACLength plainText;
                  decryptedData = take n (drop 16 plainText);
                  aad = dtlsGenerateAAD epochSequence contentType (of_nat n)
              in
              (case dtlsGenerateMAC C aad nonce (of_nat n)
                      (decryptedData @ replicate (paddingLength n) 0) (ServerWriteKey dtls) of
                 Inl p \<Rightarrow> Inl p
               | Inr mac \<Rightarrow>
                   if decryptedMac = take dtlsAesCcmMACLength mac
                   then Inr (Some (decryptedData, replicate (paddingLength n) 0))
                   else Inr None))"

section \<open>DTLS: handshake messages and records\<close>

text \<open>\<^verbatim>\<open>DtlsHandshake.ToBytes\<close>, for a handshake of the given type and sequence number: a
  header of 12 bytes (type, length, sequence, fragment offset 0, fragment length) and the
  body.\<close>

definition handshakeHeader :: "byte \<Rightarrow> uint16 \<Rightarrow> nat \<Rightarrow> byte list" where
  "handshakeHeader ty sequence fragmentLength =
     [ty] @ drop 1 (PutUint32 (of_nat fragmentLength)) @ PutUint16 sequence @ [0, 0, 0]
     @ drop 1 (PutUint32 (of_nat fragmentLength))"

definition clientHelloBody :: "DtlsHandshakeParams \<Rightarrow> byte list" where
  "clientHelloBody params =
     PutUint16 dtlsVersion @ ClientRandom params
     @ [of_nat (length (Session params))] @ Session params
     @ [of_nat (length (Cookie params))] @ Cookie params
     @ [0x00, 0x02] @ PutUint16 dtlsCipherSuite @ [0x01, dtlsCompress]"

definition clientKeyExchangeBody :: "DtlsHandshakeParams \<Rightarrow> byte list" where
  "clientKeyExchangeBody params =
     PutUint16 (of_nat (length (Identity params))) @ Identity params"

definition ToBytes :: "Crypto \<Rightarrow> byte \<Rightarrow> uint16 \<Rightarrow> DtlsHandshakeParams \<Rightarrow> panic + byte list" where
  "ToBytes C ty sequence params =
     (case (if ty = dtlsHandshakeTypeClientHello then Inr (clientHelloBody params)
            else if ty = dtlsHandshakeTypeClientKeyExchange then
              Inr (clientKeyExchangeBody params)
            else if ty = dtlsHandshakeTypeFinished then GenerateClientVerifyData C params
            else Inr []) of
        Inl p \<Rightarrow> Inl p
      | Inr body \<Rightarrow> Inr (handshakeHeader ty sequence (length body) @ body))"

text \<open>\<^verbatim>\<open>DtlsHandshake.Parse\<close> on the content of a record, a slice: the parameters as it
  leaves them. Only the type byte is indexed; everything else is sliced, up to the
  capacity.\<close>

definition Parse :: "Crypto \<Rightarrow> DtlsHandshakeParams \<Rightarrow> slice \<Rightarrow> panic + DtlsHandshakeParams" where
  "Parse C params raw =
     (if length (fst raw) < 1 then Inl IndexOutOfRange
      else
        case reslice raw 1 4 of
          Inl p \<Rightarrow> Inl p
        | Inr l3 \<Rightarrow>
            (case reslice raw 4 6 of
               Inl p \<Rightarrow> Inl p
             | Inr sq \<Rightarrow>
                 let ty = fst raw ! 0;
                     len = unat (Uint32 0 (fst l3 ! 0) (fst l3 ! 1) (fst l3 ! 2));
                     params = params\<lparr>hsServerSequence := Uint16 (fst sq ! 0) (fst sq ! 1)\<rparr>
                 in
                 if ty = dtlsHandshakeTypeHelloVerifyRequest then
                   (case reslice raw 15 47 of
                      Inl p \<Rightarrow> Inl p
                    | Inr cookie \<Rightarrow> Inr (params\<lparr>Cookie := fst cookie\<rparr>))
                 else if ty = dtlsHandshakeTypeServerHello then
                   (case reslice raw 14 46 of
                      Inl p \<Rightarrow> Inl p
                    | Inr serverRandom \<Rightarrow>
                        (case reslice raw 47 79 of
                           Inl p \<Rightarrow> Inl p
                         | Inr session \<Rightarrow>
                             (case reslice raw 0 (12 + len) of
                                Inl p \<Rightarrow> Inl p
                              | Inr message \<Rightarrow>
                                  Inr (params\<lparr>ServerRandom := serverRandom,
                                         Session := fst session,
                                         Messages := Messages params @ fst message\<rparr>))))
                 else if ty = dtlsHandshakeTypeServerHelloDone then
                   (case reslice raw 0 (12 + len) of
                      Inl p \<Rightarrow> Inl p
                    | Inr message \<Rightarrow>
                        Inr (params\<lparr>Messages := Messages params @ fst message\<rparr>))
                 else if ty = dtlsHandshakeTypeFinished then
                   (case GenerateServerVerifyData C params of
                      Inl p \<Rightarrow> Inl p
                    | Inr verifyData \<Rightarrow>
                        (case reslice raw 12 24 of
                           Inl p \<Rightarrow> Inl p
                         | Inr serverVerify \<Rightarrow>
                             Inr (params\<lparr>Verified := (verifyData = fst serverVerify)\<rparr>)))
                 else Inr params))"

text \<open>\<^verbatim>\<open>ParsePacket\<close>: the connection as it leaves it, and the packet or \<^verbatim>\<open>nil\<close>.\<close>

definition ParsePacket :: "Crypto \<Rightarrow> Dtls \<Rightarrow> slice \<Rightarrow> panic + (Dtls \<times> DtlsPacket option)" where
  "ParsePacket C dtls raw =
     (if length (fst raw) < 13 then Inr (dtls, None)
      else
        let r = fst raw;
            ty = r ! 0;
            contentLength = Uint16 (r ! 11) (r ! 12);
            packet = \<lparr>pktType = ty, pktEpoch = Uint16 (r ! 3) (r ! 4),
                      pktSequence = Uint64 ([0, 0] @ take 6 (drop 5 r)),
                      ContentLength = contentLength, Content = ([], [])\<rparr>
        in
        if length r < 13 + unat contentLength then Inr (dtls, None)
        else
          case reslice raw 13 (13 + unat contentLength) of
            Inl p \<Rightarrow> Inl p
          | Inr body \<Rightarrow>
              (case (if ServerEncrypt dtls then decrypt C dtls body ty else Inr (Some body)) of
                 Inl p \<Rightarrow> Inl p
               | Inr None \<Rightarrow> Inr (dtls, None)
               | Inr (Some content) \<Rightarrow>
                   if ty = dtlsContentTypeHandshake then
                     (case Parse C (Handshake dtls) content of
                        Inl p \<Rightarrow> Inl p
                      | Inr params \<Rightarrow>
                          Inr (dtls\<lparr>Handshake := params\<rparr>,
                               Some (packet\<lparr>Content := content\<rparr>)))
                   else if ty = dtlsContentTypeChangeCipherSpec then
                     Inr (dtls\<lparr>ServerEncrypt := True\<rparr>, Some (packet\<lparr>Content := content\<rparr>))
                   else Inr (dtls, Some (packet\<lparr>Content := content\<rparr>))))"

text \<open>\<^verbatim>\<open>DtlsPacket.ToBytes\<close> of a packet of the given type, epoch, sequence number and
  content, and \<^verbatim>\<open>DtlsPacket.Length\<close>.\<close>

definition packetToBytes :: "byte \<Rightarrow> uint16 \<Rightarrow> uint64 \<Rightarrow> byte list \<Rightarrow> byte list" where
  "packetToBytes ty epoch sequence content =
     [ty] @ PutUint16 dtlsVersion @ PutUint16 epoch @ drop 2 (PutUint64 sequence)
     @ PutUint16 (of_nat (length content)) @ content"

definition packetLength :: "DtlsPacket \<Rightarrow> nat" where
  "packetLength packet = unat (ContentLength packet + 13)"

section \<open>DTLS: the handshake\<close>

text \<open>Each step of the handshake takes the datagram that its \<^verbatim>\<open>Connection.Read\<close> returns
  (\<open>None\<close> when the read fails) and gives the connection as it leaves it and the \<^verbatim>\<open>error\<close>
  it returns.\<close>

definition sendHandshake :: "Dtls \<Rightarrow> byte list \<Rightarrow> Dtls" where
  "sendHandshake dtls content =
     dtls\<lparr>written := written dtls @
              [packetToBytes dtlsContentTypeHandshake (ClientEpoch dtls) (ClientSequence dtls)
                 content],
          ClientSequence := ClientSequence dtls + 1,
          Handshake := (Handshake dtls)\<lparr>
            hsClientSequence := hsClientSequence (Handshake dtls) + 1\<rparr>\<rparr>"

definition GetCookie ::
  "Crypto \<Rightarrow> Dtls \<Rightarrow> byte list option \<Rightarrow> panic + (Dtls \<times> goerror option)" where
  "GetCookie C dtls incoming =
     (case ToBytes C dtlsHandshakeTypeClientHello (hsClientSequence (Handshake dtls))
             (Handshake dtls) of
        Inl p \<Rightarrow> Inl p
      | Inr content \<Rightarrow>
          (case incoming of
             None \<Rightarrow> Inr (sendHandshake dtls content, Some (GoError ''read''))
           | Some datagram \<Rightarrow>
               (case ParsePacket C (sendHandshake dtls content) (readBuffer datagram) of
                  Inl p \<Rightarrow> Inl p
                | Inr (dtls', None) \<Rightarrow> Inr (dtls', Some (GoError ''handshake''))
                | Inr (dtls', Some helloVerifyRequest) \<Rightarrow> Inr (dtls', None))))"

text \<open>Two records are read from one datagram: the second begins where the first ends, at
  \<^verbatim>\<open>Length()\<close> of the first.\<close>

definition parseTwo ::
  "Crypto \<Rightarrow> Dtls \<Rightarrow> byte list \<Rightarrow> panic + (Dtls \<times> goerror option)" where
  "parseTwo C dtls datagram =
     (case ParsePacket C dtls (readBuffer datagram) of
        Inl p \<Rightarrow> Inl p
      | Inr (dtls1, None) \<Rightarrow> Inr (dtls1, Some (GoError ''handshake''))
      | Inr (dtls1, Some first) \<Rightarrow>
          (case reslice (readBuffer datagram) (packetLength first)
                  (length (fst (readBuffer datagram))) of
             Inl p \<Rightarrow> Inl p
           | Inr rest \<Rightarrow>
               (case ParsePacket C dtls1 rest of
                  Inl p \<Rightarrow> Inl p
                | Inr (dtls2, None) \<Rightarrow> Inr (dtls2, Some (GoError ''handshake''))
                | Inr (dtls2, Some second) \<Rightarrow> Inr (dtls2, None))))"

definition GetSession ::
  "Crypto \<Rightarrow> Dtls \<Rightarrow> byte list option \<Rightarrow> panic + (Dtls \<times> goerror option)" where
  "GetSession C dtls incoming =
     (case ToBytes C dtlsHandshakeTypeClientHello (hsClientSequence (Handshake dtls))
             (Handshake dtls) of
        Inl p \<Rightarrow> Inl p
      | Inr content \<Rightarrow>
          let dtls1 = sendHandshake
                (dtls\<lparr>Handshake := (Handshake dtls)\<lparr>
                   Messages := Messages (Handshake dtls) @ content\<rparr>\<rparr>) content
          in
          (case incoming of
             None \<Rightarrow> Inr (dtls1, Some (GoError ''read''))
           | Some datagram \<Rightarrow> parseTwo C dtls1 datagram))"

definition SendClientKeyExchange :: "Crypto \<Rightarrow> Dtls \<Rightarrow> panic + (Dtls \<times> goerror option)" where
  "SendClientKeyExchange C dtls =
     (case ToBytes C dtlsHandshakeTypeClientKeyExchange (hsClientSequence (Handshake dtls))
             (Handshake dtls) of
        Inl p \<Rightarrow> Inl p
      | Inr content \<Rightarrow>
          Inr (sendHandshake
                 (dtls\<lparr>Handshake := (Handshake dtls)\<lparr>
                    Messages := Messages (Handshake dtls) @ content\<rparr>\<rparr>) content,
               None))"

definition SendChangeCipherSpec :: "Dtls \<Rightarrow> Dtls \<times> goerror option" where
  "SendChangeCipherSpec dtls =
     (dtls\<lparr>written := written dtls @
               [packetToBytes dtlsContentTypeChangeCipherSpec (ClientEpoch dtls)
                  (ClientSequence dtls) [dtlsChangeCipherSpecMessage]],
           ClientEpoch := ClientEpoch dtls + 1,
           ClientSequence := 0,
           ClientEncrypt := True\<rparr>,
      None)"

definition SendFinished ::
  "Crypto \<Rightarrow> Dtls \<Rightarrow> byte list option \<Rightarrow> panic + (Dtls \<times> goerror option)" where
  "SendFinished C dtls incoming =
     (case ToBytes C dtlsHandshakeTypeFinished (hsClientSequence (Handshake dtls))
             (Handshake dtls) of
        Inl p \<Rightarrow> Inl p
      | Inr plainHandshake \<Rightarrow>
          let dtls1 = dtls\<lparr>Handshake := (Handshake dtls)\<lparr>
                        Messages := Messages (Handshake dtls) @ plainHandshake\<rparr>\<rparr>
          in
          (case encrypt C dtls1 plainHandshake dtlsContentTypeHandshake of
             Inl p \<Rightarrow> Inl p
           | Inr content \<Rightarrow>
               (case incoming of
                  None \<Rightarrow> Inr (sendHandshake dtls1 content, Some (GoError ''read''))
                | Some datagram \<Rightarrow> parseTwo C (sendHandshake dtls1 content) datagram)))"

text \<open>\<^verbatim>\<open>processHandshake\<close>, as \<^verbatim>\<open>DtlsDial\<close> sees it: the first step that returns an error
  makes the dial fail (\<open>Inl\<close> of the inner sum); when no step does, the connection is
  established. \<open>incoming\<close> are the datagrams that arrive, in their order. The flag
  \<^verbatim>\<open>Verified\<close> is set by the last step and not looked at.\<close>

definition nextDatagram :: "byte list list \<Rightarrow> nat \<Rightarrow> byte list option" where
  "nextDatagram incoming i = (if i < length incoming then Some (incoming ! i) else None)"

definition processHandshake ::
  "Crypto \<Rightarrow> Dtls \<Rightarrow> byte list list \<Rightarrow> panic + (goerror + Dtls)" where
  "processHandshake C dtls incoming =
     (case GetCookie C dtls (nextDatagram incoming 0) of
        Inl p \<Rightarrow> Inl p
      | Inr (dtls1, Some err) \<Rightarrow> Inr (Inl err)
      | Inr (dtls1, None) \<Rightarrow>
          (case GetSession C dtls1 (nextDatagram incoming 1) of
             Inl p \<Rightarrow> Inl p
           | Inr (dtls2, Some err) \<Rightarrow> Inr (Inl err)
           | Inr (dtls2, None) \<Rightarrow>
               (case SendClientKeyExchange C dtls2 of
                  Inl p \<Rightarrow> Inl p
                | Inr (dtls3, Some err) \<Rightarrow> Inr (Inl err)
                | Inr (dtls3, None) \<Rightarrow>
                    (case GenerateSecurityParams C (fst (SendChangeCipherSpec dtls3)) of
                       Inl p \<Rightarrow> Inl p
                     | Inr dtls4 \<Rightarrow>
                         (case SendFinished C dtls4 (nextDatagram incoming 2) of
                            Inl p \<Rightarrow> Inl p
                          | Inr (dtls5, Some err) \<Rightarrow> Inr (Inl err)
                          | Inr (dtls5, None) \<Rightarrow> Inr (Inr dtls5))))))"

text \<open>The connection that \<^verbatim>\<open>DtlsDial\<close> starts the handshake with.\<close>

definition dialState :: "byte list \<Rightarrow> byte list \<Rightarrow> byte list \<Rightarrow> Dtls" where
  "dialState identity psk clientRandom =
     \<lparr>ServerEpoch = 0, ClientEpoch = 0, ServerSequence = 0, ClientSequence = 0,
      ServerWriteKey = [], ClientWriteKey = [], ServerIV = [], ClientIV = [],
      ClientEncrypt = False, ServerEncrypt = False,
      Handshake =
        \<lparr>hsServerSequence = 0, hsClientSequence = 0, Identity = identity, Cookie = [],
         Session = [], ClientRandom = clientRandom, ServerRandom = ([], []),
         PreMasterSecret = DtlsPreMasterSecretFromPSK psk, MasterSecret = [],
         Messages = [], Verified = False\<rparr>,
      written = []\<rparr>"

section \<open>Concrete inputs for DTLS\<close>

text \<open>Stand-ins for the cryptographic primitives, for running the model on concrete
  datagrams: constant hashes of 32 bytes, a key stream of zeros, and a CBC encryption that
  gives zeros. A ChangeCipherSpec record of epoch 0 and sequence number \<open>n\<close>.\<close>

definition nullCrypto :: Crypto where
  "nullCrypto =
     \<lparr>sha256 = (\<lambda>msg. replicate 32 0), hmacSha256 = (\<lambda>key msg. replicate 32 0),
      aesCTR = (\<lambda>key iv src. src), aesCBC = (\<lambda>key iv src. replicate (length src) 0)\<rparr>"

definition changeCipherSpecRecord :: "uint64 \<Rightarrow> byte list" where
  "changeCipherSpecRecord n =
     packetToBytes dtlsContentTypeChangeCipherSpec 0 n [dtlsChangeCipherSpecMessage]"

text \<open>The messages of a server that completes the handshake with the stand-in primitives:
  a HelloVerifyRequest with a cookie of 32 bytes, a ServerHello with a session id of 32 bytes,
  a ServerHelloDone, and a Finished message whose verify data are 12 zeros. \<open>serverFlights\<close>
  are the three datagrams that carry them; in the last, behind the ChangeCipherSpec record,
  the Finished message is between the 8 bytes of epoch and sequence number and the 8 bytes of
  the MAC.\<close>

definition helloVerifyRequest :: "byte list" where
  "helloVerifyRequest =
     handshakeHeader dtlsHandshakeTypeHelloVerifyRequest 0 35
     @ PutUint16 dtlsVersion @ [32] @ replicate 32 0xCC"

definition serverHello :: "byte list" where
  "serverHello =
     handshakeHeader dtlsHandshakeTypeServerHello 1 70
     @ PutUint16 dtlsVersion @ replicate 32 0x55 @ [32] @ replicate 32 0x66
     @ PutUint16 dtlsCipherSuite @ [dtlsCompress]"

definition serverHelloDone :: "byte list" where
  "serverHelloDone = handshakeHeader dtlsHandshakeTypeServerHelloDone 2 0"

definition serverFinished :: "byte list" where
  "serverFinished = handshakeHeader dtlsHandshakeTypeFinished 3 12 @ replicate 12 0"

definition serverFlights :: "byte list list" where
  "serverFlights =
     [packetToBytes dtlsContentTypeHandshake 0 0 helloVerifyRequest,
      packetToBytes dtlsContentTypeHandshake 0 1 serverHello
      @ packetToBytes dtlsContentTypeHandshake 0 2 serverHelloDone,
      changeCipherSpecRecord 3
      @ packetToBytes dtlsContentTypeHandshake 1 0
          ([0, 1, 0, 0, 0, 0, 0, 0] @ serverFinished @ replicate 8 0)]"

section \<open>Properties of the TLV codec\<close>

lemma length_marshalID:
  "length (snd (marshalID i)) = (if i \<le> 0xFF then 1 else 2)"
  by (simp add: marshalID_def)

lemma length_marshalLength:
  "length (snd (marshalLength l)) =
     (if l \<le> 0x07 then 0 else if l \<le> 0xFF then 1 else if l \<ge> 0xFFFF then 2 else 3)"
  by (simp add: marshalLength_def)

text \<open>Claim C8: for every TLV record, \<^verbatim>\<open>TotalLength\<close> is the number of bytes that
  \<^verbatim>\<open>Marshal\<close> produces; both take the same branches on the id and on the length
  field (also at \<open>0xFFFF\<close>), and both count the bytes of \<^verbatim>\<open>Value\<close>, not the
  \<^verbatim>\<open>Length\<close> field.\<close>

theorem TotalLength_eq_length_Marshal:
  "TotalLength tlv = int (length (Marshal tlv))"
proof -
  have "length (Marshal tlv) =
          1 + length (snd (marshalID (ID tlv))) + length (snd (marshalLength (Length tlv)))
            + length (Value tlv)"
    by (simp add: Marshal_def split: prod.splits)
  then show ?thesis
    by (simp add: TotalLength_def Let_def length_marshalID length_marshalLength)
qed

lemma mask8_16: "(0xFF::uint16) = mask 8" by (simp add: mask_eq_exp_minus_1)
lemma mask8_32: "(0xFF::uint32) = mask 8" by (simp add: mask_eq_exp_minus_1)

lemma bit_lt24:
  fixes l :: uint32
  assumes "l < 2^24" "bit l n" shows "n < 24"
proof -
  have "l AND mask 24 = l" using assms(1) by (rule less_mask_eq)
  then have "bit (l AND mask 24) n" using assms(2) by simp
  then show ?thesis by (simp add: bit_simps)
qed

lemma Uint32_split3: 
  assumes "l < 2^24" 
  shows "Uint32 0 (ucast (drop_bit 16 l)) (ucast (drop_bit 8 l AND 0x0000FF)) (ucast (l AND 0x0000FF)) = l"
  unfolding Uint32_def mask8_32
  apply (rule bit_word_eqI)
  subgoal for n
    using bit_lt24[OF assms, of n]
    by (cases "n < 8"; cases "n < 16"; cases "n < 24") (auto simp add: bit_simps)
  done

lemma byte_le3_cases: 
  assumes "(ty::byte) \<le> 3" shows "ty = 0 \<or> ty = 1 \<or> ty = 2 \<or> ty = 3"
proof -
  have "unat ty \<le> 3" using assms by (simp add: word_le_nat_alt)
  then have "unat ty = 0 \<or> unat ty = 1 \<or> unat ty = 2 \<or> unat ty = 3" by arith
  then show ?thesis by (auto simp: word_unat_eq_iff)
qed

lemma u32_le7_cases: 
  assumes "(l::uint32) \<le> 7" shows "l = 0 \<or> l = 1 \<or> l = 2 \<or> l = 3 \<or> l = 4 \<or> l = 5 \<or> l = 6 \<or> l = 7"
proof -
  have "unat l \<le> 7" using assms by (simp add: word_le_nat_alt)
  then have "unat l = 0 \<or> unat l = 1 \<or> unat l = 2 \<or> unat l = 3 \<or> unat l = 4 \<or> unat l = 5 \<or> unat l = 6 \<or> unat l = 7" by arith
  then show ?thesis by (auto simp: word_unat_eq_iff)
qed

lemma Uint16_split: "Uint16 (ucast (drop_bit 8 i)) (ucast (i AND 0x00FF)) = i"
  unfolding Uint16_def mask8_16
  apply (rule bit_word_eqI)
  apply (auto simp add: bit_simps)
  done

lemma header_fields:
  fixes ty f1 f2 :: byte
  assumes "ty = 0 \<or> ty = 1 \<or> ty = 2 \<or> ty = 3" "f1 = 0 \<or> f1 = 32"
    "f2 = 0 \<or> f2 = 1 \<or> f2 = 2 \<or> f2 = 3 \<or> f2 = 4 \<or> f2 = 5 \<or> f2 = 6 \<or> f2 = 7 \<or> f2 = 8 \<or> f2 = 16 \<or> f2 = 24"
  shows "drop_bit 6 (push_bit 6 ty + f1 + f2) AND 3 = ty"
    and "drop_bit 5 (push_bit 6 ty + f1 + f2) AND 1 = drop_bit 5 f1"
    and "drop_bit 3 (push_bit 6 ty + f1 + f2) AND 3 = drop_bit 3 f2"
    and "(push_bit 6 ty + f1 + f2) AND 7 = f2 AND 7"
  using assms by auto

lemma ucast_byte_u32: "(l::uint32) \<le> 0xFF \<Longrightarrow> ucast (ucast l :: byte) = l"
proof -
  assume "l \<le> 0xFF"
  then have "l < 2^8" by (simp add: word_le_nat_alt word_less_nat_alt)
  then have "l AND mask 8 = l" by (rule less_mask_eq)
  moreover have "ucast (ucast l :: byte) = l AND mask 8"
    by (rule bit_word_eqI) (auto simp: bit_simps)
  ultimately show ?thesis by simp
qed

lemma ucast_byte_u16: "(l::uint16) \<le> 0xFF \<Longrightarrow> ucast (ucast l :: byte) = l"
proof -
  assume "l \<le> 0xFF"
  then have "l < 2^8" by (simp add: word_le_nat_alt word_less_nat_alt)
  then have "l AND mask 8 = l" by (rule less_mask_eq)
  moreover have "ucast (ucast l :: byte) = l AND mask 8"
    by (rule bit_word_eqI) (auto simp: bit_simps)
  ultimately show ?thesis by simp
qed

lemma lcases:
  fixes l :: uint32
  assumes l16: "l \<le> 0xFFFF"
  obtains (inline) "l \<le> 7" | (one) "\<not> l \<le> 7" "l \<le> 0xFF" | (two) "l = 0xFFFF"
    | (three) "\<not> l \<le> 0xFF" "l < 0xFFFF"
proof -
  have "unat l \<le> 7 \<or> (\<not> unat l \<le> 7 \<and> unat l \<le> 255) \<or> unat l = 65535
          \<or> (\<not> unat l \<le> 255 \<and> unat l < 65535)"
    using l16 by (simp add: word_le_nat_alt) arith
  then have "l \<le> 7 \<or> (\<not> l \<le> 7 \<and> l \<le> 0xFF) \<or> l = 0xFFFF \<or> (\<not> l \<le> 0xFF \<and> l < 0xFFFF)"
    by (simp add: word_le_nat_alt word_less_nat_alt word_unat_eq_iff)
  then show thesis using that by blast
qed

lemma marshalID_flag: "fst (marshalID i) = 0 \<or> fst (marshalID i) = 32"
  by (simp add: marshalID_def)

lemma marshalLength_flag:
  "fst (marshalLength l) = 0 \<or> fst (marshalLength l) = 1 \<or> fst (marshalLength l) = 2 \<or> fst (marshalLength l) = 3 \<or> fst (marshalLength l) = 4 \<or> fst (marshalLength l) = 5 \<or> fst (marshalLength l) = 6 \<or> fst (marshalLength l) = 7 \<or> fst (marshalLength l) = 8 \<or> fst (marshalLength l) = 16 \<or> fst (marshalLength l) = 24"
proof (cases "l \<le> 7")
  case True
  from u32_le7_cases[OF this] show ?thesis
    by (auto simp: marshalLength_def)
next
  case False
  then show ?thesis by (simp add: marshalLength_def)
qed

lemma unmarshalID_marshalID:
  assumes "drop_bit 5 h AND 1 = drop_bit 5 (fst (marshalID i))"
  shows "unmarshalID (h # snd (marshalID i) @ rest) = Some (i, 1 + length (snd (marshalID i)))"
  using assms
  by (cases "i \<le> 0xFF") (simp_all add: unmarshalID_def marshalID_def Uint16_split ucast_byte_u16)


lemma unmarshalLength_marshalLength:
  assumes h3: "drop_bit 3 h AND 3 = drop_bit 3 (fst (marshalLength l))"
    and h7: "h AND 7 = fst (marshalLength l) AND 7"
    and l16: "l \<le> 0xFFFF"
    and n: "length ids = n"
  shows "unmarshalLength (h # ids @ snd (marshalLength l) @ rest) (1 + n)
           = Some (l, 1 + n + length (snd (marshalLength l)))"
  using l16
proof (cases rule: lcases)
  case inline
  from u32_le7_cases[OF this] show ?thesis
    using h3 h7 by (auto simp: unmarshalLength_def marshalLength_def)
next
  case one
  then show ?thesis using h3 n [symmetric]
    by (simp add: unmarshalLength_def marshalLength_def nth_append ucast_byte_u32)
next
  case two
  then show ?thesis using h3 n [symmetric]
    by (simp add: unmarshalLength_def marshalLength_def nth_append Uint16_def)
next
  case three
  then have "l < 2^24" by (simp add: word_less_nat_alt)
  then have u: "Uint32 0 (ucast (drop_bit 16 l)) (ucast (drop_bit 8 l AND 0x0000FF)) (ucast (l AND 0x0000FF)) = l"
    by (rule Uint32_split3)
  have nn: "\<not> 0xFFFF \<le> l" "\<not> l \<le> 7"
    using three by (simp_all add: word_le_nat_alt word_less_nat_alt)
  show ?thesis using three nn h3 u n [symmetric]
    by (simp add: unmarshalLength_def marshalLength_def nth_append)
qed

lemma Marshal_shape:
  "Marshal t = (push_bit 6 (TypeOfID t) + fst (marshalID (ID t)) + fst (marshalLength (Length t)))
       # snd (marshalID (ID t)) @ snd (marshalLength (Length t)) @ Value t"
  by (simp add: Marshal_def split: prod.splits)

text \<open>The round trip for any receiver: the decoded fields are those of \<open>t\<close>, and the
  receiver keeps its own \<^verbatim>\<open>Contents\<close>.\<close>

lemma Unmarshal_Marshal_any:
  assumes "TypeOfID t \<le> 3" and "unat (Length t) = length (Value t)" and "Length t \<le> 0xFFFF"
  shows "Unmarshal r (Marshal t) =
           (Lwm2mTLV (TypeOfID t) (ID t) (Length t) (Value t) (Contents r),
            int (length (Marshal t)))"
proof -
  define h where "h = push_bit 6 (TypeOfID t) + fst (marshalID (ID t)) + fst (marshalLength (Length t))"
  define ids where "ids = snd (marshalID (ID t))"
  define lens where "lens = snd (marshalLength (Length t))"
  have shape: "Marshal t = h # ids @ lens @ Value t"
    by (simp add: Marshal_shape h_def ids_def lens_def)
  note hf = header_fields [OF byte_le3_cases [OF assms(1)] marshalID_flag marshalLength_flag,
      of "ID t" "Length t", folded h_def]
  have idp: "unmarshalID (h # ids @ lens @ Value t) = Some (ID t, 1 + length ids)"
    unfolding ids_def by (rule unmarshalID_marshalID) (simp add: hf)
  have "unmarshalLength (h # ids @ lens @ Value t) (1 + length ids)
           = Some (Length t, 1 + length ids + length lens)"
    unfolding lens_def by (rule unmarshalLength_marshalLength) (simp_all add: hf assms)
  then have lenp: "unmarshalLength (h # ids @ lens @ Value t) (Suc (length ids))
           = Some (Length t, Suc (length ids + length lens))"
    by simp
  show ?thesis
    unfolding shape by (simp add: Unmarshal_def idp lenp hf assms(2))
qed

text \<open>Claim C1 (as amended): for every TLV record whose type of identifier fits its two
  bits, whose \<^verbatim>\<open>Length\<close> field is the number of bytes of \<^verbatim>\<open>Value\<close> and at most
  \<open>0xFFFF\<close>, and which carries no nested \<^verbatim>\<open>Contents\<close>, unmarshalling the bytes of
  \<^verbatim>\<open>Marshal\<close> into a fresh record gives the record back, and the count returned is the
  number of bytes marshalled.\<close>

theorem Unmarshal_Marshal_roundtrip:
  assumes "TypeOfID t \<le> 3" and "unat (Length t) = length (Value t)"
    and "Length t \<le> 0xFFFF" and "Contents t = []"
  shows "Unmarshal emptyTLV (Marshal t) = (t, int (length (Marshal t)))"
proof -
  have "Lwm2mTLV (TypeOfID t) (ID t) (Length t) (Value t) (Contents emptyTLV) = t"
    using assms(4) by (cases t) (simp add: emptyTLV_def)
  then show ?thesis
    using Unmarshal_Marshal_any [OF assms(1-3), of emptyTLV] by simp
qed

text \<open>The theorem at a record with a two-byte id and a length of 300 bytes, which takes the
  three-byte length encoding.\<close>

theorem Unmarshal_Marshal_roundtrip_witness:
  "TypeOfID (Lwm2mTLV 3 300 300 (replicate 300 0x2A) []) \<le> 3 \<and>
   unat (Length (Lwm2mTLV 3 300 300 (replicate 300 0x2A) []))
     = length (Value (Lwm2mTLV 3 300 300 (replicate 300 0x2A) [])) \<and>
   Unmarshal emptyTLV (Marshal (Lwm2mTLV 3 300 300 (replicate 300 0x2A) []))
     = (Lwm2mTLV 3 300 300 (replicate 300 0x2A) [], 306)"
  using Unmarshal_Marshal_roundtrip [of "Lwm2mTLV 3 300 300 (replicate 300 0x2A) []"]
  by (simp add: Marshal_shape marshalID_def marshalLength_def)

text \<open>Claim C1 as stated fails: a record with a nested record comes back without it, a
  record whose \<^verbatim>\<open>Length\<close> is not the size of its \<^verbatim>\<open>Value\<close> comes back with another value
  and another count, and a type of identifier of 4 comes back as 0.\<close>

theorem Unmarshal_Marshal_counterexample:
  "fst (Unmarshal emptyTLV (Marshal (Lwm2mTLV 0 1 0 [] [Lwm2mTLV 3 2 1 [0x2A] []])))
     \<noteq> Lwm2mTLV 0 1 0 [] [Lwm2mTLV 3 2 1 [0x2A] []] \<and>
   Unmarshal emptyTLV (Marshal (Lwm2mTLV 3 3 0 [0x2A] []))
     = (Lwm2mTLV 3 3 0 [] [], 2) \<and>
   int (length (Marshal (Lwm2mTLV 3 3 0 [0x2A] []))) = 3 \<and>
   Unmarshal emptyTLV (Marshal (Lwm2mTLV 4 3 1 [0x2A] []))
     = (Lwm2mTLV 0 3 1 [0x2A] [], 3)"
  by (simp add: Marshal_shape marshalID_def marshalLength_def Unmarshal_def unmarshalID_def
      unmarshalLength_def emptyTLV_def)

text \<open>Above \<open>0xFFFF\<close> the test \<^verbatim>\<open>Length >= 0xFFFF\<close> of \<^verbatim>\<open>Marshal\<close> selects the two-byte
  length encoding, which keeps the low 16 bits only: a record of 65536 value bytes is read
  back as a record of length 0.\<close>

lemma Marshal_Length_65536:
  "Unmarshal emptyTLV (Marshal (Lwm2mTLV 3 3 0x10000 (replicate 65536 0) []))
     = (Lwm2mTLV 3 3 0 [] [], 4)"
  by (simp add: Marshal_shape marshalID_def marshalLength_def Unmarshal_def unmarshalID_def
      unmarshalLength_def emptyTLV_def Uint16_def)

section \<open>Properties of the CoAP codec\<close>

text \<open>Claim C3 fails on the code at the single option of number 256 and empty value: the
  builder writes the delta as the extension byte \<open>243\<close>, and the parser adds 13 to it as a
  byte, which wraps to 0.\<close>

theorem ParseOptions_BuildOptions_No_256:
  "BuildOptions (resetMessage 0\<lparr>Options := [\<lparr>No = 256, optValue = []\<rparr>]\<rparr>) = [0xD0, 0xF3] \<and>
   ParseOptions (resetMessage 0) [0xD0, 0xF3]
     = Inr (resetMessage 0\<lparr>Options := [\<lparr>No = 0, optValue = []\<rparr>]\<rparr>, 2)"
  by (simp add: BuildOptions_def BuildOption_def ParseOptions_def ParseOptionsLoop.simps
      ParseOption_def parseExt_def resetMessage_def)

text \<open>Two more inputs of the same kind: the number 525, whose two-byte extension the parser
  reads without its high byte, and a value of 13 bytes under the number 300, whose length the
  builder writes in two bytes because the delta is above 268, so that the parser reads a
  length of 269 and runs past the end.\<close>

lemma minus_one_byte: "(- 1 :: byte) = 255"
  by simp

lemma ParseOptions_BuildOptions_No_525:
  "ParseOptions (resetMessage 0)
     (BuildOptions (resetMessage 0\<lparr>Options := [\<lparr>No = 525, optValue = []\<rparr>]\<rparr>))
     = Inr (resetMessage 0\<lparr>Options := [\<lparr>No = 269, optValue = []\<rparr>]\<rparr>, 3)"
  by (simp add: BuildOptions_def BuildOption_def ParseOptions_def ParseOptionsLoop.simps
      ParseOption_def parseExt_def resetMessage_def)

lemma ParseOptions_BuildOptions_length_13:
  "ParseOptions (resetMessage 0)
     (BuildOptions (resetMessage 0\<lparr>Options := [\<lparr>No = 300, optValue = replicate 13 0\<rparr>]\<rparr>))
     = Inl SliceBoundsOutOfRange"
  by (simp add: BuildOptions_def BuildOption_def ParseOptions_def ParseOptionsLoop.simps
      ParseOption_def parseExt_def resetMessage_def minus_one_byte)

text \<open>Claim C10 fails on the code: a datagram of a header and one option byte that
  announces a value of one byte, or an extension byte, which is not there, makes
  \<^verbatim>\<open>ParseOption\<close> read past the end, and \<^verbatim>\<open>ParseMessage\<close> panics.\<close>

theorem ParseMessage_truncated_option:
  "ParseMessage [0x40, 0x01, 0x00, 0x00, 0x01] = Inl SliceBoundsOutOfRange \<and>
   ParseMessage [0x40, 0x01, 0x00, 0x00, 0xD0] = Inl IndexOutOfRange"
  by (simp add: ParseMessage_def ParseOptions_def ParseOptionsLoop.simps ParseOption_def
      parseExt_def)

section \<open>Properties of the value conversions\<close>

text \<open>Rules that evaluate \<open>char_of\<close> at a number.\<close>

lemmas char_eval = char_of_def bit_Suc_0_iff

text \<open>Claim C4 fails on the code at \<open>v = -1\<close>: the string is written as the single byte
  \<open>0xFF\<close>, and a single byte is read back without its sign.\<close>

theorem convert_Integer_minus_one:
  "convertStringToTLVValue L ''-1'' lwm2mResourceTypeInteger = Inr [0xFF] \<and>
   convertTLVValueToString L [0xFF] lwm2mResourceTypeInteger = Inr ''255''"
  by (simp add: convertStringToTLVValue_def convertTLVValueToString_def ParseInt_def
      digitVal_def FormatInt_def decDigits.simps char_eval)

section \<open>Properties of the agent\<close>







text \<open>What the three Reset messages leave, computed.\<close>

lemma ObserveDeregister_observingAgent:
  "map oiToken (observedInstance (ObserveDeregister observingAgent (resetMessage 7))) = [[1], [2]]"
  "map token (observedResource (ObserveDeregister observingAgent (resetMessage 7))) = [[4], [5]]"
  "map oiToken (observedInstance (ObserveDeregister observingAgent (resetMessage 9)))
     = [[1], [2], [3]]"
  "map token (observedResource (ObserveDeregister observingAgent (resetMessage 9))) = [[4]]"
  by (simp_all add: observingAgent_def resetMessage_def ObserveDeregister_def deleteAt_def)


lemma contentFormatTLV_bytes: "contentFormatTLV = [0x2D, 0x16]"
  by (simp add: contentFormatTLV_def PutUint16_def)



lemma convert_45: "convertStringToTLVValue L ''45'' lwm2mResourceTypeInteger = Inr [0x2D]"
  by (simp add: convertStringToTLVValue_def ParseInt_def digitVal_def)

lemma convert_43: "convertStringToTLVValue L ''43'' lwm2mResourceTypeInteger = Inr [0x2B]"
  by (simp add: convertStringToTLVValue_def ParseInt_def digitVal_def)

lemma Marshal_resource_9: "Marshal (resourceTLV 9 [b]) = [0xC1, 0x09, b]"
  by (simp add: Marshal_def resourceTLV_def marshalID_def marshalLength_def)

lemma observeCountBuf_0: "observeCountBuf 0 = [0x00]"
  by (simp add: observeCountBuf_def PutUint32_def)

text \<open>The observation scenario, for any agent that is connected and registered and observes
  nothing yet: after the observe-register on \<open>/3/0/9\<close>, a readable integer resource whose
  value goes from 45 to 43, one tick writes one message.\<close>

lemma Observe_after_register:
  assumes conn: "Connection lwm2m = Some coap" and reg: "registered lwm2m"
    and fresh: "observedInstance lwm2m = []" "observedResource lwm2m = []"
    and path: "extractResourceID message = Inr (3, 3, 0, 9)" and obs: "IsObserve message"
    and found: "findResource lwm2m 3 0 9 = Some res"
    and rd: "resDefinition res = Some rdef" "Readable rdef"
      "rdType rdef = lwm2mResourceTypeInteger" "resID res = 9"
    and before: "ReadResource (handler lwm2m) res = (''45'', CoapCodeContent)"
    and after: "ReadResource handler' res = (''43'', CoapCodeContent)"
  shows "observeScenario L lwm2m message handler' =
           Inr [\<lparr>Version = 1, msgType = CoapTypeNonConfirmable,
                 TokenLength = of_nat (length (Token message)), Code = CoapCodeContent,
                 MessageID = NextMessageID coap, Token = Token message,
                 Options = [\<lparr>No = coapOptionNoContentFormat, optValue = [0x2D, 0x16]\<rparr>,
                            \<lparr>No = coapOptionNoObserve, optValue = [0x00]\<rparr>],
                 Payload = [0xC1, 0x09, 0x2B]\<rparr>]"
proof -
  define observed where
    "observed = \<lparr>token = Token message, messageID = 0, observeCount = 0,
                  resource = Some res, lastValue = ''45''\<rparr>"
  define ack where
    "ack = ackMessage message CoapCodeContent
             [\<lparr>No = coapOptionNoContentFormat, optValue = contentFormatTLV\<rparr>,
              \<lparr>No = coapOptionNoObserve, optValue = [coapObserveRegister]\<rparr>]
             [0xC1, 0x09, 0x2D]"
  define lwm2m1 where
    "lwm2m1 = withSent (lwm2m\<lparr>observedResource := [observed]\<rparr>) coap ack"
  have read: "ReadRequest L lwm2m message = Inr (lwm2m1, None)"
    using path obs found rd before conn fresh
    by (simp add: ReadRequest_def processReadResource_def convert_45 Marshal_resource_9
        SendResponse_def withSent_def ackMessage_def lwm2m1_def observed_def ack_def)
  have notify: "NotifyResource L (lwm2m1\<lparr>handler := handler'\<rparr>) observed
      = Inr (lwm2m1\<lparr>handler := handler',
               Connection := Some (coap\<lparr>NextMessageID := (NextMessageID coap + 1) AND 0xFFFF,
                 sent := sent coap @ [ack,
                   \<lparr>Version = 1, msgType = CoapTypeNonConfirmable,
                    TokenLength = of_nat (length (Token message)), Code = CoapCodeContent,
                    MessageID = NextMessageID coap, Token = Token message,
                    Options = [\<lparr>No = coapOptionNoContentFormat, optValue = [0x2D, 0x16]\<rparr>,
                               \<lparr>No = coapOptionNoObserve, optValue = [0x00]\<rparr>],
                    Payload = [0xC1, 0x09, 0x2B]\<rparr>]\<rparr>)\<rparr>,
             observed\<lparr>lastValue := ''43'', observeCount := 1, messageID := NextMessageID coap\<rparr>)"
    using rd after
    by (simp add: NotifyResource_def observed_def convert_43 Marshal_resource_9
        SendRelatedMessage_def lwm2m1_def withSent_def observeCountBuf_0 contentFormatTLV_bytes)
  have st: "Connection lwm2m1 = Some (coap\<lparr>sent := sent coap @ [ack]\<rparr>)"
    "registered lwm2m1" "observedInstance lwm2m1 = []" "observedResource lwm2m1 = [observed]"
    using reg fresh by (simp_all add: lwm2m1_def withSent_def)
  show ?thesis
    unfolding observeScenario_def read Observe_def
    by (simp add: st notify sentMessages_def)
qed


text \<open>Claim C6 (as amended): after a successful observe-register on resource \<open>/3/0/9\<close>,
  changing the handler's value from \<open>45\<close> to \<open>43\<close> and running one Observe tick produces
  exactly one NON message, with code 2.05, the token of the subscriber, the content-format
  option 11542, an Observe option whose value is the single byte \<open>0x00\<close> (the counter is
  written before it is incremented), and the payload \<open>C1 09 2B\<close>: the TLV of resource id 9
  with the value byte \<open>0x2B\<close>.\<close>

theorem Observe_first_notification:
  assumes "Connection lwm2m = Some coap" and "registered lwm2m"
    and "observedInstance lwm2m = []" and "observedResource lwm2m = []"
    and "extractResourceID message = Inr (3, 3, 0, 9)" and "IsObserve message"
    and "findResource lwm2m 3 0 9 = Some res"
    and "resDefinition res = Some rdef" and "Readable rdef"
    and "rdType rdef = lwm2mResourceTypeInteger" and "resID res = 9"
    and "ReadResource (handler lwm2m) res = (''45'', CoapCodeContent)"
    and "ReadResource handler' res = (''43'', CoapCodeContent)"
  shows "observeScenario L lwm2m message handler' =
           Inr [\<lparr>Version = 1, msgType = CoapTypeNonConfirmable,
                 TokenLength = of_nat (length (Token message)), Code = CoapCodeContent,
                 MessageID = NextMessageID coap, Token = Token message,
                 Options = [\<lparr>No = coapOptionNoContentFormat, optValue = [0x2D, 0x16]\<rparr>,
                            \<lparr>No = coapOptionNoObserve, optValue = [0x00]\<rparr>],
                 Payload = [0xC1, 0x09, 0x2B]\<rparr>]"
  using assms by (rule Observe_after_register)

lemmas eval_path = extractResourceID_def getMessage_def bytesOfString_def stringOfBytes_def
  Atoi_def ParseInt_def digitVal_def char_eval

lemmas eval_find = findResource_def findInstance_def findResourceDefinitionByIDs_def
  findObjectDefinitionByID_def findResourceByID_def deviceAgent_def deviceHandler_def
  deviceDefinitions_def

lemma observeRequest_path: "extractResourceID observeRequest = Inr (3, 3, 0, 9)"
  by (simp add: observeRequest_def eval_path)

lemma observeRequest_IsObserve: "IsObserve observeRequest"
  by (simp add: observeRequest_def IsObserve_def getMessage_def)

lemma deviceAgent_battery: "findResource (deviceAgent v) 3 0 9 = Some batteryLevel"
  by (simp add: eval_find batteryLevel_def)

text \<open>The theorem at \<open>deviceAgent\<close>.\<close>

theorem Observe_first_notification_witness:
  "observeScenario nullLib (deviceAgent ''45'') observeRequest (deviceHandler ''43'') =
     Inr [\<lparr>Version = 1, msgType = CoapTypeNonConfirmable, TokenLength = 8,
           Code = CoapCodeContent, MessageID = 0x1234,
           Token = [0xAA, 0xBB, 0xCC, 0xDD, 0xEE, 0xFF, 0x00, 0x11],
           Options = [\<lparr>No = coapOptionNoContentFormat, optValue = [0x2D, 0x16]\<rparr>,
                      \<lparr>No = coapOptionNoObserve, optValue = [0x00]\<rparr>],
           Payload = [0xC1, 0x09, 0x2B]\<rparr>]"
  using Observe_first_notification [of "deviceAgent ''45''" "\<lparr>NextMessageID = 0x1234, sent = []\<rparr>"
      observeRequest batteryLevel
      "\<lparr>rdID = 9, rdName = ''Battery Level'', rdMulti = False, rdMandatory = False,
        Readable = True, Writable = False, Excutable = False,
        rdType = lwm2mResourceTypeInteger\<rparr>" "deviceHandler ''43''" nullLib]
    observeRequest_path observeRequest_IsObserve deviceAgent_battery [of "''45''"]
  by (simp add: deviceAgent_def deviceHandler_def batteryLevel_def observeRequest_def
      getMessage_def)

text \<open>Claim C6 as stated fails at \<open>deviceAgent\<close>: the Observe option of the notification
  holds the byte \<open>0x00\<close>, not \<open>0x01\<close>.\<close>

theorem Observe_first_notification_counterexample:
  "observeScenario nullLib (deviceAgent ''45'') observeRequest (deviceHandler ''43'') =
     Inr [\<lparr>Version = 1, msgType = CoapTypeNonConfirmable, TokenLength = 8,
           Code = CoapCodeContent, MessageID = 0x1234,
           Token = [0xAA, 0xBB, 0xCC, 0xDD, 0xEE, 0xFF, 0x00, 0x11],
           Options = [\<lparr>No = coapOptionNoContentFormat, optValue = [0x2D, 0x16]\<rparr>,
                      \<lparr>No = coapOptionNoObserve, optValue = [0x00]\<rparr>],
           Payload = [0xC1, 0x09, 0x2B]\<rparr>] \<and>
   [0x00] \<noteq> [0x01 :: byte]"
  using Observe_after_register [of "deviceAgent ''45''" "\<lparr>NextMessageID = 0x1234, sent = []\<rparr>"
      observeRequest batteryLevel
      "\<lparr>rdID = 9, rdName = ''Battery Level'', rdMulti = False, rdMandatory = False,
        Readable = True, Writable = False, Excutable = False,
        rdType = lwm2mResourceTypeInteger\<rparr>" "deviceHandler ''43''" nullLib]
    observeRequest_path observeRequest_IsObserve deviceAgent_battery [of "''45''"]
  by (simp add: deviceAgent_def deviceHandler_def batteryLevel_def observeRequest_def
      getMessage_def)












section \<open>Properties of the DTLS connection state\<close>

lemma ParsePacket_ChangeCipherSpec_only:
  assumes "ParsePacket C dtls raw = Inr (dtls', Some packet)"
    and "pktType packet = dtlsContentTypeChangeCipherSpec"
  shows "dtls' = dtls\<lparr>ServerEncrypt := True\<rparr>"
proof -
  from assms(1) have n: "\<not> length (fst raw) < 13"
    by (auto simp: ParsePacket_def)
  from assms(1) n
  have n2: "\<not> length (fst raw) < 13 + unat (Uint16 (fst raw ! 11) (fst raw ! 12))"
    by (auto simp: ParsePacket_def Let_def split: if_splits)
  from assms n n2 show ?thesis
    unfolding ParsePacket_def Let_def
    by (auto split: sum.splits option.splits if_splits)
qed

text \<open>Claim C5 (as amended): when the client sends ChangeCipherSpec, its epoch is
  incremented, its sequence number is reset to 0 and its encryption flag is set, and the
  server's epoch and sequence number stay as they are. When a ChangeCipherSpec record is
  received, the connection changes in one field only: the server's encryption flag is set;
  the server's epoch and sequence number are not written.\<close>

theorem ChangeCipherSpec_state:
  "ClientEpoch (fst (SendChangeCipherSpec dtls)) = ClientEpoch dtls + 1 \<and>
   ClientSequence (fst (SendChangeCipherSpec dtls)) = 0 \<and>
   ClientEncrypt (fst (SendChangeCipherSpec dtls)) \<and>
   ServerEpoch (fst (SendChangeCipherSpec dtls)) = ServerEpoch dtls \<and>
   ServerSequence (fst (SendChangeCipherSpec dtls)) = ServerSequence dtls \<and>
   (ParsePacket C dtls raw = Inr (dtls', Some packet) \<and>
    pktType packet = dtlsContentTypeChangeCipherSpec
      \<longrightarrow> dtls' = dtls\<lparr>ServerEncrypt := True\<rparr>)"
  using ParsePacket_ChangeCipherSpec_only [of C dtls raw dtls' packet]
  by (simp add: SendChangeCipherSpec_def)

lemma changeCipherSpecRecord_bytes:
  "changeCipherSpecRecord 0 = [20, 0xFE, 0xFD, 0, 0, 0, 0, 0, 0, 0, 0, 0, 1, 1]"
  by (simp add: changeCipherSpecRecord_def packetToBytes_def PutUint16_def PutUint64_def)

lemma readBuffer_changeCipherSpec:
  "readBuffer (changeCipherSpecRecord 0)
     = ([20, 0xFE, 0xFD, 0, 0, 0, 0, 0, 0, 0, 0, 0, 1, 1], replicate 1010 0)"
  by (simp add: changeCipherSpecRecord_bytes readBuffer_def)

lemma reslice_changeCipherSpec:
  "reslice ([20, 0xFE, 0xFD, 0, 0, 0, 0, 0, 0, 0, 0, 0, 1, 1], replicate 1010 0) 13 14
     = Inr ([1], replicate 1010 0)"
  by (simp add: reslice_def)

lemma ParsePacket_changeCipherSpec:
  "\<not> ServerEncrypt dtls \<Longrightarrow>
   ParsePacket C dtls (readBuffer (changeCipherSpecRecord 0))
     = Inr (dtls\<lparr>ServerEncrypt := True\<rparr>,
            Some \<lparr>pktType = 20, pktEpoch = 0, pktSequence = 0, ContentLength = 1,
                  Content = ([1], replicate 1010 0)\<rparr>)"
  unfolding readBuffer_changeCipherSpec
  by (simp add: ParsePacket_def reslice_changeCipherSpec Uint16_def Uint64_def)

lemma dialState_fields:
  "\<not> ServerEncrypt (dialState identity psk clientRandom)"
  "ServerEpoch (dialState identity psk clientRandom) = 0"
  "ServerSequence (dialState identity psk clientRandom) = 0"
  "ClientEpoch (dialState identity psk clientRandom) = 0"
  "ClientSequence (dialState identity psk clientRandom) = 0"
  by (simp_all add: dialState_def)

text \<open>The theorem at the connection that the dial starts with and a ChangeCipherSpec record
  of 14 bytes.\<close>

theorem ChangeCipherSpec_state_witness:
  "ParsePacket nullCrypto (dialState [] [] []) (readBuffer (changeCipherSpecRecord 0))
     = Inr ((dialState [] [] [])\<lparr>ServerEncrypt := True\<rparr>,
            Some \<lparr>pktType = 20, pktEpoch = 0, pktSequence = 0, ContentLength = 1,
                  Content = ([1], replicate 1010 0)\<rparr>) \<and>
   ClientEpoch (fst (SendChangeCipherSpec (dialState [] [] []))) = 1 \<and>
   ClientSequence (fst (SendChangeCipherSpec (dialState [] [] []))) = 0 \<and>
   ServerEpoch (fst (SendChangeCipherSpec (dialState [] [] []))) = 0"
  using ChangeCipherSpec_state [of "dialState [] [] []" nullCrypto
      "readBuffer (changeCipherSpecRecord 0)" "(dialState [] [] [])\<lparr>ServerEncrypt := True\<rparr>"
      "\<lparr>pktType = 20, pktEpoch = 0, pktSequence = 0, ContentLength = 1,
        Content = ([1], replicate 1010 0)\<rparr>"]
    ParsePacket_changeCipherSpec [OF dialState_fields(1), of nullCrypto "[]" "[]" "[]"]
  by (simp add: dialState_fields)

text \<open>Claim C5 as stated fails at the same input: after the ChangeCipherSpec record has been
  received and accepted, the server epoch still is what it was, 0.\<close>

theorem ChangeCipherSpec_received_counterexample:
  "ParsePacket nullCrypto (dialState [] [] []) (readBuffer (changeCipherSpecRecord 0))
     = Inr ((dialState [] [] [])\<lparr>ServerEncrypt := True\<rparr>,
            Some \<lparr>pktType = 20, pktEpoch = 0, pktSequence = 0, ContentLength = 1,
                  Content = ([1], replicate 1010 0)\<rparr>) \<and>
   ServerEpoch ((dialState [] [] [])\<lparr>ServerEncrypt := True\<rparr>) = 0 \<and>
   ServerEpoch ((dialState [] [] [])\<lparr>ServerEncrypt := True\<rparr>)
     \<noteq> ServerEpoch (dialState [] [] []) + 1"
  using ParsePacket_changeCipherSpec [OF dialState_fields(1), of nullCrypto "[]" "[]" "[]"]
  by (simp add: dialState_fields)

section \<open>Properties of the DTLS handshake\<close>

subsection \<open>Records and handshake messages\<close>

lemma Uint16_PutUint16: "Uint16 (ucast (drop_bit 8 v)) (ucast v) = v"
  unfolding Uint16_def
  apply (rule bit_word_eqI)
  apply (auto simp add: bit_simps)
  done

lemma unat_length_u16: "n < 65536 \<Longrightarrow> unat (of_nat n :: uint16) = n"
  by (simp add: unat_of_nat)

lemma prfLoop_length:
  assumes "prfLoop C secret a0 ai ret len = Some r"
  shows "length r = len"
  by (rule prfLoop.raw_induct [where P = "\<lambda>_ _ _ _ _ len r. length r = len", OF _ assms])
    (auto split: if_splits)

lemma dtlsPrf_length: "dtlsPrf C secret label seed len = Inr r \<Longrightarrow> length r = len"
  by (auto simp: dtlsPrf_def split: option.splits dest: prfLoop_length)

lemma readBuffer_short:
  "length d \<le> 1024 \<Longrightarrow> readBuffer d = (d, replicate (1024 - length d) 0)"
  by (simp add: readBuffer_def)

lemma ParsePacket_record:
  assumes "length content < 65536"
  shows "ParsePacket C dtls (packetToBytes ty e q content @ rest, behind) =
    (case (if ServerEncrypt dtls then decrypt C dtls (content, rest @ behind) ty
           else Inr (Some (content, rest @ behind))) of
       Inl p \<Rightarrow> Inl p
     | Inr None \<Rightarrow> Inr (dtls, None)
     | Inr (Some c) \<Rightarrow>
         (if ty = dtlsContentTypeHandshake then
            (case Parse C (Handshake dtls) c of
               Inl p \<Rightarrow> Inl p
             | Inr params \<Rightarrow>
                 Inr (dtls\<lparr>Handshake := params\<rparr>,
                      Some \<lparr>pktType = ty, pktEpoch = e,
                            pktSequence = Uint64 ([0, 0] @ drop 2 (PutUint64 q)),
                            ContentLength = of_nat (length content), Content = c\<rparr>))
          else if ty = dtlsContentTypeChangeCipherSpec then
            Inr (dtls\<lparr>ServerEncrypt := True\<rparr>,
                 Some \<lparr>pktType = ty, pktEpoch = e,
                       pktSequence = Uint64 ([0, 0] @ drop 2 (PutUint64 q)),
                       ContentLength = of_nat (length content), Content = c\<rparr>)
          else
            Inr (dtls,
                 Some \<lparr>pktType = ty, pktEpoch = e,
                       pktSequence = Uint64 ([0, 0] @ drop 2 (PutUint64 q)),
                       ContentLength = of_nat (length content), Content = c\<rparr>)))"
proof -
  have len: "unat (of_nat (length content) :: uint16) = length content"
    using assms by (rule unat_length_u16)
  have rs: "reslice (packetToBytes ty e q content @ rest, behind) 13 (13 + length content)
              = Inr (content, rest @ behind)"
    by (simp add: reslice_def packetToBytes_def PutUint16_def PutUint64_def drop_Cons' take_Cons')
  show ?thesis
    unfolding ParsePacket_def
    by (simp add: packetToBytes_def PutUint16_def PutUint64_def Uint16_PutUint16 len
        rs [unfolded packetToBytes_def PutUint16_def PutUint64_def, simplified] Let_def
        split: sum.splits option.splits)
qed


lemma packetLength_record:
  assumes "ParsePacket C dtls (packetToBytes ty e q content @ rest, behind) = Inr (dtls1, Some first)"
    and "length content + 13 < 65536"
  shows "packetLength first = 13 + length content"
proof -
  have c: "length content < 65536" using assms(2) by simp
  have "ContentLength first = of_nat (length content)"
    using assms(1) unfolding ParsePacket_record [OF c]
    by (auto split: sum.splits option.splits if_splits)
  then have "packetLength first = unat (of_nat (length content + 13) :: uint16)"
    by (simp add: packetLength_def)
  also have "\<dots> = 13 + length content"
    using assms(2) unfolding unat_of_nat by simp
  finally show ?thesis .
qed

lemma length_packetToBytes: "length (packetToBytes ty e q content) = 13 + length content"
  by (simp add: packetToBytes_def PutUint16_def PutUint64_def)

lemma parseTwo_records:
  assumes "parseTwo C dtls (packetToBytes t1 e1 q1 c1 @ packetToBytes t2 e2 q2 c2) = Inr (dtls2, None)"
    and "length (packetToBytes t1 e1 q1 c1 @ packetToBytes t2 e2 q2 c2) \<le> 1024"
  shows "\<exists>dtls1 first second.
           ParsePacket C dtls
             (packetToBytes t1 e1 q1 c1 @ packetToBytes t2 e2 q2 c2,
              replicate (1024 - length (packetToBytes t1 e1 q1 c1 @ packetToBytes t2 e2 q2 c2)) 0)
             = Inr (dtls1, Some first) \<and>
           ParsePacket C dtls1
             (packetToBytes t2 e2 q2 c2,
              replicate (1024 - length (packetToBytes t1 e1 q1 c1 @ packetToBytes t2 e2 q2 c2)) 0)
             = Inr (dtls2, Some second)"
proof -
  let ?d = "packetToBytes t1 e1 q1 c1 @ packetToBytes t2 e2 q2 c2"
  let ?z = "replicate (1024 - length ?d) (0::byte)"
  have rb: "readBuffer ?d = (?d, ?z)" using assms(2) by (rule readBuffer_short)
  from assms(1) obtain dtls1 first where
    p1: "ParsePacket C dtls (?d, ?z) = Inr (dtls1, Some first)"
    unfolding parseTwo_def rb by (auto split: sum.splits option.splits prod.splits)
  have len: "length c1 + 13 < 65536" using assms(2) by (simp add: length_packetToBytes)
  have pl: "packetLength first = 13 + length c1"
    using p1 len by (rule packetLength_record)
  have rs: "reslice (?d, ?z) (13 + length c1) (length ?d)
              = Inr (packetToBytes t2 e2 q2 c2, ?z)"
    using assms(2) by (simp add: reslice_def length_packetToBytes)
  from assms(1) obtain second where
    "ParsePacket C dtls1 (packetToBytes t2 e2 q2 c2, ?z) = Inr (dtls2, Some second)"
    unfolding parseTwo_def rb p1 sum.case prod.case option.case fst_conv pl rs
    by (auto split: sum.splits option.splits prod.splits)
  with p1 show ?thesis by blast
qed

lemma Parse_HelloVerifyRequest:
  assumes "Parse C params (hvr, behind) = Inr p"
    and "hvr ! 0 = dtlsHandshakeTypeHelloVerifyRequest" and "47 \<le> length hvr"
  shows "\<exists>sq. p = params\<lparr>hsServerSequence := sq, Cookie := take 32 (drop 15 hvr)\<rparr>"
  using assms unfolding Parse_def
  by (auto simp: reslice_def Let_def split: if_splits)

lemma Parse_ServerHello:
  assumes "Parse C params (sh, behind) = Inr p"
    and "sh ! 0 = dtlsHandshakeTypeServerHello"
    and "length sh = 12 + unat (Uint32 0 (sh ! 1) (sh ! 2) (sh ! 3))"
  shows "\<exists>sq sr sess. p = params\<lparr>hsServerSequence := sq, ServerRandom := sr, Session := sess,
           Messages := Messages params @ sh\<rparr>"
proof -
  have l3: "reslice (sh, behind) 1 4 = Inr (take 3 (drop 1 sh), drop 4 sh @ behind)"
    using assms(3) by (simp add: reslice_def)
  have n: "take 3 (drop 1 sh) ! 0 = sh ! 1" "take 3 (drop 1 sh) ! 1 = sh ! 2"
    "take 3 (drop 1 sh) ! 2 = sh ! 3"
    using assms(3) by (simp_all add: numeral_2_eq_2 numeral_3_eq_3)
  have m: "reslice (sh, behind) 0 (12 + unat (Uint32 0 (sh ! 1) (sh ! 2) (sh ! 3)))
             = Inr (sh, behind)"
    using assms(3) by (simp add: reslice_def)
  show ?thesis
    using assms(1,2) unfolding Parse_def l3 Let_def sum.case fst_conv snd_conv n m
    by (auto split: if_splits sum.splits)
qed

lemma Parse_ServerHelloDone:
  assumes "Parse C params (shd, behind) = Inr p"
    and "shd ! 0 = dtlsHandshakeTypeServerHelloDone"
    and "length shd = 12 + unat (Uint32 0 (shd ! 1) (shd ! 2) (shd ! 3))"
  shows "\<exists>sq. p = params\<lparr>hsServerSequence := sq, Messages := Messages params @ shd\<rparr>"
proof -
  have l3: "reslice (shd, behind) 1 4 = Inr (take 3 (drop 1 shd), drop 4 shd @ behind)"
    using assms(3) by (simp add: reslice_def)
  have n: "take 3 (drop 1 shd) ! 0 = shd ! 1" "take 3 (drop 1 shd) ! 1 = shd ! 2"
    "take 3 (drop 1 shd) ! 2 = shd ! 3"
    using assms(3) by (simp_all add: numeral_2_eq_2 numeral_3_eq_3)
  have m: "reslice (shd, behind) 0 (12 + unat (Uint32 0 (shd ! 1) (shd ! 2) (shd ! 3)))
             = Inr (shd, behind)"
    using assms(3) by (simp add: reslice_def)
  show ?thesis
    using assms(1,2) unfolding Parse_def l3 Let_def sum.case fst_conv snd_conv n m
    by (auto split: if_splits sum.splits)
qed

lemma Parse_Finished:
  assumes "Parse C params fin = Inr p"
    and "fst fin \<noteq> []" and "fst fin ! 0 = dtlsHandshakeTypeFinished"
  shows "\<exists>sq svd. GenerateServerVerifyData C params = Inr svd \<and>
           p = params\<lparr>hsServerSequence := sq,
                 Verified := (svd = take 12 (drop 12 (fst fin @ snd fin)))\<rparr>"
  using assms unfolding Parse_def
  by (auto simp: Let_def reslice_def GenerateServerVerifyData_def split: if_splits sum.splits)

lemma decrypt_Handshake_update [simp]:
  "decrypt C (dtls\<lparr>Handshake := p\<rparr>) data ty = decrypt C dtls data ty"
  by (simp add: decrypt_def Let_def split: sum.splits)

subsection \<open>The steps of the handshake\<close>

lemma ParsePacket_plain_handshake:
  assumes "ParsePacket C dtls (packetToBytes dtlsContentTypeHandshake e q content @ rest, behind)
             = Inr (dtls1, Some pkt)"
    and "\<not> ServerEncrypt dtls" and "length content < 65536"
  shows "\<exists>p. Parse C (Handshake dtls) (content, rest @ behind) = Inr p \<and>
           dtls1 = dtls\<lparr>Handshake := p\<rparr>"
  using assms(1,2) unfolding ParsePacket_record [OF assms(3)]
  by (auto split: sum.splits)

lemma ParsePacket_plain_changeCipherSpec:
  assumes "ParsePacket C dtls
             (packetToBytes dtlsContentTypeChangeCipherSpec e q content @ rest, behind)
             = Inr (dtls1, Some pkt)"
    and "\<not> ServerEncrypt dtls" and "length content < 65536"
  shows "dtls1 = dtls\<lparr>ServerEncrypt := True\<rparr>"
  using assms(1,2) unfolding ParsePacket_record [OF assms(3)]
  by (auto split: sum.splits)

lemma ParsePacket_encrypted_handshake:
  assumes "ParsePacket C dtls (packetToBytes dtlsContentTypeHandshake e q content @ rest, behind)
             = Inr (dtls1, Some pkt)"
    and "ServerEncrypt dtls" and "length content < 65536"
  shows "\<exists>c p. decrypt C dtls (content, rest @ behind) dtlsContentTypeHandshake = Inr (Some c) \<and>
           Parse C (Handshake dtls) c = Inr p \<and> dtls1 = dtls\<lparr>Handshake := p\<rparr>"
  using assms(1,2) unfolding ParsePacket_record [OF assms(3)]
  by (auto split: sum.splits option.splits)

lemma GetCookie_HelloVerifyRequest:
  assumes "GetCookie C dtls (Some (packetToBytes dtlsContentTypeHandshake e q hvr))
             = Inr (dtls1, None)"
    and "length (packetToBytes dtlsContentTypeHandshake e q hvr) \<le> 1024"
    and "hvr ! 0 = dtlsHandshakeTypeHelloVerifyRequest" and "47 \<le> length hvr"
    and "\<not> ServerEncrypt dtls"
  shows "\<not> ServerEncrypt dtls1 \<and>
         (\<exists>sq. Handshake dtls1 = (Handshake dtls)\<lparr>
            hsClientSequence := hsClientSequence (Handshake dtls) + 1,
            hsServerSequence := sq, Cookie := take 32 (drop 15 hvr)\<rparr>)"
proof -
  let ?d = "packetToBytes dtlsContentTypeHandshake e q hvr"
  let ?z = "replicate (1024 - length ?d) (0::byte)"
  have rb: "readBuffer ?d = (?d @ [], ?z)" using assms(2) by (simp add: readBuffer_short)
  have len: "length hvr < 65536" using assms(2) by (simp add: length_packetToBytes)
  from assms(1) obtain content pkt where
    "ParsePacket C (sendHandshake dtls content) (readBuffer ?d) = Inr (dtls1, Some pkt)"
    unfolding GetCookie_def
    by (auto split: sum.splits option.splits prod.splits)
  then have pp: "ParsePacket C (sendHandshake dtls content) (?d @ [], ?z) = Inr (dtls1, Some pkt)"
    unfolding rb .
  have ne: "\<not> ServerEncrypt (sendHandshake dtls content)"
    using assms(5) by (simp add: sendHandshake_def)
  from ParsePacket_plain_handshake [OF pp ne len] obtain p where
    p: "Parse C (Handshake (sendHandshake dtls content)) (hvr, [] @ ?z) = Inr p"
    and d: "dtls1 = (sendHandshake dtls content)\<lparr>Handshake := p\<rparr>"
    by blast
  from Parse_HelloVerifyRequest [OF p assms(3,4)] obtain sq where
    "p = (Handshake (sendHandshake dtls content))\<lparr>hsServerSequence := sq,
           Cookie := take 32 (drop 15 hvr)\<rparr>"
    by blast
  with d ne show ?thesis by (auto simp: sendHandshake_def)
qed

lemma GetSession_ServerHello_Done:
  assumes "GetSession C dtls
             (Some (packetToBytes dtlsContentTypeHandshake e2 q2 sh
                    @ packetToBytes dtlsContentTypeHandshake e3 q3 shd)) = Inr (dtls2, None)"
    and "length (packetToBytes dtlsContentTypeHandshake e2 q2 sh
                 @ packetToBytes dtlsContentTypeHandshake e3 q3 shd) \<le> 1024"
    and "sh ! 0 = dtlsHandshakeTypeServerHello"
    and "length sh = 12 + unat (Uint32 0 (sh ! 1) (sh ! 2) (sh ! 3))"
    and "shd ! 0 = dtlsHandshakeTypeServerHelloDone"
    and "length shd = 12 + unat (Uint32 0 (shd ! 1) (shd ! 2) (shd ! 3))"
    and "\<not> ServerEncrypt dtls"
  shows "\<not> ServerEncrypt dtls2 \<and>
         hsClientSequence (Handshake dtls2) = hsClientSequence (Handshake dtls) + 1 \<and>
         Identity (Handshake dtls2) = Identity (Handshake dtls) \<and>
         Messages (Handshake dtls2) =
           Messages (Handshake dtls)
           @ handshakeHeader dtlsHandshakeTypeClientHello (hsClientSequence (Handshake dtls))
               (length (clientHelloBody (Handshake dtls)))
           @ clientHelloBody (Handshake dtls) @ sh @ shd"
proof -
  let ?r1 = "packetToBytes dtlsContentTypeHandshake e2 q2 sh"
  let ?r2 = "packetToBytes dtlsContentTypeHandshake e3 q3 shd"
  let ?z = "replicate (1024 - length (?r1 @ ?r2)) (0::byte)"
  let ?content = "handshakeHeader dtlsHandshakeTypeClientHello (hsClientSequence (Handshake dtls))
                    (length (clientHelloBody (Handshake dtls))) @ clientHelloBody (Handshake dtls)"
  let ?s = "sendHandshake
              (dtls\<lparr>Handshake := (Handshake dtls)\<lparr>
                 Messages := Messages (Handshake dtls) @ ?content\<rparr>\<rparr>) ?content"
  have l1: "length sh < 65536" and l2: "length shd < 65536"
    using assms(2) by (simp_all add: length_packetToBytes)
  from assms(1) have "parseTwo C ?s (?r1 @ ?r2) = Inr (dtls2, None)"
    unfolding GetSession_def ToBytes_def by (simp add: Let_def)
  from parseTwo_records [OF this assms(2)] obtain dtlsA first second where
    p1: "ParsePacket C ?s (?r1 @ ?r2, ?z) = Inr (dtlsA, Some first)"
    and p2: "ParsePacket C dtlsA (?r2, ?z) = Inr (dtls2, Some second)"
    by blast
  have ne: "\<not> ServerEncrypt ?s" using assms(7) by (simp add: sendHandshake_def)
  from ParsePacket_plain_handshake [OF p1 ne l1] obtain pa where
    pa: "Parse C (Handshake ?s) (sh, ?r2 @ ?z) = Inr pa" and da: "dtlsA = ?s\<lparr>Handshake := pa\<rparr>"
    by blast
  from Parse_ServerHello [OF pa assms(3,4)] obtain sq sr sess where
    pa': "pa = (Handshake ?s)\<lparr>hsServerSequence := sq, ServerRandom := sr, Session := sess,
             Messages := Messages (Handshake ?s) @ sh\<rparr>"
    by blast
  have neA: "\<not> ServerEncrypt dtlsA" using ne da by simp
  from p2 have p2': "ParsePacket C dtlsA (?r2 @ [], ?z) = Inr (dtls2, Some second)" by simp
  from ParsePacket_plain_handshake [OF p2' neA l2] obtain pb where
    pb: "Parse C (Handshake dtlsA) (shd, [] @ ?z) = Inr pb" and db: "dtls2 = dtlsA\<lparr>Handshake := pb\<rparr>"
    by blast
  from Parse_ServerHelloDone [OF pb assms(5,6)] obtain sq2 where
    pb': "pb = (Handshake dtlsA)\<lparr>hsServerSequence := sq2,
             Messages := Messages (Handshake dtlsA) @ shd\<rparr>"
    by blast
  have "\<not> ServerEncrypt dtls2" using neA db by simp
  moreover have "Handshake dtls2 = (Handshake dtls)\<lparr>
            hsClientSequence := hsClientSequence (Handshake dtls) + 1,
            hsServerSequence := sq2, ServerRandom := sr, Session := sess,
            Messages := Messages (Handshake dtls) @ ?content @ sh @ shd\<rparr>"
    unfolding db pb' da pa' by (simp add: sendHandshake_def)
  ultimately show ?thesis by simp
qed

lemma SendClientKeyExchange_state:
  assumes "SendClientKeyExchange C dtls = Inr (dtls3, None)"
  shows "ServerEncrypt dtls3 = ServerEncrypt dtls \<and>
         Handshake dtls3 = (Handshake dtls)\<lparr>
            hsClientSequence := hsClientSequence (Handshake dtls) + 1,
            Messages := Messages (Handshake dtls)
              @ handshakeHeader dtlsHandshakeTypeClientKeyExchange
                  (hsClientSequence (Handshake dtls))
                  (length (clientKeyExchangeBody (Handshake dtls)))
              @ clientKeyExchangeBody (Handshake dtls)\<rparr>"
  using assms unfolding SendClientKeyExchange_def ToBytes_def
  by (auto simp: sendHandshake_def)

lemma GenerateSecurityParams_state:
  assumes "GenerateSecurityParams C (fst (SendChangeCipherSpec dtls)) = Inr dtls4"
  shows "ServerEncrypt dtls4 = ServerEncrypt dtls \<and>
         hsClientSequence (Handshake dtls4) = hsClientSequence (Handshake dtls) \<and>
         Messages (Handshake dtls4) = Messages (Handshake dtls)"
  using assms unfolding GenerateSecurityParams_def SendChangeCipherSpec_def
  by (auto simp: Let_def split: sum.splits)

lemma SendFinished_state:
  assumes "SendFinished C dtls
             (Some (packetToBytes dtlsContentTypeChangeCipherSpec e4 q4 ccs
                    @ packetToBytes dtlsContentTypeHandshake e5 q5 body)) = Inr (dtls', None)"
    and "length (packetToBytes dtlsContentTypeChangeCipherSpec e4 q4 ccs
                 @ packetToBytes dtlsContentTypeHandshake e5 q5 body) \<le> 1024"
    and "decrypt C dtls'
           (body, replicate (1024 - length (packetToBytes dtlsContentTypeChangeCipherSpec e4 q4 ccs
                 @ packetToBytes dtlsContentTypeHandshake e5 q5 body)) 0)
           dtlsContentTypeHandshake = Inr (Some fin)"
    and "fst fin \<noteq> []" and "fst fin ! 0 = dtlsHandshakeTypeFinished"
    and "\<not> ServerEncrypt dtls"
  shows "\<exists>vd svd.
           dtlsPrf C (MasterSecret (Handshake dtls)) ''client finished''
             (sha256 C (Messages (Handshake dtls))) 12 = Inr vd \<and>
           length vd = 12 \<and>
           MasterSecret (Handshake dtls') = MasterSecret (Handshake dtls) \<and>
           Messages (Handshake dtls') =
             Messages (Handshake dtls)
             @ handshakeHeader dtlsHandshakeTypeFinished (hsClientSequence (Handshake dtls)) 12
             @ vd \<and>
           dtlsPrf C (MasterSecret (Handshake dtls)) ''server finished''
             (sha256 C (Messages (Handshake dtls)
                @ handshakeHeader dtlsHandshakeTypeFinished (hsClientSequence (Handshake dtls)) 12
                @ vd)) 12 = Inr svd \<and>
           Verified (Handshake dtls') = (svd = take 12 (drop 12 (fst fin @ snd fin)))"
proof -
  let ?r1 = "packetToBytes dtlsContentTypeChangeCipherSpec e4 q4 ccs"
  let ?r2 = "packetToBytes dtlsContentTypeHandshake e5 q5 body"
  let ?z = "replicate (1024 - length (?r1 @ ?r2)) (0::byte)"
  let ?h = "Handshake dtls"
  have l1: "length ccs < 65536" and l2: "length body < 65536"
    using assms(2) by (simp_all add: length_packetToBytes)
  from assms(1) obtain vd where vd: "GenerateClientVerifyData C ?h = Inr vd"
    unfolding SendFinished_def ToBytes_def by (auto split: sum.splits)
  then have cvd: "dtlsPrf C (MasterSecret ?h) ''client finished'' (sha256 C (Messages ?h)) 12
                    = Inr vd"
    by (simp add: GenerateClientVerifyData_def)
  have lvd: "length vd = 12" using cvd by (rule dtlsPrf_length)
  let ?fin = "handshakeHeader dtlsHandshakeTypeFinished (hsClientSequence ?h) 12 @ vd"
  let ?d1 = "dtls\<lparr>Handshake := ?h\<lparr>Messages := Messages ?h @ ?fin\<rparr>\<rparr>"
  from assms(1) obtain content where
    "parseTwo C (sendHandshake ?d1 content) (?r1 @ ?r2) = Inr (dtls', None)"
    unfolding SendFinished_def ToBytes_def vd
    by (auto simp: Let_def lvd split: sum.splits)
  from parseTwo_records [OF this assms(2)] obtain dtlsA first second where
    p1: "ParsePacket C (sendHandshake ?d1 content) (?r1 @ ?r2, ?z) = Inr (dtlsA, Some first)"
    and p2: "ParsePacket C dtlsA (?r2, ?z) = Inr (dtls', Some second)"
    by blast
  have ne: "\<not> ServerEncrypt (sendHandshake ?d1 content)"
    using assms(6) by (simp add: sendHandshake_def)
  have da: "dtlsA = (sendHandshake ?d1 content)\<lparr>ServerEncrypt := True\<rparr>"
    using p1 ne l1 by (rule ParsePacket_plain_changeCipherSpec)
  have en: "ServerEncrypt dtlsA" unfolding da by simp
  from p2 have p2': "ParsePacket C dtlsA (?r2 @ [], ?z) = Inr (dtls', Some second)" by simp
  from ParsePacket_encrypted_handshake [OF p2' en l2] obtain c p where
    dc: "decrypt C dtlsA (body, [] @ ?z) dtlsContentTypeHandshake = Inr (Some c)"
    and pc: "Parse C (Handshake dtlsA) c = Inr p" and d': "dtls' = dtlsA\<lparr>Handshake := p\<rparr>"
    by blast
  have "c = fin" using assms(3) dc unfolding d' by simp
  with pc have pf: "Parse C (Handshake dtlsA) fin = Inr p" by simp
  from Parse_Finished [OF pf assms(4,5)] obtain sq svd where
    svd: "GenerateServerVerifyData C (Handshake dtlsA) = Inr svd"
    and p: "p = (Handshake dtlsA)\<lparr>hsServerSequence := sq,
                 Verified := (svd = take 12 (drop 12 (fst fin @ snd fin)))\<rparr>"
    by blast
  have hA: "Messages (Handshake dtlsA) = Messages ?h @ ?fin"
    "MasterSecret (Handshake dtlsA) = MasterSecret ?h"
    unfolding da by (simp_all add: sendHandshake_def)
  have s: "dtlsPrf C (MasterSecret ?h) ''server finished''
             (sha256 C (Messages ?h @ ?fin)) 12 = Inr svd"
    using svd unfolding GenerateServerVerifyData_def hA .
  have "MasterSecret (Handshake dtls') = MasterSecret ?h"
    "Messages (Handshake dtls') = Messages ?h @ ?fin"
    "Verified (Handshake dtls') = (svd = take 12 (drop 12 (fst fin @ snd fin)))"
    unfolding d' p by (simp_all add: hA)
  with cvd lvd s show ?thesis by auto
qed

text \<open>Claim C2: after the handshake is established, the 12-byte client verify data are
  \<open>PRF(master, "client finished", SHA256(M), 12)\<close>, where \<open>M\<close> is the second ClientHello (the
  one with the cookie, handshake sequence number 1), the ServerHello, the ServerHelloDone and
  the ClientKeyExchange, in this order; the first ClientHello and the HelloVerifyRequest are
  not in \<open>M\<close>. The client's Finished message is appended to \<open>M\<close> before the server's verify
  data are computed: the flag \<^verbatim>\<open>Verified\<close> tells whether the 12 bytes of the server's Finished
  message are \<open>PRF(master, "server finished", SHA256(M @ finished), 12)\<close>. The server's
  datagrams are a record with a HelloVerifyRequest, a datagram of two records with a
  ServerHello and a ServerHelloDone whose length fields are those of the messages, and a
  ChangeCipherSpec record followed by a record that decrypts to a Finished message.\<close>

theorem handshake_verify_data:
  assumes "processHandshake C (dialState identity psk clientRandom) [d1, d2, d3]
             = Inr (Inr dtls')"
    and "d1 = packetToBytes dtlsContentTypeHandshake e1 q1 hvr"
    and "length d1 \<le> dtlsPacketSize"
    and "hvr ! 0 = dtlsHandshakeTypeHelloVerifyRequest" and "47 \<le> length hvr"
    and "d2 = packetToBytes dtlsContentTypeHandshake e2 q2 sh
              @ packetToBytes dtlsContentTypeHandshake e3 q3 shd"
    and "length d2 \<le> dtlsPacketSize"
    and "sh ! 0 = dtlsHandshakeTypeServerHello"
    and "length sh = 12 + unat (Uint32 0 (sh ! 1) (sh ! 2) (sh ! 3))"
    and "shd ! 0 = dtlsHandshakeTypeServerHelloDone"
    and "length shd = 12 + unat (Uint32 0 (shd ! 1) (shd ! 2) (shd ! 3))"
    and "d3 = packetToBytes dtlsContentTypeChangeCipherSpec e4 q4 ccs
              @ packetToBytes dtlsContentTypeHandshake e5 q5 body"
    and "length d3 \<le> dtlsPacketSize"
    and "decrypt C dtls' (body, replicate (dtlsPacketSize - length d3) 0)
           dtlsContentTypeHandshake = Inr (Some fin)"
    and "fst fin \<noteq> []" and "fst fin ! 0 = dtlsHandshakeTypeFinished"
  shows "\<exists>vd svd.
           (let hello = (Handshake (dialState identity psk clientRandom))\<lparr>
                  Cookie := take 32 (drop 15 hvr)\<rparr>;
                M = handshakeHeader dtlsHandshakeTypeClientHello 1 (length (clientHelloBody hello))
                    @ clientHelloBody hello @ sh @ shd
                    @ handshakeHeader dtlsHandshakeTypeClientKeyExchange 2
                        (length (clientKeyExchangeBody hello))
                    @ clientKeyExchangeBody hello;
                master = MasterSecret (Handshake dtls');
                finished = handshakeHeader dtlsHandshakeTypeFinished 3 12 @ vd
            in
            dtlsPrf C master ''client finished'' (sha256 C M) 12 = Inr vd \<and>
            length vd = 12 \<and>
            Messages (Handshake dtls') = M @ finished \<and>
            dtlsPrf C master ''server finished'' (sha256 C (M @ finished)) 12 = Inr svd \<and>
            Verified (Handshake dtls') = (svd = take 12 (drop 12 (fst fin @ snd fin))))"
proof -
  let ?d0 = "dialState identity psk clientRandom"
  let ?hello = "(Handshake ?d0)\<lparr>Cookie := take 32 (drop 15 hvr)\<rparr>"
  from assms(1) obtain dtls1 dtls2 dtls3 dtls4 where
    g1: "GetCookie C ?d0 (Some d1) = Inr (dtls1, None)"
    and g2: "GetSession C dtls1 (Some d2) = Inr (dtls2, None)"
    and g3: "SendClientKeyExchange C dtls2 = Inr (dtls3, None)"
    and g4: "GenerateSecurityParams C (fst (SendChangeCipherSpec dtls3)) = Inr dtls4"
    and g5: "SendFinished C dtls4 (Some d3) = Inr (dtls', None)"
    unfolding processHandshake_def nextDatagram_def
    by (auto split: sum.splits prod.splits option.splits)
  have ne0: "\<not> ServerEncrypt ?d0" by (simp add: dialState_def)
  from GetCookie_HelloVerifyRequest
    [OF g1 [unfolded assms(2)] assms(3) [unfolded assms(2)] assms(4,5) ne0]
  obtain sq where ne1: "\<not> ServerEncrypt dtls1"
    and h1: "Handshake dtls1 = (Handshake ?d0)\<lparr>
               hsClientSequence := hsClientSequence (Handshake ?d0) + 1,
               hsServerSequence := sq, Cookie := take 32 (drop 15 hvr)\<rparr>"
    by blast
  have b1: "clientHelloBody (Handshake dtls1) = clientHelloBody ?hello"
    unfolding h1 by (simp add: clientHelloBody_def)
  have f1: "hsClientSequence (Handshake dtls1) = 1" "Messages (Handshake dtls1) = []"
    "Identity (Handshake dtls1) = identity"
    unfolding h1 by (simp_all add: dialState_def)
  from GetSession_ServerHello_Done
    [OF g2 [unfolded assms(6)] assms(7) [unfolded assms(6)] assms(8,9,10,11) ne1]
  have ne2: "\<not> ServerEncrypt dtls2"
    and f2: "hsClientSequence (Handshake dtls2) = 2" "Identity (Handshake dtls2) = identity"
      "Messages (Handshake dtls2) =
         handshakeHeader dtlsHandshakeTypeClientHello 1 (length (clientHelloBody ?hello))
         @ clientHelloBody ?hello @ sh @ shd"
    by (simp_all add: f1 b1)
  have b2: "clientKeyExchangeBody (Handshake dtls2) = clientKeyExchangeBody ?hello"
    by (simp add: clientKeyExchangeBody_def f2 dialState_def)
  let ?M = "handshakeHeader dtlsHandshakeTypeClientHello 1 (length (clientHelloBody ?hello))
            @ clientHelloBody ?hello @ sh @ shd
            @ handshakeHeader dtlsHandshakeTypeClientKeyExchange 2
                (length (clientKeyExchangeBody ?hello))
            @ clientKeyExchangeBody ?hello"
  from SendClientKeyExchange_state [OF g3]
  have ne3: "\<not> ServerEncrypt dtls3"
    and f3: "hsClientSequence (Handshake dtls3) = 3" "Messages (Handshake dtls3) = ?M"
    by (simp_all add: f2 b2 ne2)
  from GenerateSecurityParams_state [OF g4]
  have ne4: "\<not> ServerEncrypt dtls4"
    and f4: "hsClientSequence (Handshake dtls4) = 3" "Messages (Handshake dtls4) = ?M"
    by (simp_all add: f3 ne3)
  from SendFinished_state
    [OF g5 [unfolded assms(12)] assms(13) [unfolded assms(12)] assms(14) [unfolded assms(12)]
      assms(15,16) ne4]
  obtain vd svd where
    "dtlsPrf C (MasterSecret (Handshake dtls4)) ''client finished'' (sha256 C ?M) 12 = Inr vd"
    "length vd = 12"
    "MasterSecret (Handshake dtls') = MasterSecret (Handshake dtls4)"
    "Messages (Handshake dtls') = ?M @ handshakeHeader dtlsHandshakeTypeFinished 3 12 @ vd"
    "dtlsPrf C (MasterSecret (Handshake dtls4)) ''server finished''
       (sha256 C (?M @ handshakeHeader dtlsHandshakeTypeFinished 3 12 @ vd)) 12 = Inr svd"
    "Verified (Handshake dtls') = (svd = take 12 (drop 12 (fst fin @ snd fin)))"
    unfolding f4 by blast
  then show ?thesis
    unfolding Let_def by (intro exI [of _ vd] exI [of _ svd]) simp
qed

subsection \<open>A complete handshake\<close>


lemma ParsePacket_record_last:
  assumes "length content < 65536"
  shows "ParsePacket C dtls (packetToBytes ty e q content, behind) =
    (case (if ServerEncrypt dtls then decrypt C dtls (content, behind) ty
           else Inr (Some (content, behind))) of
       Inl p \<Rightarrow> Inl p
     | Inr None \<Rightarrow> Inr (dtls, None)
     | Inr (Some c) \<Rightarrow>
         (if ty = dtlsContentTypeHandshake then
            (case Parse C (Handshake dtls) c of
               Inl p \<Rightarrow> Inl p
             | Inr params \<Rightarrow>
                 Inr (dtls\<lparr>Handshake := params\<rparr>,
                      Some \<lparr>pktType = ty, pktEpoch = e,
                            pktSequence = Uint64 ([0, 0] @ drop 2 (PutUint64 q)),
                            ContentLength = of_nat (length content), Content = c\<rparr>))
          else if ty = dtlsContentTypeChangeCipherSpec then
            Inr (dtls\<lparr>ServerEncrypt := True\<rparr>,
                 Some \<lparr>pktType = ty, pktEpoch = e,
                       pktSequence = Uint64 ([0, 0] @ drop 2 (PutUint64 q)),
                       ContentLength = of_nat (length content), Content = c\<rparr>)
          else
            Inr (dtls,
                 Some \<lparr>pktType = ty, pktEpoch = e,
                       pktSequence = Uint64 ([0, 0] @ drop 2 (PutUint64 q)),
                       ContentLength = of_nat (length content), Content = c\<rparr>)))"
  using ParsePacket_record [OF assms, of C dtls ty e q "[]" behind] by simp

lemma parseTwo_returns:
  assumes "ParsePacket C dtls
             (packetToBytes t1 e1 q1 c1 @ packetToBytes t2 e2 q2 c2,
              replicate (1024 - length (packetToBytes t1 e1 q1 c1 @ packetToBytes t2 e2 q2 c2)) 0)
             = Inr (dtls1, Some first)"
    and "ParsePacket C dtls1
             (packetToBytes t2 e2 q2 c2,
              replicate (1024 - length (packetToBytes t1 e1 q1 c1 @ packetToBytes t2 e2 q2 c2)) 0)
             = Inr (dtls2, Some second)"
    and "length (packetToBytes t1 e1 q1 c1 @ packetToBytes t2 e2 q2 c2) \<le> 1024"
  shows "parseTwo C dtls (packetToBytes t1 e1 q1 c1 @ packetToBytes t2 e2 q2 c2)
           = Inr (dtls2, None)"
proof -
  let ?d = "packetToBytes t1 e1 q1 c1 @ packetToBytes t2 e2 q2 c2"
  let ?z = "replicate (1024 - length ?d) (0::byte)"
  have rb: "readBuffer ?d = (?d, ?z)" using assms(3) by (rule readBuffer_short)
  have len: "length c1 + 13 < 65536" using assms(3) by (simp add: length_packetToBytes)
  have pl: "packetLength first = 13 + length c1"
    using assms(1) len by (rule packetLength_record)
  have rs: "reslice (?d, ?z) (13 + length c1) (length ?d)
              = Inr (packetToBytes t2 e2 q2 c2, ?z)"
    using assms(3) by (simp add: reslice_def length_packetToBytes)
  show ?thesis
    unfolding parseTwo_def rb assms(1) sum.case prod.case option.case fst_conv pl rs assms(2)
    by simp
qed

lemma Parse_HelloVerifyRequest_returns:
  assumes "hvr ! 0 = dtlsHandshakeTypeHelloVerifyRequest" and "47 \<le> length hvr"
  shows "\<exists>p. Parse C params (hvr, behind) = Inr p"
  using assms by (auto simp: Parse_def reslice_def Let_def)

lemma Parse_ServerHello_returns:
  assumes "sh ! 0 = dtlsHandshakeTypeServerHello"
    and "length sh = 12 + unat (Uint32 0 (sh ! 1) (sh ! 2) (sh ! 3))"
    and "79 \<le> length sh + length behind"
  shows "\<exists>p. Parse C params (sh, behind) = Inr p"
proof -
  have l3: "reslice (sh, behind) 1 4 = Inr (take 3 (drop 1 sh), drop 4 sh @ behind)"
    using assms(2) by (simp add: reslice_def)
  have n: "take 3 (drop 1 sh) ! 0 = sh ! 1" "take 3 (drop 1 sh) ! 1 = sh ! 2"
    "take 3 (drop 1 sh) ! 2 = sh ! 3"
    using assms(2) by (simp_all add: numeral_2_eq_2 numeral_3_eq_3)
  have m: "reslice (sh, behind) 0 (12 + unat (Uint32 0 (sh ! 1) (sh ! 2) (sh ! 3)))
             = Inr (sh, behind)"
    using assms(2) by (simp add: reslice_def)
  have r: "\<exists>a. reslice (sh, behind) 4 6 = Inr a" "\<exists>a. reslice (sh, behind) 14 46 = Inr a"
    "\<exists>a. reslice (sh, behind) 47 79 = Inr a"
    using assms(2,3) by (simp_all add: reslice_def)
  then obtain a b c where "reslice (sh, behind) 4 6 = Inr a" "reslice (sh, behind) 14 46 = Inr b"
    "reslice (sh, behind) 47 79 = Inr c" by blast
  then show ?thesis
    using assms(1,2) unfolding Parse_def l3 Let_def sum.case fst_conv snd_conv n m
    by simp
qed

lemma Parse_ServerHelloDone_returns:
  assumes "shd ! 0 = dtlsHandshakeTypeServerHelloDone"
    and "length shd = 12 + unat (Uint32 0 (shd ! 1) (shd ! 2) (shd ! 3))"
  shows "\<exists>p. Parse C params (shd, behind) = Inr p"
proof -
  have l3: "reslice (shd, behind) 1 4 = Inr (take 3 (drop 1 shd), drop 4 shd @ behind)"
    using assms(2) by (simp add: reslice_def)
  have n: "take 3 (drop 1 shd) ! 0 = shd ! 1" "take 3 (drop 1 shd) ! 1 = shd ! 2"
    "take 3 (drop 1 shd) ! 2 = shd ! 3"
    using assms(2) by (simp_all add: numeral_2_eq_2 numeral_3_eq_3)
  have m: "reslice (shd, behind) 0 (12 + unat (Uint32 0 (shd ! 1) (shd ! 2) (shd ! 3)))
             = Inr (shd, behind)"
    using assms(2) by (simp add: reslice_def)
  have "\<exists>a. reslice (shd, behind) 4 6 = Inr a"
    using assms(2) by (simp add: reslice_def)
  then obtain a where "reslice (shd, behind) 4 6 = Inr a" by blast
  then show ?thesis
    using assms(1,2) unfolding Parse_def l3 Let_def sum.case fst_conv snd_conv n m
    by simp
qed

lemma GetCookie_returns:
  assumes "length (packetToBytes dtlsContentTypeHandshake e q hvr) \<le> 1024"
    and "hvr ! 0 = dtlsHandshakeTypeHelloVerifyRequest" and "47 \<le> length hvr"
    and "\<not> ServerEncrypt dtls"
  shows "\<exists>dtls1. GetCookie C dtls (Some (packetToBytes dtlsContentTypeHandshake e q hvr))
           = Inr (dtls1, None)"
proof -
  let ?d = "packetToBytes dtlsContentTypeHandshake e q hvr"
  let ?z = "replicate (1024 - length ?d) (0::byte)"
  let ?content = "handshakeHeader dtlsHandshakeTypeClientHello (hsClientSequence (Handshake dtls))
                    (length (clientHelloBody (Handshake dtls))) @ clientHelloBody (Handshake dtls)"
  have rb: "readBuffer ?d = (?d, ?z)" using assms(1) by (simp add: readBuffer_short)
  have len: "length hvr < 65536" using assms(1) by (simp add: length_packetToBytes)
  have ne: "\<not> ServerEncrypt (sendHandshake dtls ?content)"
    using assms(4) by (simp add: sendHandshake_def)
  obtain p where "Parse C (Handshake (sendHandshake dtls ?content)) (hvr, ?z) = Inr p"
    using Parse_HelloVerifyRequest_returns [OF assms(2,3)] by blast
  then show ?thesis
    using ne by (simp add: GetCookie_def ToBytes_def rb ParsePacket_record_last [OF len])
qed

lemma GetSession_returns:
  assumes "length (packetToBytes dtlsContentTypeHandshake e2 q2 sh
                 @ packetToBytes dtlsContentTypeHandshake e3 q3 shd) \<le> 1024"
    and "sh ! 0 = dtlsHandshakeTypeServerHello"
    and "length sh = 12 + unat (Uint32 0 (sh ! 1) (sh ! 2) (sh ! 3))"
    and "shd ! 0 = dtlsHandshakeTypeServerHelloDone"
    and "length shd = 12 + unat (Uint32 0 (shd ! 1) (shd ! 2) (shd ! 3))"
    and "\<not> ServerEncrypt dtls"
  shows "\<exists>dtls2. GetSession C dtls
             (Some (packetToBytes dtlsContentTypeHandshake e2 q2 sh
                    @ packetToBytes dtlsContentTypeHandshake e3 q3 shd)) = Inr (dtls2, None)"
proof -
  let ?r1 = "packetToBytes dtlsContentTypeHandshake e2 q2 sh"
  let ?r2 = "packetToBytes dtlsContentTypeHandshake e3 q3 shd"
  let ?z = "replicate (1024 - length (?r1 @ ?r2)) (0::byte)"
  let ?content = "handshakeHeader dtlsHandshakeTypeClientHello (hsClientSequence (Handshake dtls))
                    (length (clientHelloBody (Handshake dtls))) @ clientHelloBody (Handshake dtls)"
  let ?s = "sendHandshake
              (dtls\<lparr>Handshake := (Handshake dtls)\<lparr>
                 Messages := Messages (Handshake dtls) @ ?content\<rparr>\<rparr>) ?content"
  have l1: "length sh < 65536" and l2: "length shd < 65536"
    using assms(1) by (simp_all add: length_packetToBytes)
  have ne: "\<not> ServerEncrypt ?s" using assms(6) by (simp add: sendHandshake_def)
  have cap: "79 \<le> length sh + length (?r2 @ ?z)"
    using assms(1) by (simp add: length_packetToBytes)
  obtain pa where pa: "Parse C (Handshake ?s) (sh, ?r2 @ ?z) = Inr pa"
    using Parse_ServerHello_returns [OF assms(2,3) cap] by blast
  have p1: "ParsePacket C ?s (?r1 @ ?r2, ?z)
              = Inr (?s\<lparr>Handshake := pa\<rparr>,
                     Some \<lparr>pktType = dtlsContentTypeHandshake, pktEpoch = e2,
                           pktSequence = Uint64 ([0, 0] @ drop 2 (PutUint64 q2)),
                           ContentLength = of_nat (length sh), Content = (sh, ?r2 @ ?z)\<rparr>)"
    unfolding ParsePacket_record [OF l1] using ne pa by simp
  obtain pb where pb: "Parse C pa (shd, ?z) = Inr pb"
    using Parse_ServerHelloDone_returns [OF assms(4,5)] by blast
  have p2: "ParsePacket C (?s\<lparr>Handshake := pa\<rparr>) (?r2, ?z)
              = Inr (?s\<lparr>Handshake := pb\<rparr>,
                     Some \<lparr>pktType = dtlsContentTypeHandshake, pktEpoch = e3,
                           pktSequence = Uint64 ([0, 0] @ drop 2 (PutUint64 q3)),
                           ContentLength = of_nat (length shd), Content = (shd, ?z)\<rparr>)"
    unfolding ParsePacket_record_last [OF l2] using ne pb by simp
  have "parseTwo C ?s (?r1 @ ?r2) = Inr (?s\<lparr>Handshake := pb\<rparr>, None)"
    using p1 p2 assms(1) by (rule parseTwo_returns)
  then show ?thesis
    unfolding GetSession_def ToBytes_def by (simp add: Let_def)
qed

lemma prfLoop_nullCrypto:
  "prfLoop nullCrypto secret a0 ai (replicate k 0) n = Some (replicate n 0)"
proof (induction "n - k" arbitrary: k ai rule: less_induct)
  case less
  show ?case
  proof (cases "k < n")
    case True
    then have "n - (k + 32) < n - k" by simp
    from less [OF this, of "replicate 32 0"]
    show ?thesis
      using True
      by (subst prfLoop.simps) (simp add: nullCrypto_def replicate_add)
  next
    case False
    then show ?thesis
      by (subst prfLoop.simps) (simp add: min_def)
  qed
qed

lemma dtlsPrf_nullCrypto: "dtlsPrf nullCrypto secret label seed n = Inr (replicate n 0)"
  using prfLoop_nullCrypto [of secret _ _ 0 n] by (simp add: dtlsPrf_def)

lemma GenerateSecurityParams_nullCrypto:
  "\<exists>dtls4. GenerateSecurityParams nullCrypto dtls = Inr dtls4 \<and>
     validKey (ClientWriteKey dtls4) \<and> validKey (ServerWriteKey dtls4) \<and>
     ServerEncrypt dtls4 = ServerEncrypt dtls"
  by (simp add: GenerateSecurityParams_def dtlsPrf_nullCrypto Let_def validKey_def)

lemma length_copyInto [simp]: "length (copyInto dst src) = length dst"
  by (simp add: copyInto_def)

lemma copyInto_same_length: "length src = length dst \<Longrightarrow> copyInto dst src = src"
  by (simp add: copyInto_def)

lemma dtlsGenerateMAC_nullCrypto:
  assumes "validKey key" and "length aad = 13" and "length paddedData mod 16 = 0"
  shows "dtlsGenerateMAC nullCrypto aad nonce len paddedData key = Inr (replicate 16 0)"
proof -
  let ?blocks = "[0x5A] @ copyInto (replicate 12 0) nonce @ [0] @ PutUint16 len
              @ PutUint16 (of_nat (length aad)) @ aad @ replicate (14 - length aad) 0
              @ paddedData"
  have l: "length ?blocks = 32 + length paddedData"
    using assms(2) by (simp add: PutUint16_def)
  then have m: "length ?blocks mod 16 = 0" using assms(3) by presburger
  have c: "copyInto (replicate (length ?blocks) 0)
             (aesCBC nullCrypto key (replicate 16 0) ?blocks) = replicate (length ?blocks) 0"
    by (subst copyInto_same_length) (simp_all add: nullCrypto_def)
  have d: "drop (length ?blocks - 16) (replicate (length ?blocks) (0::byte)) = replicate 16 0"
    unfolding l by simp
  show ?thesis
    unfolding dtlsGenerateMAC_def Let_def c d using assms(1,2) m by simp
qed

lemma paddingLength_24: "paddingLength 24 = 8"
  by (simp add: paddingLength_def)

lemma length_dtlsGenerateAAD: "length (dtlsGenerateAAD es ty len) = 13"
  by (simp add: dtlsGenerateAAD_def PutUint16_def)

lemma encrypt_nullCrypto:
  assumes "validKey (ClientWriteKey dtls)" and "length data = 24"
  shows "\<exists>content. encrypt nullCrypto dtls data ty = Inr content \<and> length content = 40"
proof -
  let ?es = "PutUint16 (ClientEpoch dtls) @ drop 2 (PutUint64 (ClientSequence dtls))"
  have mac: "dtlsGenerateMAC nullCrypto (dtlsGenerateAAD ?es ty (of_nat (length data)))
          (dtlsGenerateNonce (ClientIV dtls) ?es) (of_nat (length data))
          (data @ replicate (paddingLength (length data)) 0) (ClientWriteKey dtls)
        = Inr (replicate 16 0)"
    by (rule dtlsGenerateMAC_nullCrypto [OF assms(1) length_dtlsGenerateAAD])
      (simp add: assms(2) paddingLength_24)
  show ?thesis
    unfolding encrypt_def Let_def mac using assms
    by (simp add: paddingLength_24 PutUint16_def PutUint64_def)
qed

lemma aesCTR_nullCrypto: "aesCTR nullCrypto key iv src = src"
  by (simp add: nullCrypto_def)

lemma decrypt_nullCrypto:
  assumes "validKey (ServerWriteKey dtls)" and "length es = 8" and "length plain = 24"
  shows "decrypt nullCrypto dtls (es @ plain @ replicate 8 0, behind) ty
           = Inr (Some (plain, replicate 8 0))"
  using assms
  by (simp add: decrypt_def reslice_def Let_def paddingLength_24 aesCTR_nullCrypto
      copyInto_same_length dtlsGenerateMAC_nullCrypto length_dtlsGenerateAAD)

lemma length_handshakeHeader [simp]: "length (handshakeHeader ty sq n) = 12"
  by (simp add: handshakeHeader_def PutUint32_def PutUint16_def)

lemma handshakeHeader_type [simp]: "(handshakeHeader ty sq n @ body) ! 0 = ty"
  by (simp add: handshakeHeader_def)

lemma helloVerifyRequest_facts:
  "helloVerifyRequest ! 0 = dtlsHandshakeTypeHelloVerifyRequest"
  "length helloVerifyRequest = 47"
  "take 32 (drop 15 helloVerifyRequest) = replicate 32 0xCC"
  by (simp_all add: helloVerifyRequest_def PutUint16_def)

lemma serverHello_facts:
  "serverHello ! 0 = dtlsHandshakeTypeServerHello"
  "length serverHello = 82"
  "length serverHello = 12 + unat (Uint32 0 (serverHello ! 1) (serverHello ! 2) (serverHello ! 3))"
  by (simp_all add: serverHello_def PutUint16_def PutUint32_def handshakeHeader_def Uint32_def)

lemma serverHelloDone_facts:
  "serverHelloDone ! 0 = dtlsHandshakeTypeServerHelloDone"
  "length serverHelloDone = 12"
  "length serverHelloDone
     = 12 + unat (Uint32 0 (serverHelloDone ! 1) (serverHelloDone ! 2) (serverHelloDone ! 3))"
  by (simp_all add: serverHelloDone_def PutUint16_def PutUint32_def handshakeHeader_def Uint32_def)

lemma serverFinished_facts:
  "serverFinished ! 0 = dtlsHandshakeTypeFinished"
  "length serverFinished = 24"
  "take 12 (drop 12 (serverFinished @ replicate 8 0)) = replicate 12 0"
  by (simp_all add: serverFinished_def)

lemma serverFinished_not_empty: "serverFinished \<noteq> []"
  using serverFinished_facts(2) by auto

lemma hello_facts:
  "length (clientHelloBody ((Handshake (dialState [105, 100] psk (replicate 32 7)))\<lparr>
      Cookie := replicate 32 0xCC\<rparr>)) = 74"
  "length (clientKeyExchangeBody ((Handshake (dialState [105, 100] psk (replicate 32 7)))\<lparr>
      Cookie := replicate 32 0xCC\<rparr>)) = 4"
  "clientKeyExchangeBody ((Handshake (dialState [105, 100] psk (replicate 32 7)))\<lparr>
      Cookie := replicate 32 0xCC\<rparr>) = [0, 2, 105, 100]"
  by (simp_all add: clientHelloBody_def clientKeyExchangeBody_def dialState_def PutUint16_def)

lemma length_serverFlights_2: "length (serverFlights ! 2) \<le> dtlsPacketSize"
  by (simp add: serverFlights_def changeCipherSpecRecord_def length_packetToBytes
      serverFinished_facts)


lemma Parse_serverFinished_nullCrypto:
  "\<exists>p. Parse nullCrypto params (serverFinished, replicate 8 0) = Inr p"
  by (simp add: Parse_def reslice_def Let_def serverFinished_def GenerateServerVerifyData_def
      dtlsPrf_nullCrypto handshakeHeader_def)

lemma SendFinished_nullCrypto:
  assumes "validKey (ClientWriteKey dtls)" and "validKey (ServerWriteKey dtls)"
    and "\<not> ServerEncrypt dtls"
  shows "\<exists>dtls'. SendFinished nullCrypto dtls (Some (serverFlights ! 2)) = Inr (dtls', None) \<and>
           ServerWriteKey dtls' = ServerWriteKey dtls"
proof -
  let ?body = "[0, 1, 0, 0, 0, 0, 0, 0] @ serverFinished @ replicate 8 (0::byte)"
  let ?r1 = "packetToBytes dtlsContentTypeChangeCipherSpec 0 3 [dtlsChangeCipherSpecMessage]"
  let ?r2 = "packetToBytes dtlsContentTypeHandshake 1 0 ?body"
  let ?z = "replicate (1024 - length (?r1 @ ?r2)) (0::byte)"
  let ?h = "Handshake dtls"
  let ?fin = "handshakeHeader dtlsHandshakeTypeFinished (hsClientSequence ?h) 12 @ replicate 12 0"
  let ?d1 = "dtls\<lparr>Handshake := ?h\<lparr>Messages := Messages ?h @ ?fin\<rparr>\<rparr>"
  have d3: "serverFlights ! 2 = ?r1 @ ?r2"
    by (simp add: serverFlights_def changeCipherSpecRecord_def)
  have len: "length (?r1 @ ?r2) \<le> 1024"
    by (simp add: length_packetToBytes serverFinished_facts)
  have tb: "ToBytes nullCrypto dtlsHandshakeTypeFinished (hsClientSequence ?h) ?h = Inr ?fin"
    by (simp add: ToBytes_def GenerateClientVerifyData_def dtlsPrf_nullCrypto)
  have "validKey (ClientWriteKey ?d1)" using assms(1) by simp
  from encrypt_nullCrypto [OF this, of ?fin dtlsContentTypeHandshake]
  obtain content where
    enc: "encrypt nullCrypto ?d1 ?fin dtlsContentTypeHandshake = Inr content"
    by auto
  let ?s = "sendHandshake ?d1 content"
  have ne: "\<not> ServerEncrypt ?s" using assms(3) by (simp add: sendHandshake_def)
  have p1: "ParsePacket nullCrypto ?s (?r1 @ ?r2, ?z)
              = Inr (?s\<lparr>ServerEncrypt := True\<rparr>,
                     Some \<lparr>pktType = dtlsContentTypeChangeCipherSpec, pktEpoch = 0,
                           pktSequence = Uint64 ([0, 0] @ drop 2 (PutUint64 3)),
                           ContentLength = of_nat (length [dtlsChangeCipherSpecMessage]),
                           Content = ([dtlsChangeCipherSpecMessage], ?r2 @ ?z)\<rparr>)"
    using ne by (subst ParsePacket_record) simp_all
  have vk: "validKey (ServerWriteKey (?s\<lparr>ServerEncrypt := True\<rparr>))"
    using assms(2) by (simp add: sendHandshake_def)
  have dec: "decrypt nullCrypto (?s\<lparr>ServerEncrypt := True\<rparr>) (?body, ?z) dtlsContentTypeHandshake
               = Inr (Some (serverFinished, replicate 8 0))"
    using decrypt_nullCrypto [OF vk, of "[0, 1, 0, 0, 0, 0, 0, 0]" serverFinished ?z
        dtlsContentTypeHandshake]
    by (simp add: serverFinished_facts)
  obtain p where p: "Parse nullCrypto (Handshake (?s\<lparr>ServerEncrypt := True\<rparr>))
                       (serverFinished, replicate 8 0) = Inr p"
    using Parse_serverFinished_nullCrypto by blast
  have lb: "length ?body < 65536" by (simp add: serverFinished_facts)
  have p2: "ParsePacket nullCrypto (?s\<lparr>ServerEncrypt := True\<rparr>) (?r2, ?z)
              = Inr (?s\<lparr>ServerEncrypt := True, Handshake := p\<rparr>,
                     Some \<lparr>pktType = dtlsContentTypeHandshake, pktEpoch = 1,
                           pktSequence = Uint64 ([0, 0] @ drop 2 (PutUint64 0)),
                           ContentLength = of_nat (length ?body),
                           Content = (serverFinished, replicate 8 0)\<rparr>)"
    unfolding ParsePacket_record_last [OF lb] using dec p by simp
  have "parseTwo nullCrypto ?s (?r1 @ ?r2) = Inr (?s\<lparr>ServerEncrypt := True, Handshake := p\<rparr>, None)"
    using p1 p2 len by (rule parseTwo_returns)
  then have "SendFinished nullCrypto dtls (Some (serverFlights ! 2))
               = Inr (?s\<lparr>ServerEncrypt := True, Handshake := p\<rparr>, None)"
    unfolding d3 SendFinished_def tb by (simp add: Let_def enc)
  then show ?thesis by (simp add: sendHandshake_def)
qed

lemma processHandshake_nullCrypto:
  "\<exists>dtls'. processHandshake nullCrypto (dialState identity psk clientRandom) serverFlights
              = Inr (Inr dtls') \<and> validKey (ServerWriteKey dtls')"
proof -
  let ?d0 = "dialState identity psk clientRandom"
  let ?h = "packetToBytes dtlsContentTypeHandshake 0 0 helloVerifyRequest"
  let ?s = "packetToBytes dtlsContentTypeHandshake 0 1 serverHello
            @ packetToBytes dtlsContentTypeHandshake 0 2 serverHelloDone"
  have n: "nextDatagram serverFlights 0 = Some ?h" "nextDatagram serverFlights 1 = Some ?s"
    "nextDatagram serverFlights 2 = Some (serverFlights ! 2)"
    by (simp_all add: nextDatagram_def serverFlights_def)
  have ne0: "\<not> ServerEncrypt ?d0" by (simp add: dialState_def)
  have l1: "length ?h \<le> 1024"
    by (simp add: length_packetToBytes helloVerifyRequest_facts)
  have l2: "length ?s \<le> 1024"
    by (simp add: length_packetToBytes serverHello_facts serverHelloDone_facts)
  obtain dtls1 where g1: "GetCookie nullCrypto ?d0 (Some ?h) = Inr (dtls1, None)"
    using GetCookie_returns [OF l1 helloVerifyRequest_facts(1) _ ne0]
    by (auto simp: helloVerifyRequest_facts)
  have ne1: "\<not> ServerEncrypt dtls1"
    using GetCookie_HelloVerifyRequest [OF g1 l1 helloVerifyRequest_facts(1) _ ne0]
    by (simp add: helloVerifyRequest_facts)
  note sh = serverHello_facts(3) and shd = serverHelloDone_facts(3)
  obtain dtls2 where g2: "GetSession nullCrypto dtls1 (Some ?s) = Inr (dtls2, None)"
    using GetSession_returns [OF l2 serverHello_facts(1) sh serverHelloDone_facts(1) shd ne1]
    by blast
  have ne2: "\<not> ServerEncrypt dtls2"
    using GetSession_ServerHello_Done
      [OF g2 l2 serverHello_facts(1) sh serverHelloDone_facts(1) shd ne1]
    by simp
  obtain dtls3 where g3: "SendClientKeyExchange nullCrypto dtls2 = Inr (dtls3, None)"
    by (simp add: SendClientKeyExchange_def ToBytes_def)
  have ne3: "\<not> ServerEncrypt dtls3"
    using SendClientKeyExchange_state [OF g3] ne2 by simp
  obtain dtls4 where
    g4: "GenerateSecurityParams nullCrypto (fst (SendChangeCipherSpec dtls3)) = Inr dtls4"
    and k4: "validKey (ClientWriteKey dtls4)" "validKey (ServerWriteKey dtls4)"
    and e4: "ServerEncrypt dtls4 = ServerEncrypt (fst (SendChangeCipherSpec dtls3))"
    using GenerateSecurityParams_nullCrypto [of "fst (SendChangeCipherSpec dtls3)"] by blast
  have ne4: "\<not> ServerEncrypt dtls4"
    using e4 ne3 by (simp add: SendChangeCipherSpec_def)
  obtain dtls' where
    g5: "SendFinished nullCrypto dtls4 (Some (serverFlights ! 2)) = Inr (dtls', None)"
    and k5: "ServerWriteKey dtls' = ServerWriteKey dtls4"
    using SendFinished_nullCrypto [OF k4 ne4] by blast
  have "processHandshake nullCrypto ?d0 serverFlights = Inr (Inr dtls')"
    unfolding processHandshake_def n by (simp add: g1 g2 g3 g4 g5)
  with k4(2) k5 show ?thesis by simp
qed

text \<open>The theorem at a complete handshake: the dial of the identity \<open>id\<close> with the stand-in
  primitives, answered by \<open>serverFlights\<close>. The handshake is established, the verify data
  of both sides are 12 zeros, and the server's are accepted.\<close>

theorem handshake_verify_data_witness:
  "\<exists>dtls'.
     processHandshake nullCrypto (dialState [105, 100] [1, 2] (replicate 32 7)) serverFlights
       = Inr (Inr dtls') \<and>
     decrypt nullCrypto dtls'
       ([0, 1, 0, 0, 0, 0, 0, 0] @ serverFinished @ replicate 8 0,
        replicate (dtlsPacketSize - length (serverFlights ! 2)) 0) dtlsContentTypeHandshake
       = Inr (Some (serverFinished, replicate 8 0)) \<and>
     dtlsPrf nullCrypto (MasterSecret (Handshake dtls')) ''client finished''
       (sha256 nullCrypto
          (handshakeHeader dtlsHandshakeTypeClientHello 1 74
           @ clientHelloBody ((Handshake (dialState [105, 100] [1, 2] (replicate 32 7)))\<lparr>
               Cookie := replicate 32 0xCC\<rparr>)
           @ serverHello @ serverHelloDone
           @ handshakeHeader dtlsHandshakeTypeClientKeyExchange 2 4 @ [0, 2, 105, 100])) 12
       = Inr (replicate 12 0) \<and>
     Messages (Handshake dtls') =
       handshakeHeader dtlsHandshakeTypeClientHello 1 74
       @ clientHelloBody ((Handshake (dialState [105, 100] [1, 2] (replicate 32 7)))\<lparr>
           Cookie := replicate 32 0xCC\<rparr>)
       @ serverHello @ serverHelloDone
       @ handshakeHeader dtlsHandshakeTypeClientKeyExchange 2 4 @ [0, 2, 105, 100]
       @ handshakeHeader dtlsHandshakeTypeFinished 3 12 @ replicate 12 0 \<and>
     Verified (Handshake dtls')"
proof -
  let ?d0 = "dialState [105, 100] [1, 2] (replicate 32 7)"
  let ?body = "[0, 1, 0, 0, 0, 0, 0, 0] @ serverFinished @ replicate 8 (0::byte)"
  obtain dtls' where
    est: "processHandshake nullCrypto ?d0 serverFlights = Inr (Inr dtls')"
    and vk: "validKey (ServerWriteKey dtls')"
    using processHandshake_nullCrypto by blast
  have d3: "serverFlights ! 2 =
              packetToBytes dtlsContentTypeChangeCipherSpec 0 3 [dtlsChangeCipherSpecMessage]
              @ packetToBytes dtlsContentTypeHandshake 1 0 ?body"
    by (simp add: serverFlights_def changeCipherSpecRecord_def)
  have dec: "decrypt nullCrypto dtls'
               (?body, replicate (dtlsPacketSize - length (serverFlights ! 2)) 0)
               dtlsContentTypeHandshake = Inr (Some (serverFinished, replicate 8 0))"
    using decrypt_nullCrypto [OF vk, of "[0, 1, 0, 0, 0, 0, 0, 0]" serverFinished _
        dtlsContentTypeHandshake]
    by (simp add: serverFinished_facts)
  have fl: "serverFlights =
      [packetToBytes dtlsContentTypeHandshake 0 0 helloVerifyRequest,
       packetToBytes dtlsContentTypeHandshake 0 1 serverHello
       @ packetToBytes dtlsContentTypeHandshake 0 2 serverHelloDone,
       serverFlights ! 2]"
    by (simp add: serverFlights_def)
  have est': "processHandshake nullCrypto ?d0
      [packetToBytes dtlsContentTypeHandshake 0 0 helloVerifyRequest,
       packetToBytes dtlsContentTypeHandshake 0 1 serverHello
       @ packetToBytes dtlsContentTypeHandshake 0 2 serverHelloDone,
       serverFlights ! 2] = Inr (Inr dtls')"
    using est fl by simp
  have "\<exists>vd svd.
           (let hello = (Handshake ?d0)\<lparr>Cookie := take 32 (drop 15 helloVerifyRequest)\<rparr>;
                M = handshakeHeader dtlsHandshakeTypeClientHello 1 (length (clientHelloBody hello))
                    @ clientHelloBody hello @ serverHello @ serverHelloDone
                    @ handshakeHeader dtlsHandshakeTypeClientKeyExchange 2
                        (length (clientKeyExchangeBody hello))
                    @ clientKeyExchangeBody hello;
                master = MasterSecret (Handshake dtls');
                finished = handshakeHeader dtlsHandshakeTypeFinished 3 12 @ vd
            in
            dtlsPrf nullCrypto master ''client finished'' (sha256 nullCrypto M) 12 = Inr vd \<and>
            length vd = 12 \<and>
            Messages (Handshake dtls') = M @ finished \<and>
            dtlsPrf nullCrypto master ''server finished'' (sha256 nullCrypto (M @ finished)) 12
              = Inr svd \<and>
            Verified (Handshake dtls')
              = (svd = take 12 (drop 12 (fst (serverFinished, replicate 8 (0::byte))
                                          @ snd (serverFinished, replicate 8 (0::byte))))))"
    by (rule handshake_verify_data
        [OF est' refl _ helloVerifyRequest_facts(1) _ refl _ serverHello_facts(1,3)
          serverHelloDone_facts(1,3) d3 length_serverFlights_2 dec])
      (simp_all add: length_packetToBytes helloVerifyRequest_facts(2) serverHello_facts(2)
        serverHelloDone_facts(2) serverFinished_facts serverFinished_not_empty)
  moreover have l4: "length [0, 2, 105, 100 :: byte] = 4" by simp
  ultimately obtain vd svd where
    "dtlsPrf nullCrypto (MasterSecret (Handshake dtls')) ''client finished''
       (sha256 nullCrypto
          (handshakeHeader dtlsHandshakeTypeClientHello 1 74
           @ clientHelloBody ((Handshake ?d0)\<lparr>Cookie := replicate 32 0xCC\<rparr>)
           @ serverHello @ serverHelloDone
           @ handshakeHeader dtlsHandshakeTypeClientKeyExchange 2 4 @ [0, 2, 105, 100])) 12
       = Inr vd"
    "Messages (Handshake dtls') =
       (handshakeHeader dtlsHandshakeTypeClientHello 1 74
        @ clientHelloBody ((Handshake ?d0)\<lparr>Cookie := replicate 32 0xCC\<rparr>)
        @ serverHello @ serverHelloDone
        @ handshakeHeader dtlsHandshakeTypeClientKeyExchange 2 4 @ [0, 2, 105, 100])
       @ handshakeHeader dtlsHandshakeTypeFinished 3 12 @ vd"
    "dtlsPrf nullCrypto (MasterSecret (Handshake dtls')) ''server finished''
       (sha256 nullCrypto
          ((handshakeHeader dtlsHandshakeTypeClientHello 1 74
            @ clientHelloBody ((Handshake ?d0)\<lparr>Cookie := replicate 32 0xCC\<rparr>)
            @ serverHello @ serverHelloDone
            @ handshakeHeader dtlsHandshakeTypeClientKeyExchange 2 4 @ [0, 2, 105, 100])
           @ handshakeHeader dtlsHandshakeTypeFinished 3 12 @ vd)) 12
       = Inr svd"
    "Verified (Handshake dtls') = (svd = replicate 12 0)"
    unfolding Let_def fst_conv snd_conv serverFinished_facts(3) helloVerifyRequest_facts(3)
      hello_facts l4
    by blast
  then have "vd = replicate 12 0" "svd = replicate 12 0"
    "Messages (Handshake dtls') =
       handshakeHeader dtlsHandshakeTypeClientHello 1 74
       @ clientHelloBody ((Handshake ?d0)\<lparr>Cookie := replicate 32 0xCC\<rparr>)
       @ serverHello @ serverHelloDone
       @ handshakeHeader dtlsHandshakeTypeClientKeyExchange 2 4 @ [0, 2, 105, 100]
       @ handshakeHeader dtlsHandshakeTypeFinished 3 12 @ vd"
    "Verified (Handshake dtls') = (svd = replicate 12 0)"
    by (simp_all add: dtlsPrf_nullCrypto)
  then show ?thesis
    using est dec by (simp add: dtlsPrf_nullCrypto)
qed

end
